(* ===== verification/Prelude.thy ===== *)
theory Prelude
  imports Main
begin

text \<open>
  Shared vocabulary of the development.

  \<^item> Rust's \<^verbatim>\<open>Result<T, E>\<close> is the sum type \<open>'e + 'a\<close> with \<open>Inl\<close> for \<^verbatim>\<open>Err\<close> and
    \<open>Inr\<close> for \<^verbatim>\<open>Ok\<close>; the combinators below carry the names of the methods of
    \<^verbatim>\<open>Result\<close> that the sources call (\<^verbatim>\<open>and_then\<close>, \<^verbatim>\<open>map\<close>, \<^verbatim>\<open>map_err\<close>) and the
    question-mark operator is \<open>and_then\<close>.
  \<^item> \<open>traverse\<close> is the collection of an iterator of results into a result of a
    vector, which stops at the first error.
  \<^item> The lemmas on association lists are the ones every component needs about an
    object's entries: lookups in mapped, filtered and appended entry lists, and the
    fact that a key-distinct entry list is determined by its set of entries.

  The collections \<open>result_simps\<close> and \<open>alist_simps\<close> bundle these facts for
  \<open>simp add:\<close> in the component theories.
\<close>

section \<open>Results\<close>

named_theorems result_simps "rewrite rules of the Result combinators"
named_theorems alist_simps "lookups in association lists"

definition and_then :: "'e + 'a \<Rightarrow> ('a \<Rightarrow> 'e + 'b) \<Rightarrow> 'e + 'b" where
  "and_then r f = (case r of Inl e \<Rightarrow> Inl e | Inr x \<Rightarrow> f x)"

definition map_res :: "('a \<Rightarrow> 'b) \<Rightarrow> 'e + 'a \<Rightarrow> 'e + 'b" where
  "map_res f r = (case r of Inl e \<Rightarrow> Inl e | Inr x \<Rightarrow> Inr (f x))"

definition map_err :: "('e \<Rightarrow> 'f) \<Rightarrow> 'e + 'a \<Rightarrow> 'f + 'a" where
  "map_err f r = (case r of Inl e \<Rightarrow> Inl (f e) | Inr x \<Rightarrow> Inr x)"

definition is_ok :: "'e + 'a \<Rightarrow> bool" where
  "is_ok r = (case r of Inl _ \<Rightarrow> False | Inr _ \<Rightarrow> True)"

primrec traverse :: "('a \<Rightarrow> 'e + 'b) \<Rightarrow> 'a list \<Rightarrow> 'e + 'b list" where
  "traverse f [] = Inr []"
| "traverse f (x # xs) =
     (case f x of
        Inl e \<Rightarrow> Inl e
      | Inr y \<Rightarrow> (case traverse f xs of Inl e \<Rightarrow> Inl e | Inr ys \<Rightarrow> Inr (y # ys)))"

abbreviation keys_of :: "('k \<times> 'v) list \<Rightarrow> 'k list" where
  "keys_of kvs \<equiv> map fst kvs"

lemma and_then_simps [simp, result_simps]:
  "and_then (Inl e) f = Inl e"
  "and_then (Inr x) f = f x"
  by (simp_all add: and_then_def)

lemma map_res_simps [simp, result_simps]:
  "map_res f (Inl e) = Inl e"
  "map_res f (Inr x) = Inr (f x)"
  by (simp_all add: map_res_def)

lemma map_err_simps [simp, result_simps]:
  "map_err g (Inl e) = Inl (g e)"
  "map_err g (Inr x) = Inr x"
  by (simp_all add: map_err_def)

lemma is_ok_simps [simp, result_simps]:
  "is_ok (Inl e) = False"
  "is_ok (Inr x) = True"
  by (simp_all add: is_ok_def)

lemma is_ok_iff: "is_ok r \<longleftrightarrow> (\<exists>x. r = Inr x)"
  by (cases r) simp_all

lemma not_is_ok_iff: "\<not> is_ok r \<longleftrightarrow> (\<exists>e. r = Inl e)"
  by (cases r) simp_all

lemma and_then_Inr_iff [result_simps]:
  "and_then r f = Inr y \<longleftrightarrow> (\<exists>x. r = Inr x \<and> f x = Inr y)"
  by (cases r) simp_all

lemma and_then_Inl_iff [result_simps]:
  "and_then r f = Inl e \<longleftrightarrow> r = Inl e \<or> (\<exists>x. r = Inr x \<and> f x = Inl e)"
  by (cases r) simp_all

lemma map_res_Inr_iff [result_simps]:
  "map_res f r = Inr y \<longleftrightarrow> (\<exists>x. r = Inr x \<and> y = f x)"
  by (cases r) auto

lemma map_res_Inl_iff [result_simps]: "map_res f r = Inl e \<longleftrightarrow> r = Inl e"
  by (cases r) simp_all

lemma map_err_Inr_iff [result_simps]: "map_err g r = Inr x \<longleftrightarrow> r = Inr x"
  by (cases r) simp_all

lemma map_err_Inl_iff [result_simps]:
  "map_err g r = Inl e \<longleftrightarrow> (\<exists>e'. r = Inl e' \<and> e = g e')"
  by (cases r) auto

lemma is_ok_map_res [simp]: "is_ok (map_res f r) = is_ok r"
  by (cases r) simp_all

lemma is_ok_map_err [simp]: "is_ok (map_err g r) = is_ok r"
  by (cases r) simp_all

lemma map_res_map_err: "map_res f (map_err g r) = map_err g (map_res f r)"
  by (cases r) simp_all


section \<open>Collecting results over a list\<close>

lemma traverse_Inr_map:
  "(\<And>x. x \<in> set xs \<Longrightarrow> f x = Inr (g x)) \<Longrightarrow> traverse f xs = Inr (map g xs)"
  by (induction xs) simp_all

lemma traverse_map: "traverse f (map h xs) = traverse (\<lambda>x. f (h x)) xs"
  by (induction xs) (simp_all split: sum.splits)

lemma traverse_roundtrip:
  "(\<And>x. x \<in> set xs \<Longrightarrow> f (h x) = Inr x) \<Longrightarrow> traverse f (map h xs) = Inr xs"
  by (induction xs) simp_all

lemma traverse_Inr_length: "traverse f xs = Inr ys \<Longrightarrow> length ys = length xs"
  by (induction xs arbitrary: ys) (auto split: sum.splits)

lemma traverse_Inr_nth:
  "traverse f xs = Inr ys \<Longrightarrow> i < length xs \<Longrightarrow> f (xs ! i) = Inr (ys ! i)"
proof (induction xs arbitrary: ys i)
  case Nil
  then show ?case by simp
next
  case (Cons x xs)
  then show ?case by (cases i) (auto split: sum.splits)
qed

lemma traverse_Inl_elem: "traverse f xs = Inl e \<Longrightarrow> \<exists>x \<in> set xs. f x = Inl e"
  by (induction xs) (auto split: sum.splits)

lemma traverse_is_ok_iff: "is_ok (traverse f xs) \<longleftrightarrow> (\<forall>x \<in> set xs. is_ok (f x))"
  by (induction xs) (auto split: sum.splits)

lemma traverse_cong:
  "(\<And>x. x \<in> set xs \<Longrightarrow> f x = g x) \<Longrightarrow> traverse f xs = traverse g xs"
  by (induction xs) (simp_all split: sum.splits)


section \<open>Association lists\<close>

lemma map_of_map_snd [alist_simps]:
  "map_of (map (\<lambda>(k, v). (k, f v)) kvs) k = map_option f (map_of kvs k)"
  by (induction kvs) auto

lemma keys_of_map_snd [simp, alist_simps]:
  "keys_of (map (\<lambda>(k, v). (k, f v)) kvs) = keys_of kvs"
  by (induction kvs) auto

lemma map_of_eq_None_keys [alist_simps]: "map_of kvs k = None \<longleftrightarrow> k \<notin> set (keys_of kvs)"
  by (simp add: map_of_eq_None_iff)

lemma map_of_filter_keys [alist_simps]:
  "map_of (filter (\<lambda>(k, v). P k) kvs) k = (if P k then map_of kvs k else None)"
  by (induction kvs) auto

lemma map_of_distinct_set_eq:
  assumes "distinct (keys_of xs)" and "distinct (keys_of ys)" and "set xs = set ys"
  shows "map_of xs = map_of ys"
  using assms by (simp add: map_of_inject_set)

lemma distinct_keys_filter [simp]:
  "distinct (keys_of kvs) \<Longrightarrow> distinct (keys_of (filter P kvs))"
  by (simp add: distinct_map_filter)

lemma map_of_append_disjoint_left [alist_simps]:
  "k \<notin> set (keys_of ys) \<Longrightarrow> map_of (xs @ ys) k = map_of xs k"
  by (induction xs) (auto simp: map_of_eq_None_iff)

lemma map_of_append_disjoint_right [alist_simps]:
  "k \<notin> set (keys_of xs) \<Longrightarrow> map_of (xs @ ys) k = map_of ys k"
  by (induction xs) auto

end
