(* ===== verification/Json.thy ===== *)
theory Json
  imports Prelude
begin

text \<open>
  The generic tree: the parsed, untyped view of a JSON document that the
  deserializer of \<^verbatim>\<open>lambda-http\<close> probes (\<^verbatim>\<open>t.as_value()\<close>) and that every derived
  \<^verbatim>\<open>Deserialize\<close> implementation of \<^verbatim>\<open>lambda-events\<close> reads.

  The tree type and its accessors are those of the JSON backend, which is not part of
  the sources under \<^verbatim>\<open>src/\<close>; they are modelled from the specification's data model
  and from the calls the sources make:
  \<^item> an object is the list of its entries in document order, so that duplicate keys
    and entry order, which a tape preserves, can be expressed;
  \<^item> \<open>get\<close>, \<open>get_object\<close> and \<open>contains_key\<close> are the accessors the dispatcher calls
    on the root value, \<open>object_get\<close> the lookup it calls on an object; a lookup
    returns the first entry with the key;
  \<^item> \<open>lookup_path\<close>, \<open>has_key\<close>, \<open>get_object_at\<close> and \<open>contains_key_at\<close> are the
    path-indexed probes of the specification, defined from the one-step accessors.
  Numbers are integers: no source file of the repository reads a number directly.

  \<open>wf_json\<close> is the tree invariant of the specification (keys unique within every
  object). The lemmas give the accessors' behaviour on every shape of value (a
  missing path is \<open>None\<close> or \<open>False\<close>, never an error), relate the path probes to
  the one-step accessors, and show that probes preserve the invariant and do not
  depend on entry order in key-distinct objects.
\<close>

section \<open>The tree\<close>

datatype json =
    JNull
  | JBool bool
  | JNumber int
  | JString string
  | JArray "json list"
  | JObject "(string \<times> json) list"

type_synonym entries = "(string \<times> json) list"

datatype json_kind = KNull | KBool | KNumber | KString | KArray | KObject

fun kind_of :: "json \<Rightarrow> json_kind" where
  "kind_of JNull = KNull"
| "kind_of (JBool b) = KBool"
| "kind_of (JNumber n) = KNumber"
| "kind_of (JString s) = KString"
| "kind_of (JArray xs) = KArray"
| "kind_of (JObject kvs) = KObject"

fun wf_json :: "json \<Rightarrow> bool" where
  "wf_json (JArray xs) = list_all wf_json xs"
| "wf_json (JObject kvs) = (distinct (keys_of kvs) \<and> list_all (\<lambda>kv. wf_json (snd kv)) kvs)"
| "wf_json v = True"


section \<open>One-step accessors\<close>

named_theorems probe_defs "definitions of the structural probes"

definition as_object :: "json \<Rightarrow> entries option" where
  "as_object v = (case v of JObject kvs \<Rightarrow> Some kvs | _ \<Rightarrow> None)"

definition as_array :: "json \<Rightarrow> json list option" where
  "as_array v = (case v of JArray xs \<Rightarrow> Some xs | _ \<Rightarrow> None)"

definition as_str :: "json \<Rightarrow> string option" where
  "as_str v = (case v of JString s \<Rightarrow> Some s | _ \<Rightarrow> None)"

definition object_get :: "entries \<Rightarrow> string \<Rightarrow> json option" where
  "object_get kvs k = map_of kvs k"

definition get :: "json \<Rightarrow> string \<Rightarrow> json option" where
  "get v k = (case as_object v of None \<Rightarrow> None | Some kvs \<Rightarrow> object_get kvs k)"

definition get_object :: "json \<Rightarrow> string \<Rightarrow> entries option" where
  "get_object v k = (case get v k of None \<Rightarrow> None | Some c \<Rightarrow> as_object c)"

definition contains_key :: "json \<Rightarrow> string \<Rightarrow> bool" where
  "contains_key v k = (case as_object v of None \<Rightarrow> False | Some kvs \<Rightarrow> object_get kvs k \<noteq> None)"

lemmas [probe_defs] =
  as_object_def as_array_def as_str_def object_get_def get_def get_object_def contains_key_def


section \<open>Path probes\<close>

primrec lookup_path :: "string list \<Rightarrow> json \<Rightarrow> json option" where
  "lookup_path [] v = Some v"
| "lookup_path (k # ks) v = (case get v k of None \<Rightarrow> None | Some c \<Rightarrow> lookup_path ks c)"

definition has_key :: "json \<Rightarrow> string list \<Rightarrow> bool" where
  "has_key v path = (lookup_path path v \<noteq> None)"

definition get_object_at :: "json \<Rightarrow> string list \<Rightarrow> entries option" where
  "get_object_at v path = (case lookup_path path v of None \<Rightarrow> None | Some c \<Rightarrow> as_object c)"

definition contains_key_at :: "json \<Rightarrow> string list \<Rightarrow> string \<Rightarrow> bool" where
  "contains_key_at v path k =
     (case get_object_at v path of None \<Rightarrow> False | Some kvs \<Rightarrow> object_get kvs k \<noteq> None)"


section \<open>Behaviour of the accessors on each shape\<close>

lemma as_object_simps [simp]:
  "as_object (JObject kvs) = Some kvs"
  "as_object JNull = None"
  "as_object (JBool b) = None"
  "as_object (JNumber n) = None"
  "as_object (JString s) = None"
  "as_object (JArray xs) = None"
  by (simp_all add: as_object_def)

lemma as_object_Some_iff: "as_object v = Some kvs \<longleftrightarrow> v = JObject kvs"
  by (cases v) simp_all

lemma as_object_None_iff: "as_object v = None \<longleftrightarrow> kind_of v \<noteq> KObject"
  by (cases v) simp_all

lemma as_str_simps [simp]:
  "as_str (JString s) = Some s"
  "as_str JNull = None"
  "as_str (JBool b) = None"
  "as_str (JNumber n) = None"
  "as_str (JArray xs) = None"
  "as_str (JObject kvs) = None"
  by (simp_all add: as_str_def)

lemma as_array_simps [simp]:
  "as_array (JArray xs) = Some xs"
  "as_array JNull = None"
  "as_array (JBool b) = None"
  "as_array (JNumber n) = None"
  "as_array (JString s) = None"
  "as_array (JObject kvs) = None"
  by (simp_all add: as_array_def)

lemma object_get_simps [simp]:
  "object_get [] k = None"
  "object_get ((k', c) # kvs) k = (if k = k' then Some c else object_get kvs k)"
  by (auto simp: object_get_def)

lemma object_get_None_iff: "object_get kvs k = None \<longleftrightarrow> k \<notin> set (keys_of kvs)"
  by (simp add: object_get_def map_of_eq_None_iff)

lemma object_get_Some_mem: "object_get kvs k = Some c \<Longrightarrow> (k, c) \<in> set kvs"
  by (simp add: object_get_def map_of_SomeD)

lemma object_get_distinct:
  "distinct (keys_of kvs) \<Longrightarrow> (k, c) \<in> set kvs \<Longrightarrow> object_get kvs k = Some c"
  by (simp add: object_get_def)

lemma get_JObject [simp]: "get (JObject kvs) k = object_get kvs k"
  by (simp add: get_def)

lemma get_not_object [simp]: "kind_of v \<noteq> KObject \<Longrightarrow> get v k = None"
  by (cases v) (simp_all add: get_def)

lemma get_Some_iff: "get v k = Some c \<longleftrightarrow> (\<exists>kvs. v = JObject kvs \<and> object_get kvs k = Some c)"
  by (cases v) (simp_all add: get_def)

lemma get_object_JObject [simp]:
  "get_object (JObject kvs) k = (case object_get kvs k of None \<Rightarrow> None | Some c \<Rightarrow> as_object c)"
  by (simp add: get_object_def)

lemma get_object_not_object [simp]: "kind_of v \<noteq> KObject \<Longrightarrow> get_object v k = None"
  by (simp add: get_object_def)

lemma get_object_Some_iff:
  "get_object v k = Some rc \<longleftrightarrow> (\<exists>kvs. v = JObject kvs \<and> object_get kvs k = Some (JObject rc))"
  by (cases v) (auto simp: get_object_def get_def as_object_Some_iff split: option.splits)

lemma get_object_None_iff:
  "get_object v k = None \<longleftrightarrow> (\<forall>rc. get v k \<noteq> Some (JObject rc))"
proof (cases "get v k")
  case None
  then show ?thesis by (simp add: get_object_def)
next
  case (Some c)
  then show ?thesis by (cases c) (simp_all add: get_object_def)
qed

lemma contains_key_JObject [simp]:
  "contains_key (JObject kvs) k \<longleftrightarrow> k \<in> set (keys_of kvs)"
  by (simp add: contains_key_def object_get_None_iff)

lemma contains_key_not_object [simp]: "kind_of v \<noteq> KObject \<Longrightarrow> \<not> contains_key v k"
  by (cases v) (simp_all add: contains_key_def)

lemma contains_key_iff_get: "contains_key v k \<longleftrightarrow> get v k \<noteq> None"
  by (cases v) (simp_all add: contains_key_def get_def)

lemma get_object_imp_contains_key: "get_object v k = Some rc \<Longrightarrow> contains_key v k"
  by (simp add: contains_key_iff_get get_object_def split: option.splits)


section \<open>Path probes in terms of the one-step accessors\<close>

lemma lookup_path_append:
  "lookup_path (ps @ qs) v =
     (case lookup_path ps v of None \<Rightarrow> None | Some c \<Rightarrow> lookup_path qs c)"
  by (induction ps arbitrary: v) (simp_all split: option.splits)

lemma lookup_path_single: "lookup_path [k] v = get v k"
  by (simp split: option.splits)

lemma lookup_path_not_object:
  "kind_of v \<noteq> KObject \<Longrightarrow> lookup_path (k # ks) v = None"
  by simp

lemma has_key_Nil [simp]: "has_key v []"
  by (simp add: has_key_def)

lemma has_key_single: "has_key v [k] \<longleftrightarrow> contains_key v k"
  by (simp add: has_key_def contains_key_iff_get split: option.splits)

lemma has_key_prefix: "has_key v (ps @ qs) \<Longrightarrow> has_key v ps"
  by (auto simp: has_key_def lookup_path_append split: option.splits)

lemma get_object_at_Nil [simp]: "get_object_at v [] = as_object v"
  by (simp add: get_object_at_def)

lemma get_object_at_single: "get_object_at v [k] = get_object v k"
  by (simp add: get_object_at_def get_object_def split: option.splits)

lemma contains_key_at_Nil: "contains_key_at v [] k \<longleftrightarrow> contains_key v k"
  by (simp add: contains_key_at_def contains_key_def)

lemma contains_key_at_lookup:
  "contains_key_at v path k =
     (case lookup_path path v of None \<Rightarrow> False | Some c \<Rightarrow> contains_key c k)"
  by (simp add: contains_key_at_def get_object_at_def contains_key_def split: option.splits)

lemma has_key_snoc:
  "has_key v (path @ [k]) =
     (case lookup_path path v of None \<Rightarrow> False | Some c \<Rightarrow> contains_key c k)"
  by (simp add: has_key_def lookup_path_append lookup_path_single contains_key_iff_get
      del: lookup_path.simps split: option.splits)

lemma contains_key_at_iff_has_key: "contains_key_at v path k \<longleftrightarrow> has_key v (path @ [k])"
  by (simp only: contains_key_at_lookup has_key_snoc)

lemma has_key_pair:
  "has_key v [k, k'] \<longleftrightarrow> (case get v k of None \<Rightarrow> False | Some c \<Rightarrow> contains_key c k')"
  using has_key_snoc [of v "[k]" k'] by (simp add: lookup_path_single del: lookup_path.simps)

lemma has_key_under_object:
  "get_object v k = Some rc \<Longrightarrow> has_key v [k, k'] \<longleftrightarrow> object_get rc k' \<noteq> None"
  by (auto simp: has_key_pair get_object_Some_iff contains_key_def)

lemma contains_key_at_single:
  "contains_key_at v [k] k' \<longleftrightarrow>
     (case get_object v k of None \<Rightarrow> False | Some rc \<Rightarrow> object_get rc k' \<noteq> None)"
  by (simp add: contains_key_at_def get_object_at_single)


section \<open>The tree invariant\<close>

lemma wf_json_object_get:
  "wf_json (JObject kvs) \<Longrightarrow> object_get kvs k = Some c \<Longrightarrow> wf_json c"
  by (auto simp: list_all_iff dest!: object_get_Some_mem)

lemma wf_json_get: "wf_json v \<Longrightarrow> get v k = Some c \<Longrightarrow> wf_json c"
  by (auto simp: get_Some_iff intro: wf_json_object_get)

lemma wf_json_lookup_path: "wf_json v \<Longrightarrow> lookup_path path v = Some c \<Longrightarrow> wf_json c"
  by (induction path arbitrary: v) (auto split: option.splits intro: wf_json_get)

lemma object_get_set_eq:
  "distinct (keys_of xs) \<Longrightarrow> distinct (keys_of ys) \<Longrightarrow> set xs = set ys \<Longrightarrow>
   object_get xs = object_get ys"
  by (rule ext) (simp add: object_get_def map_of_distinct_set_eq [of xs ys])

lemma get_entry_order:
  "distinct (keys_of xs) \<Longrightarrow> distinct (keys_of ys) \<Longrightarrow> set xs = set ys \<Longrightarrow>
   get (JObject xs) k = get (JObject ys) k"
  by (simp add: object_get_set_eq [of xs ys])

end
