(* ===== verification/Serde.thy ===== *)
theory Serde
  imports Json "HOL-Library.Finite_Map" "HOL-Library.List_Lexorder" "HOL-Library.Char_ord"
begin

text \<open>
  The serialization framework the event types are derived against, as far as the
  sources use it. None of this code is under \<^verbatim>\<open>src/\<close>: it is the behaviour that the
  attributes \<^verbatim>\<open>#[derive(Deserialize, Serialize)]\<close>, \<^verbatim>\<open>#[serde(default)]\<close>,
  \<^verbatim>\<open>#[serde(rename = ...)]\<close> and \<^verbatim>\<open>#[serde(flatten)]\<close> of the event structs select.

  \<^item> \<open>de_error\<close> has one constructor per constructor method of the framework's error
    trait that a derived implementation calls (\<^verbatim>\<open>custom\<close>, \<^verbatim>\<open>invalid_type\<close>,
    \<^verbatim>\<open>unknown_variant\<close>, \<^verbatim>\<open>missing_field\<close>, \<^verbatim>\<open>duplicate_field\<close>).
  \<^item> A decoder is a function from the tree to a result, an encoder a function to the
    tree; a \<open>codec\<close> pairs them, and \<open>codec_ok\<close> is the round-trip law
    \<open>dec (enc x) = Ok x\<close> that the tests of the event modules assert.
  \<^item> \<open>de_string\<close>, \<open>de_option\<close>, \<open>de_vec\<close>, \<open>de_hashmap\<close> and their encoders are the
    framework's implementations for \<^verbatim>\<open>String\<close>, \<^verbatim>\<open>Option<T>\<close>, \<^verbatim>\<open>Vec<T>\<close> and
    \<^verbatim>\<open>HashMap<String, T>\<close>. A hash map is a finite map; it is written with its keys
    in ascending order (the order of a hash map's iteration is unspecified, and
    \<open>struct_decode_permute\<close> shows that a reader does not depend on it), and it is read
    entry by entry, a later entry replacing an earlier one with the same key.
  \<^item> \<open>visit_map\<close> is the loop of a derived struct visitor over the entries of an
    object, in document order: an entry with an unknown key is skipped, a known key
    seen twice is \<open>DuplicateField\<close>, and a known key's value is decoded when the entry
    is visited, so that the first failing entry determines the error. The visitor
    keeps the node of every known key (\<open>slots\<close>); \<open>required\<close> and \<open>defaulted\<close> are
    the two ways the derived code reads a slot after the loop (\<open>MissingField\<close>, or
    the default value under \<^verbatim>\<open>#[serde(default)]\<close>); \<open>de_struct\<close> composes the loop
    and the build step.
  \<^item> \<open>known_slots\<close>, \<open>known_entries\<close> and \<open>checks_pass\<close> describe the visitor's
    result: on an object with unique keys whose known entries all decode, the slots
    are the object's entries at the known keys (\<open>visit_map_ok\<close>); a failing entry or
    a repeated known key makes the visitor fail; unknown entries and the order of the
    entries do not matter (\<open>visit_map_known_entries\<close>, \<open>struct_decode_permute\<close>).
  \<^item> \<open>roundtrip_test\<close> is the body the tests of the event modules share: parse the
    fixture, serialize the value, parse again, compare; \<open>unwrap\<close>, \<open>expect\<close>,
    \<open>unwrap_some\<close> (the \<^verbatim>\<open>unwrap\<close> of an \<^verbatim>\<open>Option\<close>) and \<open>assert_eq\<close> panic as their Rust
    namesakes do, and \<open>Explicit\<close> is a call of \<^verbatim>\<open>panic!\<close> with its message. The text layer between the two parses
    (\<^verbatim>\<open>to_string\<close>, \<^verbatim>\<open>from_slice\<close>) is outside the model: the second parse reads the
    tree the encoder built.
  \<^item> \<open>opt_string\<close> is the value of an optional string field as a function of the
    object's entries; \<open>index\<close> is the indexing of a vector in a test, which panics
    out of range.
  Only the object form of a struct is modelled (the form the encoders emit); the
  positional form that a derived visitor also accepts is outside the model, and no
  lemma states what a struct reader answers on an array.
\<close>

section \<open>Errors, decoders, encoders\<close>

datatype expected = ExpString | ExpSeq | ExpMap | ExpStruct string | ExpEnum string

datatype de_error =
    Custom string
  | InvalidType json_kind expected
  | UnknownVariant string "string list"
  | MissingField string
  | DuplicateField string

type_synonym 'a decoder = "json \<Rightarrow> de_error + 'a"
type_synonym 'a encoder = "'a \<Rightarrow> json"

record 'a codec =
  dec :: "'a decoder"
  enc :: "'a encoder"

definition codec_ok :: "'a codec \<Rightarrow> bool" where
  "codec_ok c \<longleftrightarrow> (\<forall>x. dec c (enc c x) = Inr x)"

definition never_null :: "'a codec \<Rightarrow> bool" where
  "never_null c \<longleftrightarrow> (\<forall>x. enc c x \<noteq> JNull)"

named_theorems serde_defs "definitions of the primitive decoders and encoders"
named_theorems codec_intros "round-trip laws of the codecs"


section \<open>Primitive implementations\<close>

definition de_string :: "string decoder" where
  "de_string v = (case v of JString s \<Rightarrow> Inr s | _ \<Rightarrow> Inl (InvalidType (kind_of v) ExpString))"

definition ser_string :: "string encoder" where
  "ser_string s = JString s"

definition de_option :: "'a decoder \<Rightarrow> 'a option decoder" where
  "de_option d v = (case v of JNull \<Rightarrow> Inr None | _ \<Rightarrow> map_res Some (d v))"

definition ser_option :: "'a encoder \<Rightarrow> 'a option encoder" where
  "ser_option e x = (case x of None \<Rightarrow> JNull | Some y \<Rightarrow> e y)"

definition de_vec :: "'a decoder \<Rightarrow> 'a list decoder" where
  "de_vec d v = (case v of JArray xs \<Rightarrow> traverse d xs | _ \<Rightarrow> Inl (InvalidType (kind_of v) ExpSeq))"

definition ser_vec :: "'a encoder \<Rightarrow> 'a list encoder" where
  "ser_vec e xs = JArray (map e xs)"

definition de_entry :: "'a decoder \<Rightarrow> string \<times> json \<Rightarrow> de_error + string \<times> 'a" where
  "de_entry d kv = map_res (Pair (fst kv)) (d (snd kv))"

definition de_hashmap :: "'a decoder \<Rightarrow> (string, 'a) fmap decoder" where
  "de_hashmap d v =
     (case v of
        JObject kvs \<Rightarrow> map_res (\<lambda>es. fmap_of_list (rev es)) (traverse (de_entry d) kvs)
      | _ \<Rightarrow> Inl (InvalidType (kind_of v) ExpMap))"

definition ser_hashmap :: "'a encoder \<Rightarrow> (string, 'a) fmap encoder" where
  "ser_hashmap e m = JObject (map (\<lambda>(k, x). (k, e x)) (sorted_list_of_fmap m))"

definition de_value :: "json decoder" where
  "de_value v = Inr v"

definition ser_value :: "json encoder" where
  "ser_value v = v"

lemmas [serde_defs] =
  de_string_def ser_string_def de_option_def ser_option_def de_vec_def ser_vec_def
  de_entry_def de_hashmap_def ser_hashmap_def de_value_def ser_value_def

definition string_codec :: "string codec" where
  "string_codec = \<lparr>dec = de_string, enc = ser_string\<rparr>"

definition option_codec :: "'a codec \<Rightarrow> 'a option codec" where
  "option_codec c = \<lparr>dec = de_option (dec c), enc = ser_option (enc c)\<rparr>"

definition vec_codec :: "'a codec \<Rightarrow> 'a list codec" where
  "vec_codec c = \<lparr>dec = de_vec (dec c), enc = ser_vec (enc c)\<rparr>"

definition hashmap_codec :: "'a codec \<Rightarrow> (string, 'a) fmap codec" where
  "hashmap_codec c = \<lparr>dec = de_hashmap (dec c), enc = ser_hashmap (enc c)\<rparr>"

definition value_codec :: "json codec" where
  "value_codec = \<lparr>dec = de_value, enc = ser_value\<rparr>"

lemmas codec_defs =
  string_codec_def option_codec_def vec_codec_def hashmap_codec_def value_codec_def


section \<open>The visitor of a derived struct\<close>

type_synonym field_check = "json \<Rightarrow> de_error option"
type_synonym fields = "(string \<times> field_check) list"
type_synonym slots = "string \<rightharpoonup> json"

definition check :: "'a decoder \<Rightarrow> field_check" where
  "check d v = (case d v of Inl e \<Rightarrow> Some e | Inr x \<Rightarrow> None)"

fun visit_map :: "fields \<Rightarrow> slots \<Rightarrow> entries \<Rightarrow> de_error + slots" where
  "visit_map fs s [] = Inr s"
| "visit_map fs s ((k, v) # kvs) =
     (case map_of fs k of
        None \<Rightarrow> visit_map fs s kvs
      | Some chk \<Rightarrow>
          (if s k \<noteq> None then Inl (DuplicateField k)
           else (case chk v of
                   Some e \<Rightarrow> Inl e
                 | None \<Rightarrow> visit_map fs (s(k \<mapsto> v)) kvs)))"

definition required :: "string \<Rightarrow> 'a decoder \<Rightarrow> slots \<Rightarrow> de_error + 'a" where
  "required k d s = (case s k of None \<Rightarrow> Inl (MissingField k) | Some v \<Rightarrow> d v)"

definition defaulted :: "string \<Rightarrow> 'a decoder \<Rightarrow> 'a \<Rightarrow> slots \<Rightarrow> de_error + 'a" where
  "defaulted k d dflt s = (case s k of None \<Rightarrow> Inr dflt | Some v \<Rightarrow> d v)"

definition de_struct :: "string \<Rightarrow> fields \<Rightarrow> (slots \<Rightarrow> de_error + 'a) \<Rightarrow> 'a decoder" where
  "de_struct name fs build v =
     (case v of
        JObject kvs \<Rightarrow> and_then (visit_map fs Map.empty kvs) build
      | _ \<Rightarrow> Inl (InvalidType (kind_of v) (ExpStruct name)))"


definition known_slots :: "fields \<Rightarrow> entries \<Rightarrow> slots" where
  "known_slots fs kvs = (\<lambda>k. case map_of fs k of None \<Rightarrow> None | Some chk \<Rightarrow> map_of kvs k)"

definition known_entries :: "fields \<Rightarrow> entries \<Rightarrow> entries" where
  "known_entries fs kvs = filter (\<lambda>kv. map_of fs (fst kv) \<noteq> None) kvs"

definition checks_pass :: "fields \<Rightarrow> entries \<Rightarrow> bool" where
  "checks_pass fs kvs =
     list_all (\<lambda>kv. case map_of fs (fst kv) of None \<Rightarrow> True | Some chk \<Rightarrow> chk (snd kv) = None) kvs"

definition opt_string :: "entries \<Rightarrow> string \<Rightarrow> string option" where
  "opt_string kvs k = (case map_of kvs k of Some (JString s) \<Rightarrow> Some s | _ \<Rightarrow> None)"


section \<open>The round-trip tests of the event modules\<close>

datatype panic =
    UnwrapFailed de_error
  | ExpectFailed string de_error
  | UnwrapNone
  | IndexOutOfBounds
  | AssertionFailed
  | Explicit string

datatype test_outcome = Passed | Panicked panic

definition unwrap :: "de_error + 'a \<Rightarrow> ('a \<Rightarrow> test_outcome) \<Rightarrow> test_outcome" where
  "unwrap r k = (case r of Inl e \<Rightarrow> Panicked (UnwrapFailed e) | Inr x \<Rightarrow> k x)"

definition expect :: "de_error + 'a \<Rightarrow> string \<Rightarrow> ('a \<Rightarrow> test_outcome) \<Rightarrow> test_outcome" where
  "expect r msg k = (case r of Inl e \<Rightarrow> Panicked (ExpectFailed msg e) | Inr x \<Rightarrow> k x)"

definition unwrap_some :: "'a option \<Rightarrow> ('a \<Rightarrow> test_outcome) \<Rightarrow> test_outcome" where
  "unwrap_some opt k = (case opt of None \<Rightarrow> Panicked UnwrapNone | Some x \<Rightarrow> k x)"

definition assert_eq :: "'a \<Rightarrow> 'a \<Rightarrow> test_outcome \<Rightarrow> test_outcome" where
  "assert_eq a b k = (if a = b then k else Panicked AssertionFailed)"

definition index :: "'a list \<Rightarrow> nat \<Rightarrow> ('a \<Rightarrow> test_outcome) \<Rightarrow> test_outcome" where
  "index xs i k = (if i < length xs then k (xs ! i) else Panicked IndexOutOfBounds)"

definition roundtrip_test :: "'a decoder \<Rightarrow> 'a encoder \<Rightarrow> json \<Rightarrow> test_outcome" where
  "roundtrip_test d e fixture =
     unwrap (d fixture) (\<lambda>parsed.
     unwrap (d (e parsed)) (\<lambda>reparsed.
     assert_eq parsed reparsed Passed))"



section \<open>Primitive implementations: behaviour and round trips\<close>

lemma de_string_simps [simp]:
  "de_string (JString s) = Inr s"
  "de_string JNull = Inl (InvalidType KNull ExpString)"
  "de_string (JBool b) = Inl (InvalidType KBool ExpString)"
  "de_string (JNumber n) = Inl (InvalidType KNumber ExpString)"
  "de_string (JArray xs) = Inl (InvalidType KArray ExpString)"
  "de_string (JObject kvs) = Inl (InvalidType KObject ExpString)"
  by (simp_all add: de_string_def)

lemma de_string_Inr_iff: "de_string v = Inr s \<longleftrightarrow> v = JString s"
  by (cases v) simp_all

lemma de_option_simps [simp]:
  "de_option d JNull = Inr None"
  "v \<noteq> JNull \<Longrightarrow> de_option d v = map_res Some (d v)"
  by (cases v; simp add: de_option_def)+

lemma ser_option_simps [simp]:
  "ser_option e None = JNull"
  "ser_option e (Some y) = e y"
  by (simp_all add: ser_option_def)

lemma de_vec_simps [simp]:
  "de_vec d (JArray xs) = traverse d xs"
  "kind_of v \<noteq> KArray \<Longrightarrow> de_vec d v = Inl (InvalidType (kind_of v) ExpSeq)"
  by (cases v; simp add: de_vec_def)+

lemma de_hashmap_simps [simp]:
  "de_hashmap d (JObject kvs) =
     map_res (\<lambda>es. fmap_of_list (rev es)) (traverse (de_entry d) kvs)"
  "kind_of v \<noteq> KObject \<Longrightarrow> de_hashmap d v = Inl (InvalidType (kind_of v) ExpMap)"
  by (cases v; simp add: de_hashmap_def)+

lemma codec_okI [intro?]: "(\<And>x. dec c (enc c x) = Inr x) \<Longrightarrow> codec_ok c"
  by (simp add: codec_ok_def)

lemma codec_okD: "codec_ok c \<Longrightarrow> dec c (enc c x) = Inr x"
  by (simp add: codec_ok_def)

lemma never_nullD: "never_null c \<Longrightarrow> enc c x \<noteq> JNull"
  by (simp add: never_null_def)

lemma string_codec_ok [codec_intros]: "codec_ok string_codec"
  by (simp add: codec_ok_def string_codec_def ser_string_def)

lemma string_codec_never_null [codec_intros]: "never_null string_codec"
  by (simp add: never_null_def string_codec_def ser_string_def)

lemma value_codec_ok [codec_intros]: "codec_ok value_codec"
  by (simp add: codec_ok_def value_codec_def de_value_def ser_value_def)

lemma option_codec_ok [codec_intros]:
  assumes "codec_ok c" and "never_null c"
  shows "codec_ok (option_codec c)"
proof
  fix x :: "'a option"
  show "dec (option_codec c) (enc (option_codec c) x) = Inr x"
    using assms by (cases x) (simp_all add: option_codec_def codec_okD never_nullD)
qed

lemma vec_codec_ok [codec_intros]:
  assumes "codec_ok c"
  shows "codec_ok (vec_codec c)"
proof
  fix xs :: "'a list"
  show "dec (vec_codec c) (enc (vec_codec c) xs) = Inr xs"
    using assms by (simp add: vec_codec_def ser_vec_def traverse_roundtrip codec_okD)
qed

lemma vec_codec_never_null [codec_intros]: "never_null (vec_codec c)"
  by (simp add: never_null_def vec_codec_def ser_vec_def)

lemma hashmap_codec_never_null [codec_intros]: "never_null (hashmap_codec c)"
  by (simp add: never_null_def hashmap_codec_def ser_hashmap_def)

lemma distinct_sorted_list_of_fset [simp]: "distinct (sorted_list_of_fset S)"
  by (simp add: sorted_list_of_fset.rep_eq)

lemma keys_of_sorted_list_of_fmap [simp]:
  "keys_of (sorted_list_of_fmap m) = sorted_list_of_fset (fmdom m)"
  by (simp add: sorted_list_of_fmap_def comp_def)

lemma map_of_rev_distinct: "distinct (keys_of xs) \<Longrightarrow> map_of (rev xs) = map_of xs"
  by (rule map_of_distinct_set_eq) (simp_all add: rev_map [symmetric])

lemma fmap_of_list_rev_sorted [simp]: "fmap_of_list (rev (sorted_list_of_fmap m)) = m"
  by (rule fmap_ext) (simp add: fmlookup_of_list map_of_rev_distinct)

lemma traverse_de_entry_roundtrip:
  assumes "codec_ok c"
  shows "traverse (de_entry (dec c)) (map (\<lambda>(k, x). (k, enc c x)) es) = Inr es"
  using assms by (intro traverse_roundtrip) (auto simp: de_entry_def codec_okD)

lemma hashmap_codec_ok [codec_intros]:
  assumes "codec_ok c"
  shows "codec_ok (hashmap_codec c)"
proof
  fix m :: "(string, 'a) fmap"
  show "dec (hashmap_codec c) (enc (hashmap_codec c) m) = Inr m"
    using assms by (simp add: hashmap_codec_def ser_hashmap_def traverse_de_entry_roundtrip)
qed


lemma de_entry_Pair [simp]: "de_entry d (k, v) = map_res (Pair k) (d v)"
  by (simp add: de_entry_def)

lemma traverse_de_entry_Inr:
  "traverse (de_entry d) es = Inr ds \<Longrightarrow>
   keys_of ds = keys_of es \<and> (\<forall>(k, v) \<in> set es. \<exists>y. (k, y) \<in> set ds \<and> d v = Inr y)"
proof (induction es arbitrary: ds)
  case Nil
  then show ?case by simp
next
  case (Cons e es)
  obtain k v where e: "e = (k, v)" by (cases e)
  from Cons.prems e obtain y ds' where y: "d v = Inr y"
    and ds': "traverse (de_entry d) es = Inr ds'" and ds: "ds = (k, y) # ds'"
    by (auto simp: de_entry_Pair map_res_Inr_iff split: sum.splits)
  from Cons.IH [OF ds'] show ?case
    by (auto simp: e ds y)
qed

lemma de_hashmap_Inr:
  assumes "de_hashmap d (JObject es) = Inr m" and "distinct (keys_of es)"
  shows "fmdom m = fset_of_list (keys_of es)"
    and "(k, v) \<in> set es \<Longrightarrow> d v = Inr (the (fmlookup m k))"
proof -
  from assms(1) obtain ds where ds: "traverse (de_entry d) es = Inr ds"
    and m: "m = fmap_of_list (rev ds)"
    by (auto simp: map_res_Inr_iff)
  note tr = traverse_de_entry_Inr [OF ds]
  from tr assms(2) have dist: "distinct (keys_of ds)" by simp
  show "fmdom m = fset_of_list (keys_of es)"
    using tr by (simp add: m rev_map [symmetric] fset_of_list_elem fset_eq_iff)
  show "d v = Inr (the (fmlookup m k))" if "(k, v) \<in> set es"
  proof -
    from tr that obtain y where "(k, y) \<in> set ds" "d v = Inr y" by blast
    with dist show ?thesis
      by (simp add: m fmlookup_of_list map_of_rev_distinct)
  qed
qed

lemma roundtrip_string [simp]: "de_string (ser_string s) = Inr s"
  by (simp add: ser_string_def)

lemma roundtrip_option_string [simp]: "de_option de_string (ser_option ser_string x) = Inr x"
  using codec_okD [OF option_codec_ok [OF string_codec_ok string_codec_never_null], of x]
  by (simp add: codec_defs)

lemma roundtrip_vec_string [simp]: "de_vec de_string (ser_vec ser_string xs) = Inr xs"
  using codec_okD [OF vec_codec_ok [OF string_codec_ok], of xs] by (simp add: codec_defs)

lemma roundtrip_hashmap: "codec_ok c \<Longrightarrow> de_hashmap (dec c) (ser_hashmap (enc c) m) = Inr m"
  using codec_okD [OF hashmap_codec_ok, of c m] by (simp add: codec_defs)


section \<open>The visitor: behaviour\<close>

lemma check_None_iff [simp]: "check d v = None \<longleftrightarrow> is_ok (d v)"
  by (cases "d v") (simp_all add: check_def)

lemma check_Some_iff [simp]: "check d v = Some e \<longleftrightarrow> d v = Inl e"
  by (cases "d v") (simp_all add: check_def)

lemma known_slots_Nil [simp]: "known_slots fs [] = Map.empty"
  by (auto simp: known_slots_def split: option.splits)

lemma known_slots_Cons_unknown [simp]:
  "map_of fs k = None \<Longrightarrow> known_slots fs ((k, v) # kvs) = known_slots fs kvs"
  by (auto simp: known_slots_def split: option.splits)

lemma known_slots_Cons_known:
  "map_of fs k = Some chk \<Longrightarrow> k \<notin> set (keys_of kvs) \<Longrightarrow>
   s(k \<mapsto> v) ++ known_slots fs kvs = s ++ known_slots fs ((k, v) # kvs)"
proof (rule ext)
  fix x
  assume known: "map_of fs k = Some chk" and "k \<notin> set (keys_of kvs)"
  then have none: "map_of kvs k = None" by (simp add: map_of_eq_None_iff)
  show "(s(k \<mapsto> v) ++ known_slots fs kvs) x = (s ++ known_slots fs ((k, v) # kvs)) x"
    using known none
    by (cases "x = k") (simp_all add: known_slots_def map_add_def split: option.splits)
qed

lemma known_slots_apply:
  "map_of fs k = Some chk \<Longrightarrow> known_slots fs kvs k = map_of kvs k"
  "map_of fs k = None \<Longrightarrow> known_slots fs kvs k = None"
  by (simp_all add: known_slots_def)

lemma checks_pass_simps [simp]:
  "checks_pass fs [] = True"
  "checks_pass fs ((k, v) # kvs) =
     ((case map_of fs k of None \<Rightarrow> True | Some chk \<Rightarrow> chk v = None) \<and> checks_pass fs kvs)"
  by (simp_all add: checks_pass_def split: option.splits)

lemma visit_map_Cons_unknown:
  "map_of fs k = None \<Longrightarrow> visit_map fs s ((k, v) # kvs) = visit_map fs s kvs"
  by simp

lemma visit_map_Cons_known:
  "map_of fs k = Some chk \<Longrightarrow>
   visit_map fs s ((k, v) # kvs) =
     (if s k \<noteq> None then Inl (DuplicateField k)
      else case chk v of Some e \<Rightarrow> Inl e | None \<Rightarrow> visit_map fs (s(k \<mapsto> v)) kvs)"
  by simp

lemmas visit_map_Cons = visit_map_Cons_unknown visit_map_Cons_known

declare visit_map.simps(2) [simp del]

lemma visit_map_ok:
  assumes "distinct (keys_of kvs)" and "\<forall>k \<in> set (keys_of kvs). s k = None"
    and "checks_pass fs kvs"
  shows "visit_map fs s kvs = Inr (s ++ known_slots fs kvs)"
  using assms
proof (induction kvs arbitrary: s)
  case Nil
  then show ?case by simp
next
  case (Cons kv kvs)
  obtain k v where kv: "kv = (k, v)" by (cases kv)
  show ?case
  proof (cases "map_of fs k")
    case None
    with Cons kv show ?thesis by (simp add: visit_map_Cons)
  next
    case (Some chk)
    with Cons.prems kv have ok: "chk v = None" and sk: "s k = None"
      and fresh: "k \<notin> set (keys_of kvs)" by auto
    have "visit_map fs (s(k \<mapsto> v)) kvs = Inr (s(k \<mapsto> v) ++ known_slots fs kvs)"
      using Cons.prems kv by (intro Cons.IH) auto
    then show ?thesis
      using Some ok sk kv by (simp add: visit_map_Cons known_slots_Cons_known [OF Some fresh])
  qed
qed

lemma visit_map_empty_ok:
  "distinct (keys_of kvs) \<Longrightarrow> checks_pass fs kvs \<Longrightarrow>
   visit_map fs Map.empty kvs = Inr (known_slots fs kvs)"
  using visit_map_ok [of kvs Map.empty fs] by simp

lemma visit_map_check_fails: "\<not> checks_pass fs kvs \<Longrightarrow> \<not> is_ok (visit_map fs s kvs)"
proof (induction kvs arbitrary: s)
  case Nil
  then show ?case by simp
next
  case (Cons kv kvs)
  obtain k v where kv: "kv = (k, v)" by (cases kv)
  show ?case
    using Cons kv by (cases "map_of fs k") (auto simp: visit_map_Cons split: option.splits)
qed

lemma visit_map_duplicate:
  "map_of fs k = Some chk \<Longrightarrow> s k \<noteq> None \<Longrightarrow> k \<in> set (keys_of kvs) \<Longrightarrow>
   \<not> is_ok (visit_map fs s kvs)"
proof (induction kvs arbitrary: s)
  case Nil
  then show ?case by simp
next
  case (Cons kv kvs)
  obtain k' v where kv: "kv = (k', v)" by (cases kv)
  show ?case
  proof (cases "k' = k")
    case True
    with Cons.prems kv show ?thesis by (simp add: visit_map_Cons)
  next
    case False
    with Cons.prems kv have mem: "k \<in> set (keys_of kvs)" by auto
    have upd: "(s(k' \<mapsto> v)) k \<noteq> None" using Cons.prems(2) False by simp
    have "\<not> is_ok (visit_map fs s kvs)"
      using Cons.prems(1,2) mem by (rule Cons.IH)
    moreover have "\<not> is_ok (visit_map fs (s(k' \<mapsto> v)) kvs)"
      using Cons.prems(1) upd mem by (rule Cons.IH)
    ultimately show ?thesis
      using kv by (cases "map_of fs k'") (simp_all add: visit_map_Cons split: option.splits)
  qed
qed

lemma visit_map_Inr_slots: "visit_map fs s kvs = Inr s' \<Longrightarrow> s' = s ++ known_slots fs kvs"
proof (induction kvs arbitrary: s)
  case Nil
  then show ?case by simp
next
  case (Cons kv kvs)
  obtain k v where kv: "kv = (k, v)" by (cases kv)
  show ?case
  proof (cases "map_of fs k")
    case None
    with Cons kv show ?thesis by (simp add: visit_map_Cons)
  next
    case (Some chk)
    with Cons.prems kv have rest: "visit_map fs (s(k \<mapsto> v)) kvs = Inr s'"
      by (auto simp: visit_map_Cons split: if_splits option.splits)
    then have fresh: "k \<notin> set (keys_of kvs)"
      using visit_map_duplicate [OF Some, of "s(k \<mapsto> v)" kvs] by auto
    from rest have "s' = s(k \<mapsto> v) ++ known_slots fs kvs" by (rule Cons.IH)
    then show ?thesis using kv by (simp add: known_slots_Cons_known [OF Some fresh])
  qed
qed

lemma known_entries_simps [simp]:
  "known_entries fs [] = []"
  "map_of fs k = None \<Longrightarrow> known_entries fs ((k, v) # kvs) = known_entries fs kvs"
  "map_of fs k = Some chk \<Longrightarrow> known_entries fs ((k, v) # kvs) = (k, v) # known_entries fs kvs"
  by (simp_all add: known_entries_def)

lemma known_entries_append [simp]:
  "known_entries fs (xs @ ys) = known_entries fs xs @ known_entries fs ys"
  by (simp add: known_entries_def)

lemma visit_map_known_entries: "visit_map fs s (known_entries fs kvs) = visit_map fs s kvs"
proof (induction kvs arbitrary: s)
  case Nil
  then show ?case by simp
next
  case (Cons kv kvs)
  obtain k v where kv: "kv = (k, v)" by (cases kv)
  show ?case
  proof (cases "map_of fs k")
    case None
    then show ?thesis using kv by (simp add: visit_map_Cons Cons.IH)
  next
    case (Some chk)
    have ih: "visit_map fs (s(k \<mapsto> v)) (known_entries fs kvs) = visit_map fs (s(k \<mapsto> v)) kvs"
      by (rule Cons.IH)
    show ?thesis
      by (simp only: kv known_entries_simps(3) [OF Some] visit_map_Cons_known [OF Some] ih)
  qed
qed

lemma visit_map_known_entries_eq:
  "known_entries fs xs = known_entries fs ys \<Longrightarrow> visit_map fs s xs = visit_map fs s ys"
  using visit_map_known_entries [of fs s xs] visit_map_known_entries [of fs s ys] by simp

lemma required_known:
  "map_of fs k = Some chk \<Longrightarrow>
   required k d (known_slots fs kvs) =
     (case map_of kvs k of None \<Rightarrow> Inl (MissingField k) | Some v \<Rightarrow> d v)"
  by (simp add: required_def known_slots_def)

lemma defaulted_known:
  "map_of fs k = Some chk \<Longrightarrow>
   defaulted k d dflt (known_slots fs kvs) =
     (case map_of kvs k of None \<Rightarrow> Inr dflt | Some v \<Rightarrow> d v)"
  by (simp add: defaulted_def known_slots_def)

lemma de_struct_object:
  "distinct (keys_of kvs) \<Longrightarrow> checks_pass fs kvs \<Longrightarrow>
   de_struct name fs build (JObject kvs) = build (known_slots fs kvs)"
  by (simp add: de_struct_def visit_map_empty_ok)

lemma de_struct_scalar:
  "kind_of v \<notin> {KObject, KArray} \<Longrightarrow>
   de_struct name fs build v = Inl (InvalidType (kind_of v) (ExpStruct name))"
  by (cases v) (simp_all add: de_struct_def)

lemma de_struct_Inr:
  assumes "de_struct name fs build v = Inr x"
  shows "\<exists>kvs. v = JObject kvs \<and> checks_pass fs kvs \<and> build (known_slots fs kvs) = Inr x"
proof -
  from assms obtain kvs where v: "v = JObject kvs"
    by (cases v) (simp_all add: de_struct_def)
  with assms obtain s where s: "visit_map fs Map.empty kvs = Inr s" and b: "build s = Inr x"
    by (auto simp: de_struct_def and_then_Inr_iff)
  from s have "checks_pass fs kvs"
    using visit_map_check_fails [of fs kvs Map.empty] by auto
  moreover from s have "s = known_slots fs kvs"
    by (auto dest: visit_map_Inr_slots)
  ultimately show ?thesis using v b by auto
qed

lemma de_struct_check_fails:
  "\<not> checks_pass fs kvs \<Longrightarrow> \<not> is_ok (de_struct name fs build (JObject kvs))"
  using visit_map_check_fails [of fs kvs Map.empty]
  by (auto simp: de_struct_def not_is_ok_iff)

lemma known_slots_set_eq:
  "distinct (keys_of xs) \<Longrightarrow> distinct (keys_of ys) \<Longrightarrow> set xs = set ys \<Longrightarrow>
   known_slots fs xs = known_slots fs ys"
  using map_of_distinct_set_eq [of xs ys]
  by (simp add: known_slots_def fun_eq_iff split: option.splits)

lemma checks_pass_set_eq: "set xs = set ys \<Longrightarrow> checks_pass fs xs = checks_pass fs ys"
  by (simp add: checks_pass_def list_all_iff)

lemma struct_decode_permute:
  assumes "distinct (keys_of xs)" and "distinct (keys_of ys)" and "set xs = set ys"
    and "checks_pass fs xs"
  shows "de_struct name fs build (JObject ys) = de_struct name fs build (JObject xs)"
  using assms
  by (simp add: de_struct_object checks_pass_set_eq [of xs ys] known_slots_set_eq [of xs ys])

lemma de_struct_known_entries:
  assumes "known_entries fs xs = known_entries fs ys"
  shows "de_struct name fs build (JObject xs) = de_struct name fs build (JObject ys)"
  using assms by (simp add: de_struct_def visit_map_known_entries_eq [of fs xs ys])


lemma checks_pass_lookup:
  assumes "distinct (keys_of kvs)"
  shows "checks_pass fs kvs \<longleftrightarrow>
     (\<forall>k chk v. map_of fs k = Some chk \<longrightarrow> map_of kvs k = Some v \<longrightarrow> chk v = None)"
proof -
  have mem: "(k, v) \<in> set kvs \<longleftrightarrow> map_of kvs k = Some v" for k v
    using assms by (auto dest: map_of_SomeD)
  show ?thesis
    unfolding checks_pass_def list_all_iff
    by (auto simp: mem [symmetric] split: option.splits)
qed

lemma de_struct_object_iff:
  assumes "distinct (keys_of kvs)"
  shows "de_struct name fs build (JObject kvs) = Inr x \<longleftrightarrow>
     checks_pass fs kvs \<and> build (known_slots fs kvs) = Inr x"
  using assms de_struct_Inr [of name fs build "JObject kvs" x]
  by (auto simp: de_struct_object)

lemma visit_map_not_distinct:
  "\<not> distinct (keys_of (known_entries fs kvs)) \<Longrightarrow> \<not> is_ok (visit_map fs s kvs)"
proof (induction kvs arbitrary: s)
  case Nil
  then show ?case by simp
next
  case (Cons kv kvs)
  obtain k v where kv: "kv = (k, v)" by (cases kv)
  show ?case
  proof (cases "map_of fs k")
    case None
    with Cons kv show ?thesis by (simp add: visit_map_Cons)
  next
    case (Some chk)
    show ?thesis
    proof (cases "k \<in> set (keys_of (known_entries fs kvs))")
      case True
      then have "k \<in> set (keys_of kvs)" by (auto simp: known_entries_def)
      then have "\<not> is_ok (visit_map fs (s(k \<mapsto> v)) kvs)"
        by (intro visit_map_duplicate [OF Some]) simp_all
      then show ?thesis using Some kv by (simp add: visit_map_Cons split: option.splits)
    next
      case False
      with Cons.prems Some kv have "\<not> distinct (keys_of (known_entries fs kvs))" by simp
      then have "\<not> is_ok (visit_map fs (s(k \<mapsto> v)) kvs)" by (rule Cons.IH)
      then show ?thesis using Some kv by (simp add: visit_map_Cons split: option.splits)
    qed
  qed
qed

lemma de_struct_duplicate:
  "\<not> distinct (keys_of (known_entries fs kvs)) \<Longrightarrow>
   \<not> is_ok (de_struct name fs build (JObject kvs))"
  using visit_map_not_distinct [of fs kvs Map.empty]
  by (auto simp: de_struct_def not_is_ok_iff)


lemma map_of_known_entries:
  "map_of (known_entries fs kvs) k = (if map_of fs k \<noteq> None then map_of kvs k else None)"
  by (induction kvs) (auto simp: known_entries_def)

lemma known_slots_known_entries [simp]:
  "known_slots fs (known_entries fs kvs) = known_slots fs kvs"
  by (rule ext) (simp add: known_slots_def map_of_known_entries split: option.splits)

lemma checks_pass_known_entries [simp]:
  "checks_pass fs (known_entries fs kvs) = checks_pass fs kvs"
  by (induction kvs) (auto simp: known_entries_def checks_pass_def)

lemma known_entries_idem [simp]:
  "known_entries fs (known_entries fs kvs) = known_entries fs kvs"
  by (simp add: known_entries_def)

lemma checks_pass_known_lookup:
  assumes "distinct (keys_of (known_entries fs kvs))"
  shows "checks_pass fs kvs \<longleftrightarrow>
     (\<forall>k chk v. map_of fs k = Some chk \<longrightarrow> map_of kvs k = Some v \<longrightarrow> chk v = None)"
  using checks_pass_lookup [OF assms, of fs]
  by (auto simp: map_of_known_entries)

lemma de_struct_eq:
  assumes "distinct (keys_of (known_entries fs kvs))" and "checks_pass fs kvs"
  shows "de_struct name fs build (JObject kvs) = build (known_slots fs kvs)"
proof -
  have "de_struct name fs build (JObject kvs)
      = de_struct name fs build (JObject (known_entries fs kvs))"
    by (rule de_struct_known_entries) simp
  also have "\<dots> = build (known_slots fs kvs)"
    using assms by (simp add: de_struct_object)
  finally show ?thesis .
qed

lemma de_struct_Inr_iff:
  "de_struct name fs build v = Inr x \<longleftrightarrow>
     (\<exists>kvs. v = JObject kvs \<and> distinct (keys_of (known_entries fs kvs))
        \<and> checks_pass fs kvs \<and> build (known_slots fs kvs) = Inr x)"
  (is "?L \<longleftrightarrow> ?R")
proof
  assume l: ?L
  then obtain kvs where kvs: "v = JObject kvs" "checks_pass fs kvs"
      "build (known_slots fs kvs) = Inr x"
    by (auto dest: de_struct_Inr)
  moreover have "distinct (keys_of (known_entries fs kvs))"
    using l kvs(1) de_struct_duplicate [of fs kvs name build] by auto
  ultimately show ?R by blast
next
  assume ?R
  then show ?L by (auto simp: de_struct_eq)
qed


lemma checks_pass_entry:
  "checks_pass fs kvs \<Longrightarrow> (k, v) \<in> set kvs \<Longrightarrow> map_of fs k = Some (check d) \<Longrightarrow> is_ok (d v)"
  by (fastforce simp: checks_pass_def list_all_iff)

lemma checks_pass_slot:
  "checks_pass fs kvs \<Longrightarrow> map_of fs k = Some (check d) \<Longrightarrow> map_of kvs k = Some v \<Longrightarrow>
   is_ok (d v)"
  by (auto dest: map_of_SomeD intro: checks_pass_entry)

lemma defaulted_is_ok:
  assumes "checks_pass fs kvs" and "map_of fs k = Some (check d)"
  shows "is_ok (defaulted k d dflt (known_slots fs kvs))"
  using checks_pass_slot [OF assms]
  by (cases "map_of kvs k") (auto simp: defaulted_known [OF assms(2)])

lemma required_is_ok_iff:
  assumes "checks_pass fs kvs" and "map_of fs k = Some (check d)"
  shows "is_ok (required k d (known_slots fs kvs)) \<longleftrightarrow> map_of kvs k \<noteq> None"
  using checks_pass_slot [OF assms]
  by (cases "map_of kvs k") (auto simp: required_known [OF assms(2)])

lemma opt_string_slot:
  "(case map_of kvs k of None \<Rightarrow> Inr None | Some v \<Rightarrow> de_option de_string v) = Inr opt \<Longrightarrow>
   opt = opt_string kvs k"
  by (auto simp: opt_string_def de_option_def de_string_Inr_iff map_res_Inr_iff
      split: option.splits json.splits)

lemma required_missing:
  "map_of fs k = Some chk \<Longrightarrow> map_of kvs k = None \<Longrightarrow>
   required k d (known_slots fs kvs) = Inl (MissingField k)"
  by (simp add: required_known)

lemma and_then_is_ok:
  assumes "is_ok r" obtains x where "r = Inr x" and "and_then r f = f x"
  using assms by (cases r) simp_all


section \<open>The round-trip tests\<close>

lemma unwrap_simps [simp]:
  "unwrap (Inl e) k = Panicked (UnwrapFailed e)"
  "unwrap (Inr x) k = k x"
  by (simp_all add: unwrap_def)

lemma expect_simps [simp]:
  "expect (Inl e) msg k = Panicked (ExpectFailed msg e)"
  "expect (Inr x) msg k = k x"
  by (simp_all add: expect_def)

lemma unwrap_some_simps [simp]:
  "unwrap_some None k = Panicked UnwrapNone"
  "unwrap_some (Some x) k = k x"
  by (simp_all add: unwrap_some_def)

lemma assert_eq_Passed_iff [simp]: "assert_eq a b Passed = Passed \<longleftrightarrow> a = b"
  by (simp add: assert_eq_def)

lemma assert_eq_simps [simp]: "assert_eq a a k = k" "a \<noteq> b \<Longrightarrow> assert_eq a b k = Panicked AssertionFailed"
  by (simp_all add: assert_eq_def)

lemma index_simps [simp]:
  "i < length xs \<Longrightarrow> index xs i k = k (xs ! i)"
  "length xs \<le> i \<Longrightarrow> index xs i k = Panicked IndexOutOfBounds"
  by (simp_all add: index_def)

lemma roundtrip_test_passes:
  assumes "\<And>x. d (e x) = Inr x" and "d fixture = Inr parsed"
  shows "roundtrip_test d e fixture = Passed"
  using assms by (simp add: roundtrip_test_def)

lemma roundtrip_test_parse_failure:
  "d fixture = Inl err \<Longrightarrow> roundtrip_test d e fixture = Panicked (UnwrapFailed err)"
  by (simp add: roundtrip_test_def)

end
