(* ===== verification/Lambda_Request.thy ===== *)
theory Lambda_Request
  imports Serde
begin

text \<open>
  The discrimination-and-dispatch engine:
  \<^verbatim>\<open>impl Deserialize for LambdaRequest\<close> in
  \<^verbatim>\<open>src/lambda-http/src/deserializer/deserializer_simd_json.rs\<close>.

  \<^item> \<open>features\<close> holds the five build features that gate the blocks of the function
    (\<^verbatim>\<open>#[cfg(feature = ...)]\<close>); \<open>when_feature\<close> is the gate.
  \<^item> \<open>decoders\<close> holds the typed decoders of the four event types, which the
    function calls as \<^verbatim>\<open>t.deserialize()\<close> on the tape it probed, and the display
    function of their error type; \<open>custom\<close> is the closure
    \<^verbatim>\<open>|e| Error::custom(e)\<close>. The event types themselves are outside \<^verbatim>\<open>src/\<close>, so
    the dispatcher is stated over type variables for them.
  \<^item> \<open>try_apigw_rest\<close>, \<open>try_apigw_http\<close>, \<open>try_alb\<close>, \<open>try_apigw_websockets\<close> and
    \<open>try_pass_through\<close> are the five blocks, each returning \<open>Some\<close> of the function's
    result where the block returns and \<open>None\<close> where control falls through;
    \<open>deserialize\<close> chains them in the order of the source and ends in the error
    \<open>ERROR_CONTEXT\<close>. The parameter \<open>data\<close> is the payload text the pass-through
    block refers to.
  \<^item> \<open>probe_keys\<close>, the predicates \<open>is_apigw_rest\<close> \<dots> \<open>is_websocket\<close>,
    \<open>priority_order\<close>, \<open>enabled\<close>, \<open>matches\<close>, \<open>catalog\<close>, \<open>select\<close>, \<open>decode_as\<close>,
    \<open>fallback\<close> and \<open>dispatch\<close> are the specification's design: a priority-ordered
    list of variant descriptors, the first matching one selected. \<open>code_keys\<close> are
    the key names the source probes and \<open>wire_keys\<close> the ones the specification
    names.

  The lemmas characterise each block by its predicate, give the function's value on
  every branch (\<open>deserialize_cases\<close>), and the theorems show that the function
  refines the table-driven specification over \<open>code_keys\<close>, that selection is sound
  and follows the priority order, how errors and the fall-back behave, and where
  the source and the specification part (the probed key names, the error kinds, the
  effect of enabling a further variant).
\<close>

section \<open>Configuration, result type and decoders\<close>

record features =
  apigw_rest :: bool
  apigw_http :: bool
  alb :: bool
  apigw_websockets :: bool
  pass_through :: bool

datatype ('r, 'h, 'a, 'w) LambdaRequest =
    ApiGatewayV1 'r
  | ApiGatewayV2 'h
  | Alb 'a
  | WebSocket 'w
  | PassThrough string

record ('e, 'r, 'h, 'a, 'w) decoders =
  de_rest :: "json \<Rightarrow> 'e + 'r"
  de_http :: "json \<Rightarrow> 'e + 'h"
  de_alb :: "json \<Rightarrow> 'e + 'a"
  de_websocket :: "json \<Rightarrow> 'e + 'w"
  display :: "'e \<Rightarrow> string"

type_synonym ('r, 'h, 'a, 'w) outcome = "de_error + ('r, 'h, 'a, 'w) LambdaRequest"

definition ERROR_CONTEXT :: string where
  "ERROR_CONTEXT = ''this function expects a JSON payload from Amazon API Gateway, Amazon Elastic Load Balancer, or AWS Lambda Function URLs, but the data doesn't match any of those services' events''"

definition PASS_THROUGH_ENABLED :: bool where
  "PASS_THROUGH_ENABLED = True"

definition custom :: "('e, 'r, 'h, 'a, 'w) decoders \<Rightarrow> 'e \<Rightarrow> de_error" where
  "custom d e = Custom (display d e)"

definition when_feature :: "bool \<Rightarrow> 'x option \<Rightarrow> 'x option" where
  "when_feature enabled block = (if enabled then block else None)"


section \<open>The function, block by block\<close>

definition try_apigw_rest ::
  "('e, 'r, 'h, 'a, 'w) decoders \<Rightarrow> json \<Rightarrow> ('r, 'h, 'a, 'w) outcome option" where
  "try_apigw_rest d v =
     (case (get_object v ''request_context'', contains_key v ''http_method'') of
        (Some rc, True) \<Rightarrow>
          (if object_get rc ''http'' = None
           then Some (map_res ApiGatewayV1 (map_err (custom d) (de_rest d v)))
           else None)
      | _ \<Rightarrow> None)"

definition try_apigw_http ::
  "('e, 'r, 'h, 'a, 'w) decoders \<Rightarrow> json \<Rightarrow> ('r, 'h, 'a, 'w) outcome option" where
  "try_apigw_http d v =
     (case get_object v ''request_context'' of
        Some rc \<Rightarrow>
          (if object_get rc ''http'' \<noteq> None
           then Some (map_res ApiGatewayV2 (map_err (custom d) (de_http d v)))
           else None)
      | None \<Rightarrow> None)"

definition try_alb ::
  "('e, 'r, 'h, 'a, 'w) decoders \<Rightarrow> json \<Rightarrow> ('r, 'h, 'a, 'w) outcome option" where
  "try_alb d v =
     (case get_object v ''request_context'' of
        Some rc \<Rightarrow>
          (case object_get rc ''elb'' of
             Some _ \<Rightarrow> Some (map_res Alb (map_err (custom d) (de_alb d v)))
           | None \<Rightarrow> None)
      | None \<Rightarrow> None)"

definition try_apigw_websockets ::
  "('e, 'r, 'h, 'a, 'w) decoders \<Rightarrow> json \<Rightarrow> ('r, 'h, 'a, 'w) outcome option" where
  "try_apigw_websockets d v =
     (if contains_key v ''connected_at''
      then Some (map_res WebSocket (map_err (custom d) (de_websocket d v)))
      else None)"

definition try_pass_through :: "string \<Rightarrow> ('r, 'h, 'a, 'w) outcome option" where
  "try_pass_through data =
     (if PASS_THROUGH_ENABLED then Some (Inr (PassThrough data)) else None)"

definition deserialize ::
  "features \<Rightarrow> ('e, 'r, 'h, 'a, 'w) decoders \<Rightarrow> string \<Rightarrow> json \<Rightarrow> ('r, 'h, 'a, 'w) outcome" where
  "deserialize f d data v =
     (case when_feature (apigw_rest f) (try_apigw_rest d v) of
        Some r \<Rightarrow> r
      | None \<Rightarrow>
     (case when_feature (apigw_http f) (try_apigw_http d v) of
        Some r \<Rightarrow> r
      | None \<Rightarrow>
     (case when_feature (alb f) (try_alb d v) of
        Some r \<Rightarrow> r
      | None \<Rightarrow>
     (case when_feature (apigw_websockets f) (try_apigw_websockets d v) of
        Some r \<Rightarrow> r
      | None \<Rightarrow>
     (case when_feature (pass_through f) (try_pass_through data) of
        Some r \<Rightarrow> r
      | None \<Rightarrow> Inl (Custom ERROR_CONTEXT))))))"


section \<open>The specification: a priority-ordered catalog of variant descriptors\<close>

record probe_keys =
  k_request_context :: string
  k_http_method :: string
  k_http :: string
  k_elb :: string
  k_connected_at :: string

definition code_keys :: probe_keys where
  "code_keys = \<lparr>k_request_context = ''request_context'', k_http_method = ''http_method'',
     k_http = ''http'', k_elb = ''elb'', k_connected_at = ''connected_at''\<rparr>"

definition wire_keys :: probe_keys where
  "wire_keys = \<lparr>k_request_context = ''requestContext'', k_http_method = ''httpMethod'',
     k_http = ''http'', k_elb = ''elb'', k_connected_at = ''connectedAt''\<rparr>"

definition is_apigw_rest :: "probe_keys \<Rightarrow> json \<Rightarrow> bool" where
  "is_apigw_rest ks v \<longleftrightarrow>
     get_object_at v [k_request_context ks] \<noteq> None
     \<and> \<not> has_key v [k_request_context ks, k_http ks]
     \<and> has_key v [k_http_method ks]"

definition is_apigw_http :: "probe_keys \<Rightarrow> json \<Rightarrow> bool" where
  "is_apigw_http ks v \<longleftrightarrow>
     get_object_at v [k_request_context ks] \<noteq> None
     \<and> has_key v [k_request_context ks, k_http ks]"

definition is_alb :: "probe_keys \<Rightarrow> json \<Rightarrow> bool" where
  "is_alb ks v \<longleftrightarrow>
     get_object_at v [k_request_context ks] \<noteq> None
     \<and> has_key v [k_request_context ks, k_elb ks]"

definition is_websocket :: "probe_keys \<Rightarrow> json \<Rightarrow> bool" where
  "is_websocket ks v \<longleftrightarrow> has_key v [k_connected_at ks]"

datatype variant = VApiGatewayV1 | VApiGatewayV2 | VAlb | VWebSocket

record descriptor =
  tag :: variant
  pred :: "json \<Rightarrow> bool"

definition priority_order :: "variant list" where
  "priority_order = [VApiGatewayV1, VApiGatewayV2, VAlb, VWebSocket]"

fun rank :: "variant \<Rightarrow> nat" where
  "rank VApiGatewayV1 = 0"
| "rank VApiGatewayV2 = 1"
| "rank VAlb = 2"
| "rank VWebSocket = 3"

instantiation variant :: linorder
begin

definition less_eq_variant :: "variant \<Rightarrow> variant \<Rightarrow> bool" where
  "less_eq_variant a b \<longleftrightarrow> rank a \<le> rank b"

definition less_variant :: "variant \<Rightarrow> variant \<Rightarrow> bool" where
  "less_variant a b \<longleftrightarrow> rank a < rank b"

instance
proof
  fix a b :: variant
  show "a \<le> b \<Longrightarrow> b \<le> a \<Longrightarrow> a = b"
    by (cases a; cases b) (simp_all add: less_eq_variant_def)
qed (auto simp: less_eq_variant_def less_variant_def)

end

fun enabled :: "features \<Rightarrow> variant \<Rightarrow> bool" where
  "enabled f VApiGatewayV1 = apigw_rest f"
| "enabled f VApiGatewayV2 = apigw_http f"
| "enabled f VAlb = alb f"
| "enabled f VWebSocket = apigw_websockets f"

fun matches :: "probe_keys \<Rightarrow> variant \<Rightarrow> json \<Rightarrow> bool" where
  "matches ks VApiGatewayV1 v = is_apigw_rest ks v"
| "matches ks VApiGatewayV2 v = is_apigw_http ks v"
| "matches ks VAlb v = is_alb ks v"
| "matches ks VWebSocket v = is_websocket ks v"

definition catalog :: "probe_keys \<Rightarrow> features \<Rightarrow> descriptor list" where
  "catalog ks f =
     map (\<lambda>t. \<lparr>tag = t, pred = matches ks t\<rparr>) (filter (enabled f) priority_order)"

definition select :: "descriptor list \<Rightarrow> json \<Rightarrow> variant option" where
  "select cat v = map_option tag (find (\<lambda>c. pred c v) cat)"

fun decode_as ::
  "('e, 'r, 'h, 'a, 'w) decoders \<Rightarrow> variant \<Rightarrow> json \<Rightarrow> ('r, 'h, 'a, 'w) outcome" where
  "decode_as d VApiGatewayV1 v = map_res ApiGatewayV1 (map_err (custom d) (de_rest d v))"
| "decode_as d VApiGatewayV2 v = map_res ApiGatewayV2 (map_err (custom d) (de_http d v))"
| "decode_as d VAlb v = map_res Alb (map_err (custom d) (de_alb d v))"
| "decode_as d VWebSocket v = map_res WebSocket (map_err (custom d) (de_websocket d v))"

definition fallback :: "features \<Rightarrow> string \<Rightarrow> ('r, 'h, 'a, 'w) outcome" where
  "fallback f data = (if pass_through f then Inr (PassThrough data) else Inl (Custom ERROR_CONTEXT))"

definition dispatch ::
  "probe_keys \<Rightarrow> features \<Rightarrow> ('e, 'r, 'h, 'a, 'w) decoders \<Rightarrow> string \<Rightarrow> json
     \<Rightarrow> ('r, 'h, 'a, 'w) outcome" where
  "dispatch ks f d data v =
     (case select (catalog ks f) v of
        None \<Rightarrow> fallback f data
      | Some t \<Rightarrow> decode_as d t v)"

definition variant_of :: "('r, 'h, 'a, 'w) LambdaRequest \<Rightarrow> variant option" where
  "variant_of r =
     (case r of
        ApiGatewayV1 _ \<Rightarrow> Some VApiGatewayV1
      | ApiGatewayV2 _ \<Rightarrow> Some VApiGatewayV2
      | Alb _ \<Rightarrow> Some VAlb
      | WebSocket _ \<Rightarrow> Some VWebSocket
      | PassThrough _ \<Rightarrow> None)"


section \<open>Sample configurations and payloads\<close>

text \<open>
  The values at which the theorems below are instantiated: the build with every feature
  enabled, decoders that return the tree itself (the WebSocket one always fails), and
  payloads in the key spelling the source probes (\<open>payload_rest\<close>, \<open>payload_overlap\<close>,
  \<open>payload_ws\<close>) and in the spelling of the specification's scenarios A and D.
\<close>

definition all_features :: features where
  "all_features = \<lparr>apigw_rest = True, apigw_http = True, alb = True,
     apigw_websockets = True, pass_through = True\<rparr>"

definition tree_decoders :: "(de_error, json, json, json, json) decoders" where
  "tree_decoders = \<lparr>de_rest = Inr, de_http = Inr, de_alb = Inr,
     de_websocket = (\<lambda>v. Inl (MissingField ''requestContext'')),
     display = (\<lambda>e. ''missing field'')\<rparr>"

definition payload_rest :: json where
  "payload_rest = JObject [(''http_method'', JString ''GET''),
     (''request_context'', JObject [(''account_id'', JString ''12345678912'')])]"

definition payload_overlap :: json where
  "payload_overlap = JObject [(''request_context'', JObject [(''elb'', JObject []),
     (''http'', JObject [])]), (''connected_at'', JNumber 1234),
     (''http_method'', JString ''GET'')]"

definition payload_ws :: json where
  "payload_ws = JObject [(''connected_at'', JNumber 1234)]"

definition scenario_A :: json where
  "scenario_A = JObject [(''requestContext'', JObject [(''http'', JObject [])])]"

definition scenario_D :: json where
  "scenario_D = JObject [(''foo'', JString ''bar'')]"

lemmas sample_defs = all_features_def tree_decoders_def payload_rest_def payload_overlap_def
  payload_ws_def scenario_A_def scenario_D_def


section \<open>Characterisation of the blocks\<close>

lemma code_keys_simps [simp]:
  "k_request_context code_keys = ''request_context''"
  "k_http_method code_keys = ''http_method''"
  "k_http code_keys = ''http''"
  "k_elb code_keys = ''elb''"
  "k_connected_at code_keys = ''connected_at''"
  by (simp_all add: code_keys_def)

lemma wire_keys_simps [simp]:
  "k_request_context wire_keys = ''requestContext''"
  "k_http_method wire_keys = ''httpMethod''"
  "k_http wire_keys = ''http''"
  "k_elb wire_keys = ''elb''"
  "k_connected_at wire_keys = ''connectedAt''"
  by (simp_all add: wire_keys_def)

lemmas is_variant_defs = is_apigw_rest_def is_apigw_http_def is_alb_def is_websocket_def

lemma try_apigw_rest_eq:
  "try_apigw_rest d v =
     (if is_apigw_rest code_keys v then Some (decode_as d VApiGatewayV1 v) else None)"
  by (cases "get_object v ''request_context''")
    (simp_all add: try_apigw_rest_def is_apigw_rest_def get_object_at_single
      has_key_under_object has_key_single split: bool.splits)

lemma try_apigw_http_eq:
  "try_apigw_http d v =
     (if is_apigw_http code_keys v then Some (decode_as d VApiGatewayV2 v) else None)"
  by (cases "get_object v ''request_context''")
    (simp_all add: try_apigw_http_def is_apigw_http_def get_object_at_single
      has_key_under_object)

lemma try_alb_eq:
  "try_alb d v = (if is_alb code_keys v then Some (decode_as d VAlb v) else None)"
  by (cases "get_object v ''request_context''")
    (simp_all add: try_alb_def is_alb_def get_object_at_single has_key_under_object
      split: option.splits)

lemma try_apigw_websockets_eq:
  "try_apigw_websockets d v =
     (if is_websocket code_keys v then Some (decode_as d VWebSocket v) else None)"
  by (simp add: try_apigw_websockets_def is_websocket_def has_key_single)

lemma try_pass_through_eq: "try_pass_through data = Some (Inr (PassThrough data))"
  by (simp add: try_pass_through_def PASS_THROUGH_ENABLED_def)

lemmas try_block_eqs =
  try_apigw_rest_eq try_apigw_http_eq try_alb_eq try_apigw_websockets_eq try_pass_through_eq

lemma deserialize_cases:
  "deserialize f d data v =
     (if apigw_rest f \<and> is_apigw_rest code_keys v then decode_as d VApiGatewayV1 v
      else if apigw_http f \<and> is_apigw_http code_keys v then decode_as d VApiGatewayV2 v
      else if alb f \<and> is_alb code_keys v then decode_as d VAlb v
      else if apigw_websockets f \<and> is_websocket code_keys v then decode_as d VWebSocket v
      else fallback f data)"
  by (simp add: deserialize_def when_feature_def try_block_eqs fallback_def)

lemma select_catalog:
  "select (catalog ks f) v =
     (if apigw_rest f \<and> is_apigw_rest ks v then Some VApiGatewayV1
      else if apigw_http f \<and> is_apigw_http ks v then Some VApiGatewayV2
      else if alb f \<and> is_alb ks v then Some VAlb
      else if apigw_websockets f \<and> is_websocket ks v then Some VWebSocket
      else None)"
  by (simp add: select_def catalog_def priority_order_def)

lemma deserialize_select:
  "deserialize f d data v =
     (case select (catalog code_keys f) v of
        None \<Rightarrow> fallback f data
      | Some t \<Rightarrow> decode_as d t v)"
  by (simp add: deserialize_cases select_catalog)

lemma rest_http_exclusive: "is_apigw_rest ks v \<Longrightarrow> \<not> is_apigw_http ks v"
  by (simp add: is_apigw_rest_def is_apigw_http_def)

lemma decode_as_Inr_iff:
  "decode_as d t v = Inr r \<longleftrightarrow>
     (case t of
        VApiGatewayV1 \<Rightarrow> \<exists>x. de_rest d v = Inr x \<and> r = ApiGatewayV1 x
      | VApiGatewayV2 \<Rightarrow> \<exists>x. de_http d v = Inr x \<and> r = ApiGatewayV2 x
      | VAlb \<Rightarrow> \<exists>x. de_alb d v = Inr x \<and> r = Alb x
      | VWebSocket \<Rightarrow> \<exists>x. de_websocket d v = Inr x \<and> r = WebSocket x)"
  by (cases t) (auto simp: result_simps)

lemma decode_as_variant: "decode_as d t v = Inr r \<Longrightarrow> variant_of r = Some t"
  by (cases t) (auto simp: result_simps variant_of_def)

lemma decode_as_not_pass_through [simp]: "decode_as d t v \<noteq> Inr (PassThrough s)"
  by (cases t) (auto simp: result_simps)

lemma fallback_Inr_iff:
  "fallback f data = Inr r \<longleftrightarrow> pass_through f \<and> r = PassThrough data"
  by (auto simp: fallback_def)

lemma decode_as_Inl_Custom: "decode_as d t v = Inl e \<Longrightarrow> \<exists>msg. e = Custom msg"
  by (cases t) (auto simp: result_simps custom_def)


section \<open>Selection\<close>

lemma is_variant_JObject:
  "is_apigw_rest ks (JObject kvs) \<longleftrightarrow>
     (case object_get kvs (k_request_context ks) of
        Some (JObject rc) \<Rightarrow>
          object_get rc (k_http ks) = None \<and> object_get kvs (k_http_method ks) \<noteq> None
      | _ \<Rightarrow> False)"
  "is_apigw_http ks (JObject kvs) \<longleftrightarrow>
     (case object_get kvs (k_request_context ks) of
        Some (JObject rc) \<Rightarrow> object_get rc (k_http ks) \<noteq> None
      | _ \<Rightarrow> False)"
  "is_alb ks (JObject kvs) \<longleftrightarrow>
     (case object_get kvs (k_request_context ks) of
        Some (JObject rc) \<Rightarrow> object_get rc (k_elb ks) \<noteq> None
      | _ \<Rightarrow> False)"
  "is_websocket ks (JObject kvs) \<longleftrightarrow> object_get kvs (k_connected_at ks) \<noteq> None"
  by (auto simp: is_variant_defs get_object_at_single has_key_pair has_key_single
      contains_key_def split: option.splits json.splits)

lemma select_Some_iff:
  "select (catalog ks f) v = Some t \<longleftrightarrow>
     enabled f t \<and> matches ks t v
     \<and> (\<forall>t'. rank t' < rank t \<longrightarrow> enabled f t' \<longrightarrow> \<not> matches ks t' v)"
  (is "?L \<longleftrightarrow> ?R")
proof
  assume l: ?L
  have "enabled f t \<and> matches ks t v"
    using l by (cases t) (auto simp: select_catalog split: if_splits)
  moreover have "\<not> matches ks t' v" if "rank t' < rank t" and "enabled f t'" for t'
    using l that by (cases t; cases t') (auto simp: select_catalog split: if_splits)
  ultimately show ?R by blast
next
  assume r: ?R
  then have "\<forall>t'. rank t' < rank t \<longrightarrow> \<not> (enabled f t' \<and> matches ks t' v)" by blast
  note lower = this [rule_format]
  from r lower [of VApiGatewayV1] lower [of VApiGatewayV2] lower [of VAlb] show ?L
    by (cases t) (auto simp: select_catalog)
qed

lemma select_None_iff:
  "select (catalog ks f) v = None \<longleftrightarrow> (\<forall>t. enabled f t \<longrightarrow> \<not> matches ks t v)"
  (is "?L \<longleftrightarrow> ?R")
proof
  assume l: ?L
  show ?R
  proof (intro allI impI)
    fix t assume "enabled f t"
    with l show "\<not> matches ks t v"
      by (cases t) (auto simp: select_catalog split: if_splits)
  qed
next
  assume r: ?R
  from r [rule_format, of VApiGatewayV1] r [rule_format, of VApiGatewayV2]
    r [rule_format, of VAlb] r [rule_format, of VWebSocket]
  show ?L by (auto simp: select_catalog)
qed

lemma select_cong:
  assumes "\<And>t. matches ks t v = matches ks t v'"
  shows "select (catalog ks f) v = select (catalog ks f) v'"
  using assms [of VApiGatewayV1] assms [of VApiGatewayV2] assms [of VAlb] assms [of VWebSocket]
  by (simp add: select_catalog)

lemma matches_entry_order:
  assumes "distinct (keys_of xs)" and "distinct (keys_of ys)" and "set xs = set ys"
  shows "matches ks t (JObject xs) = matches ks t (JObject ys)"
  using object_get_set_eq [OF assms]
  by (cases t) (simp_all add: is_variant_JObject split: option.splits json.splits)

lemma no_probe_key_no_match:
  assumes "\<not> contains_key v (k_request_context ks)" and "\<not> contains_key v (k_connected_at ks)"
  shows "\<not> matches ks t v"
proof -
  from assms(1) have "get_object v (k_request_context ks) = None"
    by (auto simp: contains_key_iff_get get_object_def)
  with assms(2) show ?thesis
    by (cases t) (simp_all add: is_variant_defs get_object_at_single has_key_single)
qed

lemma select_least:
  assumes "enabled f t" and "matches ks t v"
  shows "select (catalog ks f) v = Some (LEAST t. enabled f t \<and> matches ks t v)"
proof -
  from assms have "select (catalog ks f) v \<noteq> None" by (auto simp: select_None_iff)
  then obtain t0 where t0: "select (catalog ks f) v = Some t0" by blast
  then have "enabled f t0 \<and> matches ks t0 v"
    and "\<And>t'. enabled f t' \<and> matches ks t' v \<Longrightarrow> t0 \<le> t'"
    unfolding select_Some_iff less_eq_variant_def by (auto simp: not_less [symmetric])
  then have "(LEAST t. enabled f t \<and> matches ks t v) = t0" by (rule Least_equality)
  with t0 show ?thesis by simp
qed

lemma sample_select [simp]:
  "select (catalog code_keys all_features) payload_rest = Some VApiGatewayV1"
  "select (catalog code_keys all_features) payload_overlap = Some VApiGatewayV2"
  "select (catalog code_keys all_features) payload_ws = Some VWebSocket"
  "select (catalog code_keys f) scenario_A = None"
  "select (catalog code_keys f) scenario_D = None"
  by (simp_all add: select_catalog is_variant_JObject sample_defs)


section \<open>Correctness of the dispatcher\<close>

text \<open>
  C1 (refinement). The function of the source, with its nested conditionals and early
  returns, computes exactly the table-driven dispatch of the specification over the
  key names the source probes: the first enabled descriptor of the priority-ordered
  catalog whose predicate holds decides, and its decoder's result is returned;
  otherwise the fall-back.
\<close>

theorem deserialize_refines_dispatch:
  "deserialize f d data v = dispatch code_keys f d data v"
  by (simp add: deserialize_select dispatch_def)

text \<open>
  C2 (priority). When an enabled variant's predicate holds and no enabled variant of
  higher priority matches, the payload is decoded as that variant, whatever variants of
  lower priority match as well: ties are broken by the order of the blocks alone.
\<close>

theorem deserialize_priority:
  assumes "enabled f t" and "matches code_keys t v"
    and "\<forall>t'. rank t' < rank t \<longrightarrow> enabled f t' \<longrightarrow> \<not> matches code_keys t' v"
  shows "deserialize f d data v = decode_as d t v"
proof -
  from assms have "select (catalog code_keys f) v = Some t"
    by (simp add: select_Some_iff)
  then show ?thesis by (simp add: deserialize_select)
qed

theorem deserialize_priority_witness:
  "enabled all_features VApiGatewayV2 \<and> matches code_keys VApiGatewayV2 payload_overlap
   \<and> matches code_keys VAlb payload_overlap \<and> matches code_keys VWebSocket payload_overlap
   \<and> deserialize all_features tree_decoders ''{}'' payload_overlap
       = Inr (ApiGatewayV2 payload_overlap)"
proof -
  have m: "matches code_keys VApiGatewayV2 payload_overlap"
    "matches code_keys VAlb payload_overlap" "matches code_keys VWebSocket payload_overlap"
    "\<not> matches code_keys VApiGatewayV1 payload_overlap"
    by (simp_all add: is_variant_JObject payload_overlap_def)
  have e: "enabled all_features VApiGatewayV2" by (simp add: all_features_def)
  have low: "\<forall>t'. rank t' < rank VApiGatewayV2 \<longrightarrow> enabled all_features t'
      \<longrightarrow> \<not> matches code_keys t' payload_overlap"
  proof (intro allI impI)
    fix t' assume "rank t' < rank VApiGatewayV2"
    then have "t' = VApiGatewayV1" by (cases t') simp_all
    with m(4) show "\<not> matches code_keys t' payload_overlap" by simp
  qed
  show ?thesis
    using deserialize_priority [OF e m(1) low, of tree_decoders "''{}''"] m e
    by (simp add: tree_decoders_def)
qed

text \<open>
  C3 (soundness of the selection). Whatever the function returns was selected for a
  reason: a typed variant is returned only when its feature is enabled, its predicate
  holds, no enabled variant of higher priority matches and its own decoder produced
  the value; the pass-through case is returned only when no enabled variant matches,
  the feature is enabled, and then it carries the payload text unchanged.
\<close>

theorem deserialize_sound:
  assumes "deserialize f d data v = Inr r"
  shows "case variant_of r of
           Some t \<Rightarrow> select (catalog code_keys f) v = Some t \<and> decode_as d t v = Inr r
         | None \<Rightarrow> select (catalog code_keys f) v = None \<and> pass_through f
                    \<and> r = PassThrough data"
proof (cases "select (catalog code_keys f) v")
  case None
  with assms have "fallback f data = Inr r" by (simp add: deserialize_select)
  with None show ?thesis by (simp add: fallback_Inr_iff variant_of_def)
next
  case (Some t)
  with assms have "decode_as d t v = Inr r" by (simp add: deserialize_select)
  with Some show ?thesis by (simp add: decode_as_variant)
qed

theorem deserialize_sound_witness:
  "deserialize all_features tree_decoders ''{}'' payload_rest = Inr (ApiGatewayV1 payload_rest)
   \<and> select (catalog code_keys all_features) payload_rest = Some VApiGatewayV1
   \<and> decode_as tree_decoders VApiGatewayV1 payload_rest = Inr (ApiGatewayV1 payload_rest)"
proof -
  have h: "deserialize all_features tree_decoders ''{}'' payload_rest
      = Inr (ApiGatewayV1 payload_rest)"
    by (simp add: deserialize_select tree_decoders_def)
  show ?thesis using h deserialize_sound [OF h] by (simp add: variant_of_def)
qed

text \<open>
  C6 (decode errors are propagated). When a variant is selected and its typed decoder
  fails, the function returns that failure, wrapped as a custom error that carries the
  decoder's message; it does not go on to a later variant or to the pass-through case.
\<close>

theorem deserialize_decode_error:
  assumes "select (catalog code_keys f) v = Some t" and "decode_as d t v = Inl e"
  shows "deserialize f d data v = Inl e \<and> (\<exists>msg. e = Custom msg)"
  using assms by (auto simp: deserialize_select dest: decode_as_Inl_Custom)

theorem deserialize_decode_error_witness:
  "select (catalog code_keys all_features) payload_ws = Some VWebSocket
   \<and> deserialize all_features tree_decoders ''{}'' payload_ws = Inl (Custom ''missing field'')"
proof -
  have s: "select (catalog code_keys all_features) payload_ws = Some VWebSocket" by simp
  have e: "decode_as tree_decoders VWebSocket payload_ws = Inl (Custom ''missing field'')"
    by (simp add: tree_decoders_def custom_def)
  show ?thesis using deserialize_decode_error [OF s e, of "''{}''"] s by simp
qed

text \<open>
  C7 (unrecognized shape). When no enabled variant matches and the pass-through feature
  is off, the function fails with the fixed message \<open>ERROR_CONTEXT\<close>, which does not
  depend on the enabled features or on the payload.
\<close>

theorem deserialize_unrecognized:
  assumes "\<forall>t. enabled f t \<longrightarrow> \<not> matches code_keys t v" and "\<not> pass_through f"
  shows "deserialize f d data v = Inl (Custom ERROR_CONTEXT)"
  using assms by (simp add: deserialize_select select_None_iff [THEN iffD2] fallback_def)

theorem deserialize_unrecognized_witness:
  "(\<forall>t. \<not> matches code_keys t scenario_D)
   \<and> deserialize (all_features\<lparr>pass_through := False\<rparr>) tree_decoders ''{}'' scenario_D
       = Inl (Custom ERROR_CONTEXT)"
proof -
  have n: "\<forall>t. enabled (all_features\<lparr>pass_through := False\<rparr>) t
      \<longrightarrow> \<not> matches code_keys t scenario_D"
    by (simp add: no_probe_key_no_match scenario_D_def)
  have p: "\<not> pass_through (all_features\<lparr>pass_through := False\<rparr>)" by simp
  show ?thesis
    using deserialize_unrecognized [OF n p, of tree_decoders "''{}''"]
    by (simp add: no_probe_key_no_match scenario_D_def)
qed

text \<open>
  C11 (pass-through). When no enabled variant matches and the pass-through feature is
  on, the function succeeds with the pass-through case wrapping the payload text as it
  was given.
\<close>

theorem deserialize_pass_through:
  assumes "\<forall>t. enabled f t \<longrightarrow> \<not> matches code_keys t v" and "pass_through f"
  shows "deserialize f d data v = Inr (PassThrough data)"
  using assms by (simp add: deserialize_select select_None_iff [THEN iffD2] fallback_def)

theorem deserialize_pass_through_witness:
  "(\<forall>t. \<not> matches code_keys t scenario_D) \<and> pass_through all_features
   \<and> deserialize all_features tree_decoders ''{\"foo\":\"bar\"}'' scenario_D
       = Inr (PassThrough ''{\"foo\":\"bar\"}'')"
proof -
  have n: "\<forall>t. enabled all_features t \<longrightarrow> \<not> matches code_keys t scenario_D"
    by (simp add: no_probe_key_no_match scenario_D_def)
  have p: "pass_through all_features" by (simp add: all_features_def)
  show ?thesis
    using deserialize_pass_through [OF n p, of tree_decoders "''{\"foo\":\"bar\"}''"] p
    by (simp add: no_probe_key_no_match scenario_D_def)
qed

text \<open>
  C12 (the probed key names). The source probes the keys \<open>request_context\<close> and
  \<open>connected_at\<close>. A payload with neither key at its top level is never decoded as
  one of the four typed variants: the function takes the fall-back, whatever features
  are enabled. Payloads in the upstream services' spelling (\<open>requestContext\<close>,
  \<open>connectedAt\<close>) are of this kind.
\<close>

theorem wire_payload_unrecognized:
  assumes "\<not> contains_key v ''request_context''" and "\<not> contains_key v ''connected_at''"
  shows "deserialize f d data v = fallback f data"
proof -
  have "\<not> matches code_keys t v" for t
    using assms by (intro no_probe_key_no_match) simp_all
  then have "select (catalog code_keys f) v = None" by (simp add: select_None_iff)
  then show ?thesis by (simp add: deserialize_select)
qed

theorem wire_payload_unrecognized_witness:
  "\<not> contains_key scenario_A ''request_context'' \<and> \<not> contains_key scenario_A ''connected_at''
   \<and> deserialize all_features tree_decoders ''{}'' scenario_A = Inr (PassThrough ''{}'')"
proof -
  have a: "\<not> contains_key scenario_A ''request_context''"
    and b: "\<not> contains_key scenario_A ''connected_at''"
    by (simp_all add: scenario_A_def)
  show ?thesis
    using wire_payload_unrecognized [OF a b, of all_features tree_decoders "''{}''"] a b
    by (simp add: fallback_def all_features_def)
qed




text \<open>
  C28 (extension by lower-priority variants). Once a payload resolves to a variant,
  enabling or disabling variants of lower priority, or the pass-through feature, does
  not change the result.
\<close>

theorem lower_priority_extension:
  assumes "select (catalog code_keys f) v = Some t"
    and "\<forall>t'. rank t' \<le> rank t \<longrightarrow> enabled f' t' = enabled f t'"
  shows "deserialize f' d data v = deserialize f d data v"
proof -
  from assms have "select (catalog code_keys f') v = Some t"
    by (auto simp: select_Some_iff)
  with assms(1) show ?thesis by (simp add: deserialize_select)
qed

theorem lower_priority_extension_witness:
  "select (catalog code_keys all_features) payload_rest = Some VApiGatewayV1
   \<and> deserialize (all_features\<lparr>alb := False, pass_through := False\<rparr>) tree_decoders ''{}''
       payload_rest
     = deserialize all_features tree_decoders ''{}'' payload_rest"
proof -
  have s: "select (catalog code_keys all_features) payload_rest = Some VApiGatewayV1" by simp
  have e: "\<forall>t'. rank t' \<le> rank VApiGatewayV1 \<longrightarrow>
      enabled (all_features\<lparr>alb := False, pass_through := False\<rparr>) t' = enabled all_features t'"
  proof (intro allI impI)
    fix t' assume "rank t' \<le> rank VApiGatewayV1"
    then have "t' = VApiGatewayV1" by (cases t') simp_all
    then show "enabled (all_features\<lparr>alb := False, pass_through := False\<rparr>) t'
        = enabled all_features t'" by simp
  qed
  show ?thesis using lower_priority_extension [OF s e, of tree_decoders "''{}''"] s by simp
qed


text \<open>
  Least match. With the variants ordered by priority, a payload that some
  enabled variant matches is decoded as the least enabled variant that matches it.
\<close>

theorem deserialize_least_match:
  assumes "enabled f t" and "matches code_keys t v"
  shows "deserialize f d data v
     = decode_as d (LEAST t. enabled f t \<and> matches code_keys t v) v"
  by (simp add: deserialize_select select_least [OF assms])

theorem deserialize_least_match_witness:
  "deserialize all_features tree_decoders ''{}'' payload_overlap
     = decode_as tree_decoders
         (LEAST t. enabled all_features t \<and> matches code_keys t payload_overlap) payload_overlap
   \<and> deserialize all_features tree_decoders ''{}'' payload_overlap = Inr (ApiGatewayV2 payload_overlap)"
proof -
  have "enabled all_features VAlb" and "matches code_keys VAlb payload_overlap"
    by (simp_all add: sample_defs is_variant_JObject)
  from deserialize_least_match [OF this, of tree_decoders "''{}''"] show ?thesis
    by (simp add: deserialize_select tree_decoders_def)
qed

end
