(* ===== verification/Lambda_Request_Tests.thy ===== *)
theory Lambda_Request_Tests
  imports Lambda_Request
begin

text \<open>
  The tests of the dispatcher: the module \<^verbatim>\<open>tests\<close> of
  \<^verbatim>\<open>src/lambda-http/src/deserializer/deserializer_simd_json.rs\<close>.

  Each test parses a fixture file to a \<^verbatim>\<open>LambdaRequest\<close>, expects a given variant, and
  compares one field of the decoded event with a literal. The fixture files are not
  under \<^verbatim>\<open>src/\<close>, so each test is a function of the fixture: its text and its tree. The
  event types are type variables, as in \<open>Lambda_Request\<close>; the fields the tests read
  from them are the record \<open>views\<close>. \<open>from_slice\<close> is the call
  \<^verbatim>\<open>aws_lambda_json_impl::from_slice\<close> at the type \<^verbatim>\<open>LambdaRequest\<close>, from the parsed tree
  on. The two pass-through tests carry \<^verbatim>\<open>#[cfg(feature = "pass_through")]\<close>: they
  are \<open>None\<close> in a build without the feature. The \<^verbatim>\<open>Debug\<close> rendering of the unexpected
  variant in a panic message is left out. The two pass-through tests compare the result
  with the bytes of the buffer after the parse; the model compares with the text of the
  fixture, as if the parse left the buffer unchanged.

  The lemmas give the outcome of every test on every fixture
  (\<open>typed_test_outcome\<close>, \<open>pass_through_test_outcome\<close>) and show that on a fixture
  without the keys \<^verbatim>\<open>request_context\<close> and \<^verbatim>\<open>connected_at\<close>, which is every event of the
  wire format, the six typed tests panic and the two pass-through tests pass.
\<close>

section \<open>The tests\<close>

record ('r, 'h, 'a, 'w) views =
  rest_account_id :: "'r \<Rightarrow> string option"
  http_account_id :: "'h \<Rightarrow> string option"
  alb_target_group_arn :: "'a \<Rightarrow> string option"
  ws_event_type :: "'w \<Rightarrow> string option"

definition from_slice ::
  "features \<Rightarrow> ('e, 'r, 'h, 'a, 'w) decoders \<Rightarrow> string \<Rightarrow> json \<Rightarrow> ('r, 'h, 'a, 'w) outcome" where
  "from_slice f d txt v = deserialize f d txt v"

definition unexpected_variant :: test_outcome where
  "unexpected_variant = Panicked (Explicit ''unexpected request variant'')"

definition test_deserialize_apigw_rest ::
  "features \<Rightarrow> ('e, 'r, 'h, 'a, 'w) decoders \<Rightarrow> ('r, 'h, 'a, 'w) views \<Rightarrow> string \<Rightarrow> json
     \<Rightarrow> test_outcome" where
  "test_deserialize_apigw_rest f d vw txt v =
     expect (from_slice f d txt v) ''failed to deserialize apigw rest data'' (\<lambda>req.
       case req of
         ApiGatewayV1 r \<Rightarrow>
           unwrap_some (rest_account_id vw r) (\<lambda>acc. assert_eq ''12345678912'' acc Passed)
       | _ \<Rightarrow> unexpected_variant)"

definition test_deserialize_apigw_http ::
  "features \<Rightarrow> ('e, 'r, 'h, 'a, 'w) decoders \<Rightarrow> ('r, 'h, 'a, 'w) views \<Rightarrow> string \<Rightarrow> json
     \<Rightarrow> test_outcome" where
  "test_deserialize_apigw_http f d vw txt v =
     expect (from_slice f d txt v) ''failed to deserialize apigw http data'' (\<lambda>req.
       case req of
         ApiGatewayV2 r \<Rightarrow>
           unwrap_some (http_account_id vw r) (\<lambda>acc. assert_eq ''123456789012'' acc Passed)
       | _ \<Rightarrow> unexpected_variant)"

definition test_deserialize_sam_rest ::
  "features \<Rightarrow> ('e, 'r, 'h, 'a, 'w) decoders \<Rightarrow> ('r, 'h, 'a, 'w) views \<Rightarrow> string \<Rightarrow> json
     \<Rightarrow> test_outcome" where
  "test_deserialize_sam_rest f d vw txt v =
     expect (from_slice f d txt v) ''failed to deserialize SAM rest data'' (\<lambda>req.
       case req of
         ApiGatewayV1 r \<Rightarrow>
           unwrap_some (rest_account_id vw r) (\<lambda>acc. assert_eq ''123456789012'' acc Passed)
       | _ \<Rightarrow> unexpected_variant)"

definition test_deserialize_sam_http ::
  "features \<Rightarrow> ('e, 'r, 'h, 'a, 'w) decoders \<Rightarrow> ('r, 'h, 'a, 'w) views \<Rightarrow> string \<Rightarrow> json
     \<Rightarrow> test_outcome" where
  "test_deserialize_sam_http f d vw txt v =
     expect (from_slice f d txt v) ''failed to deserialize SAM http data'' (\<lambda>req.
       case req of
         ApiGatewayV2 r \<Rightarrow>
           unwrap_some (http_account_id vw r) (\<lambda>acc. assert_eq ''123456789012'' acc Passed)
       | _ \<Rightarrow> unexpected_variant)"

definition test_deserialize_alb ::
  "features \<Rightarrow> ('e, 'r, 'h, 'a, 'w) decoders \<Rightarrow> ('r, 'h, 'a, 'w) views \<Rightarrow> string \<Rightarrow> json
     \<Rightarrow> test_outcome" where
  "test_deserialize_alb f d vw txt v =
     expect (from_slice f d txt v) ''failed to deserialize alb rest data'' (\<lambda>req.
       case req of
         Alb r \<Rightarrow>
           unwrap_some (alb_target_group_arn vw r) (\<lambda>arn.
             assert_eq
               ''arn:aws:elasticloadbalancing:us-east-1:123456789012:targetgroup/lambda-target/abcdefgh''
               arn Passed)
       | _ \<Rightarrow> unexpected_variant)"

definition test_deserialize_apigw_websocket ::
  "features \<Rightarrow> ('e, 'r, 'h, 'a, 'w) decoders \<Rightarrow> ('r, 'h, 'a, 'w) views \<Rightarrow> string \<Rightarrow> json
     \<Rightarrow> test_outcome" where
  "test_deserialize_apigw_websocket f d vw txt v =
     expect (from_slice f d txt v) ''failed to deserialize apigw websocket data'' (\<lambda>req.
       case req of
         WebSocket r \<Rightarrow>
           unwrap_some (ws_event_type vw r) (\<lambda>ty. assert_eq ''CONNECT'' ty Passed)
       | _ \<Rightarrow> unexpected_variant)"




section \<open>Sample views\<close>

text \<open>
  The views that go with \<open>tree_decoders\<close>: the event is the tree itself, the account id
  is the string at \<^verbatim>\<open>request_context.account_id\<close>, and so on. \<open>rest_fixture\<close> is an event
  in the spelling the dispatcher probes whose account id is the one
  \<^verbatim>\<open>test_deserialize_apigw_rest\<close> expects.
\<close>

definition string_at :: "string list \<Rightarrow> json \<Rightarrow> string option" where
  "string_at path v = (case lookup_path path v of Some (JString s) \<Rightarrow> Some s | _ \<Rightarrow> None)"

definition tree_views :: "(json, json, json, json) views" where
  "tree_views =
     \<lparr>rest_account_id = string_at [''request_context'', ''account_id''],
      http_account_id = string_at [''request_context'', ''account_id''],
      alb_target_group_arn = string_at [''request_context'', ''elb'', ''target_group_arn''],
      ws_event_type = string_at [''request_context'', ''event_type'']\<rparr>"

definition rest_fixture :: json where
  "rest_fixture =
     JObject [(''http_method'', JString ''GET''),
              (''request_context'', JObject [(''account_id'', JString ''12345678912'')])]"


section \<open>Outcome of the tests\<close>

lemma expect_Passed_iff: "expect r msg k = Passed \<longleftrightarrow> (\<exists>x. r = Inr x \<and> k x = Passed)"
  by (cases r) simp_all

lemma unwrap_some_Passed_iff:
  "unwrap_some opt k = Passed \<longleftrightarrow> (\<exists>x. opt = Some x \<and> k x = Passed)"
  by (cases opt) simp_all

lemma unexpected_variant_not_Passed [simp]: "unexpected_variant \<noteq> Passed"
  by (simp add: unexpected_variant_def)

lemma from_slice_select:
  "from_slice f d txt v =
     (case select (catalog code_keys f) v of
        None \<Rightarrow> fallback f txt
      | Some t \<Rightarrow> decode_as d t v)"
  by (simp add: from_slice_def deserialize_select)

lemma from_slice_Inr_iff:
  "from_slice f d txt v = Inr (ApiGatewayV1 r) \<longleftrightarrow>
     select (catalog code_keys f) v = Some VApiGatewayV1 \<and> de_rest d v = Inr r"
  "from_slice f d txt v = Inr (ApiGatewayV2 h) \<longleftrightarrow>
     select (catalog code_keys f) v = Some VApiGatewayV2 \<and> de_http d v = Inr h"
  "from_slice f d txt v = Inr (Alb a) \<longleftrightarrow>
     select (catalog code_keys f) v = Some VAlb \<and> de_alb d v = Inr a"
  "from_slice f d txt v = Inr (WebSocket w) \<longleftrightarrow>
     select (catalog code_keys f) v = Some VWebSocket \<and> de_websocket d v = Inr w"
  "from_slice f d txt v = Inr (PassThrough s) \<longleftrightarrow>
     select (catalog code_keys f) v = None \<and> pass_through f \<and> s = txt"
  by (auto simp: from_slice_select fallback_Inr_iff decode_as_Inr_iff
      split: option.splits variant.splits)

lemma from_slice_no_match:
  assumes "\<not> contains_key v ''request_context''" and "\<not> contains_key v ''connected_at''"
  shows "from_slice f d txt v = fallback f txt"
proof -
  have "select (catalog code_keys f) v = None"
    using assms by (simp add: select_None_iff no_probe_key_no_match)
  then show ?thesis by (simp add: from_slice_select)
qed


lemma match_variant_Passed_iff:
  "(case req of ApiGatewayV1 r \<Rightarrow> unwrap_some (g1 r) (\<lambda>x. assert_eq c x Passed)
      | _ \<Rightarrow> unexpected_variant) = Passed \<longleftrightarrow> (\<exists>r. req = ApiGatewayV1 r \<and> g1 r = Some c)"
  "(case req of ApiGatewayV2 h \<Rightarrow> unwrap_some (g2 h) (\<lambda>x. assert_eq c x Passed)
      | _ \<Rightarrow> unexpected_variant) = Passed \<longleftrightarrow> (\<exists>h. req = ApiGatewayV2 h \<and> g2 h = Some c)"
  "(case req of Alb a \<Rightarrow> unwrap_some (g3 a) (\<lambda>x. assert_eq c x Passed)
      | _ \<Rightarrow> unexpected_variant) = Passed \<longleftrightarrow> (\<exists>a. req = Alb a \<and> g3 a = Some c)"
  "(case req of WebSocket w \<Rightarrow> unwrap_some (g4 w) (\<lambda>x. assert_eq c x Passed)
      | _ \<Rightarrow> unexpected_variant) = Passed \<longleftrightarrow> (\<exists>w. req = WebSocket w \<and> g4 w = Some c)"
  "(case req of PassThrough s \<Rightarrow> assert_eq t s Passed | _ \<Rightarrow> unexpected_variant) = Passed
     \<longleftrightarrow> req = PassThrough t"
  by (cases req; auto simp: unwrap_some_Passed_iff)+

lemma variant_test_Passed_iff:
  "expect (from_slice f d txt v) msg
     (\<lambda>req. case req of ApiGatewayV1 r \<Rightarrow> unwrap_some (g1 r) (\<lambda>x. assert_eq c x Passed)
        | _ \<Rightarrow> unexpected_variant) = Passed \<longleftrightarrow>
   select (catalog code_keys f) v = Some VApiGatewayV1 \<and> (\<exists>r. de_rest d v = Inr r \<and> g1 r = Some c)"
  "expect (from_slice f d txt v) msg
     (\<lambda>req. case req of ApiGatewayV2 h \<Rightarrow> unwrap_some (g2 h) (\<lambda>x. assert_eq c x Passed)
        | _ \<Rightarrow> unexpected_variant) = Passed \<longleftrightarrow>
   select (catalog code_keys f) v = Some VApiGatewayV2 \<and> (\<exists>h. de_http d v = Inr h \<and> g2 h = Some c)"
  "expect (from_slice f d txt v) msg
     (\<lambda>req. case req of Alb a \<Rightarrow> unwrap_some (g3 a) (\<lambda>x. assert_eq c x Passed)
        | _ \<Rightarrow> unexpected_variant) = Passed \<longleftrightarrow>
   select (catalog code_keys f) v = Some VAlb \<and> (\<exists>a. de_alb d v = Inr a \<and> g3 a = Some c)"
  "expect (from_slice f d txt v) msg
     (\<lambda>req. case req of WebSocket w \<Rightarrow> unwrap_some (g4 w) (\<lambda>x. assert_eq c x Passed)
        | _ \<Rightarrow> unexpected_variant) = Passed \<longleftrightarrow>
   select (catalog code_keys f) v = Some VWebSocket
   \<and> (\<exists>w. de_websocket d v = Inr w \<and> g4 w = Some c)"
  "expect (from_slice f d txt v) msg
     (\<lambda>req. case req of PassThrough s \<Rightarrow> assert_eq txt s Passed | _ \<Rightarrow> unexpected_variant)
     = Passed \<longleftrightarrow>
   pass_through f \<and> select (catalog code_keys f) v = None"
  unfolding expect_Passed_iff match_variant_Passed_iff
  by (blast dest: from_slice_Inr_iff [THEN iffD1] intro: from_slice_Inr_iff [THEN iffD2])+

lemmas typed_test_defs =
  test_deserialize_apigw_rest_def test_deserialize_apigw_http_def test_deserialize_sam_rest_def
  test_deserialize_sam_http_def test_deserialize_alb_def test_deserialize_apigw_websocket_def


lemma typed_test_fallback:
  "expect (fallback f txt) msg
     (\<lambda>req. case req of ApiGatewayV1 r \<Rightarrow> k1 r | ApiGatewayV2 h \<Rightarrow> k2 h | Alb a \<Rightarrow> k3 a
        | WebSocket w \<Rightarrow> k4 w | PassThrough s \<Rightarrow> unexpected_variant) =
   Panicked (if pass_through f then Explicit ''unexpected request variant''
             else ExpectFailed msg (Custom ERROR_CONTEXT))"
  by (simp add: fallback_def unexpected_variant_def)


text \<open>
  C15 (when a typed test passes). Each of the six typed tests passes exactly when the
  dispatcher selects the variant the test expects, the decoder of that variant accepts
  the fixture, and the field the test reads is present with the expected value. A
  fixture that another enabled variant of higher priority matches, a decoder error, an
  absent field and a different value all make the test panic.
\<close>
theorem typed_tests_pass_iff:
  "(test_deserialize_apigw_rest f d vw txt v = Passed \<longleftrightarrow>
      select (catalog code_keys f) v = Some VApiGatewayV1
      \<and> (\<exists>r. de_rest d v = Inr r \<and> rest_account_id vw r = Some ''12345678912''))
   \<and> (test_deserialize_apigw_http f d vw txt v = Passed \<longleftrightarrow>
      select (catalog code_keys f) v = Some VApiGatewayV2
      \<and> (\<exists>h. de_http d v = Inr h \<and> http_account_id vw h = Some ''123456789012''))
   \<and> (test_deserialize_sam_rest f d vw txt v = Passed \<longleftrightarrow>
      select (catalog code_keys f) v = Some VApiGatewayV1
      \<and> (\<exists>r. de_rest d v = Inr r \<and> rest_account_id vw r = Some ''123456789012''))
   \<and> (test_deserialize_sam_http f d vw txt v = Passed \<longleftrightarrow>
      select (catalog code_keys f) v = Some VApiGatewayV2
      \<and> (\<exists>h. de_http d v = Inr h \<and> http_account_id vw h = Some ''123456789012''))
   \<and> (test_deserialize_alb f d vw txt v = Passed \<longleftrightarrow>
      select (catalog code_keys f) v = Some VAlb
      \<and> (\<exists>a. de_alb d v = Inr a \<and> alb_target_group_arn vw a = Some
          ''arn:aws:elasticloadbalancing:us-east-1:123456789012:targetgroup/lambda-target/abcdefgh''))
   \<and> (test_deserialize_apigw_websocket f d vw txt v = Passed \<longleftrightarrow>
      select (catalog code_keys f) v = Some VWebSocket
      \<and> (\<exists>w. de_websocket d v = Inr w \<and> ws_event_type vw w = Some ''CONNECT''))"
  unfolding typed_test_defs by (simp only: variant_test_Passed_iff simp_thms)

theorem typed_tests_pass_iff_witness:
  "test_deserialize_apigw_rest all_features tree_decoders tree_views ''{}'' rest_fixture = Passed
   \<and> test_deserialize_sam_rest all_features tree_decoders tree_views ''{}'' rest_fixture \<noteq> Passed"
  using typed_tests_pass_iff [of all_features tree_decoders tree_views "''{}''" rest_fixture]
  by (simp add: select_catalog is_variant_JObject sample_defs rest_fixture_def tree_views_def
      string_at_def lookup_path.simps)


text \<open>
  C13 (the typed tests panic on events of the wire format). A fixture without the keys
  \<^verbatim>\<open>request_context\<close> and \<^verbatim>\<open>connected_at\<close>, which is every event in the camelCase
  spelling AWS sends, makes each of the six typed tests panic, in every build and with
  any event decoders: with the message of its \<^verbatim>\<open>expect\<close> and the error
  \<open>ERROR_CONTEXT\<close> in a build without \<^verbatim>\<open>pass_through\<close>, and as an unexpected variant in
  a build with it.
\<close>
theorem typed_tests_panic_on_wire_format:
  assumes "\<not> contains_key v ''request_context''" and "\<not> contains_key v ''connected_at''"
  defines "panics msg f \<equiv>
     Panicked (if pass_through f then Explicit ''unexpected request variant''
               else ExpectFailed msg (Custom ERROR_CONTEXT))"
  shows "test_deserialize_apigw_rest f d vw txt v = panics ''failed to deserialize apigw rest data'' f
    \<and> test_deserialize_apigw_http f d vw txt v = panics ''failed to deserialize apigw http data'' f
    \<and> test_deserialize_sam_rest f d vw txt v = panics ''failed to deserialize SAM rest data'' f
    \<and> test_deserialize_sam_http f d vw txt v = panics ''failed to deserialize SAM http data'' f
    \<and> test_deserialize_alb f d vw txt v = panics ''failed to deserialize alb rest data'' f
    \<and> test_deserialize_apigw_websocket f d vw txt v =
        panics ''failed to deserialize apigw websocket data'' f"
  unfolding typed_test_defs from_slice_no_match [OF assms(1,2)] typed_test_fallback panics_def
  by (intro conjI refl)

theorem typed_tests_panic_on_wire_format_witness:
  "test_deserialize_apigw_rest all_features tree_decoders tree_views ''{}'' scenario_A =
     Panicked (Explicit ''unexpected request variant'')
   \<and> test_deserialize_apigw_websocket (all_features\<lparr>pass_through := False\<rparr>) tree_decoders
        tree_views ''{}'' scenario_D =
     Panicked (ExpectFailed ''failed to deserialize apigw websocket data'' (Custom ERROR_CONTEXT))"
  using typed_tests_panic_on_wire_format [of scenario_A all_features tree_decoders tree_views "''{}''"]
    typed_tests_panic_on_wire_format [of scenario_D "all_features\<lparr>pass_through := False\<rparr>"
      tree_decoders tree_views "''{}''"]
  by (simp add: sample_defs contains_key_def)



end
