(* ===== verification/Secrets_Manager.thy ===== *)
theory Secrets_Manager
  imports Serde
begin

text \<open>
  The Secrets Manager rotation event of
  \<^verbatim>\<open>src/lambda-events/src/event/secretsmanager/mod.rs\<close>.

  \<^item> The record \<open>SecretsManagerSecretRotationEvent\<close> is the struct, with the fields
    in the order of the declaration.
  \<^item> \<open>srm_fields\<close>, \<open>srm_build\<close> and \<open>srm_deserialize\<close> are the derived
    \<^verbatim>\<open>Deserialize\<close>: the three keys are the field names in PascalCase
    (\<^verbatim>\<open>rename_all = "PascalCase"\<close>), every field is a \<^verbatim>\<open>String\<close> without a default, and
    the fields are built in declaration order, so that the first missing one is the
    one reported. \<open>srm_serialize\<close> is the derived \<^verbatim>\<open>Serialize\<close>, which emits the
    three entries in declaration order.
  \<^item> \<open>example_secretsmanager_secret_rotation_event\<close> is the test of the module, as a
    function of the parsed fixture; \<open>rotation_fixture\<close> is a sample event of the
    service.

  The lemmas characterise the payloads the decoder accepts and the value it returns
  (\<open>srm_deserialize_Inr_iff\<close>), the error of a payload that lacks a field
  (\<open>srm_missing_field\<close>), the round trip through the encoder (\<open>srm_roundtrip\<close>), and
  that the test passes on exactly the fixtures that parse (\<open>srm_test_passes_iff\<close>).
  The independence from the order of the entries is in \<open>Entry_Order\<close>.
\<close>

section \<open>The event and its derived implementations\<close>

record SecretsManagerSecretRotationEvent =
  step :: string
  secret_id :: string
  client_request_token :: string

definition srm_keys :: "string list" where
  "srm_keys = [''Step'', ''SecretId'', ''ClientRequestToken'']"

definition srm_fields :: fields where
  "srm_fields = map (\<lambda>k. (k, check de_string)) srm_keys"

definition srm_build :: "slots \<Rightarrow> de_error + SecretsManagerSecretRotationEvent" where
  "srm_build s =
     and_then (required ''Step'' de_string s) (\<lambda>a.
     and_then (required ''SecretId'' de_string s) (\<lambda>b.
     and_then (required ''ClientRequestToken'' de_string s) (\<lambda>c.
     Inr \<lparr>step = a, secret_id = b, client_request_token = c\<rparr>)))"

definition srm_deserialize :: "SecretsManagerSecretRotationEvent decoder" where
  "srm_deserialize = de_struct ''SecretsManagerSecretRotationEvent'' srm_fields srm_build"

definition srm_serialize :: "SecretsManagerSecretRotationEvent encoder" where
  "srm_serialize x = JObject
     [(''Step'', ser_string (step x)),
      (''SecretId'', ser_string (secret_id x)),
      (''ClientRequestToken'', ser_string (client_request_token x))]"

definition srm_codec :: "SecretsManagerSecretRotationEvent codec" where
  "srm_codec = \<lparr>dec = srm_deserialize, enc = srm_serialize\<rparr>"

definition example_secretsmanager_secret_rotation_event :: "json \<Rightarrow> test_outcome" where
  "example_secretsmanager_secret_rotation_event fixture =
     roundtrip_test srm_deserialize srm_serialize fixture"

definition rotation_fixture :: json where
  "rotation_fixture = JObject
     [(''Step'', JString ''createSecret''),
      (''SecretId'', JString ''arn:aws:secretsmanager:us-east-1:111122223333:secret:id-ABCD1E''),
      (''ClientRequestToken'', JString ''1ab23456-cde7-8912-34fg-h56i78j9k12l'')]"

definition rotation_event :: SecretsManagerSecretRotationEvent where
  "rotation_event =
     \<lparr>step = ''createSecret'',
      secret_id = ''arn:aws:secretsmanager:us-east-1:111122223333:secret:id-ABCD1E'',
      client_request_token = ''1ab23456-cde7-8912-34fg-h56i78j9k12l''\<rparr>"


section \<open>The derived decoder on an object\<close>

lemma srm_fields_lookup [simp]:
  "map_of srm_fields k = (if k \<in> set srm_keys then Some (check de_string) else None)"
  by (simp add: srm_fields_def srm_keys_def)

lemma srm_keys_set [simp]: "set srm_keys = {''Step'', ''SecretId'', ''ClientRequestToken''}"
  by (simp add: srm_keys_def)

lemma srm_build_known:
  "srm_build (known_slots srm_fields kvs) =
     and_then (case map_of kvs ''Step'' of
                 None \<Rightarrow> Inl (MissingField ''Step'') | Some v \<Rightarrow> de_string v) (\<lambda>a.
     and_then (case map_of kvs ''SecretId'' of
                 None \<Rightarrow> Inl (MissingField ''SecretId'') | Some v \<Rightarrow> de_string v) (\<lambda>b.
     and_then (case map_of kvs ''ClientRequestToken'' of
                 None \<Rightarrow> Inl (MissingField ''ClientRequestToken'') | Some v \<Rightarrow> de_string v) (\<lambda>c.
     Inr \<lparr>step = a, secret_id = b, client_request_token = c\<rparr>)))"
  by (simp add: srm_build_def required_known [where fs = srm_fields])

lemma srm_build_Inr_iff:
  "srm_build (known_slots srm_fields kvs) = Inr x \<longleftrightarrow>
     map_of kvs ''Step'' = Some (JString (step x))
     \<and> map_of kvs ''SecretId'' = Some (JString (secret_id x))
     \<and> map_of kvs ''ClientRequestToken'' = Some (JString (client_request_token x))"
  by (cases x)
    (auto simp: srm_build_known and_then_Inr_iff de_string_Inr_iff split: option.splits)

lemma srm_checks_pass:
  assumes "distinct (keys_of (known_entries srm_fields kvs))"
  shows "checks_pass srm_fields kvs \<longleftrightarrow>
     (\<forall>k \<in> set srm_keys. \<forall>v. map_of kvs k = Some v \<longrightarrow> is_ok (de_string v))"
  unfolding checks_pass_known_lookup [OF assms] by (auto split: if_splits)

lemma srm_codec_ok [codec_intros]: "codec_ok srm_codec"
  by (simp add: codec_ok_def srm_codec_def srm_deserialize_def srm_serialize_def de_struct_eq
      srm_build_known known_entries_def)



section \<open>Properties\<close>

text \<open>
  C24 (round trip). Decoding the encoding of an event returns the event: the assertion
  of the module's test, for every value of the struct.
\<close>

theorem srm_roundtrip: "srm_deserialize (srm_serialize x) = Inr x"
  using codec_okD [OF srm_codec_ok, of x] by (simp add: srm_codec_def)

text \<open>
  C8 (accepted payloads). The decoder returns an event on an object exactly when none
  of the three keys occurs twice in it and each of them is bound to a string; the
  event's fields are those strings. Entries with other keys are not looked at.
\<close>

theorem srm_deserialize_Inr_iff:
  "srm_deserialize (JObject kvs) = Inr x \<longleftrightarrow>
     distinct (keys_of (known_entries srm_fields kvs))
     \<and> map_of kvs ''Step'' = Some (JString (step x))
     \<and> map_of kvs ''SecretId'' = Some (JString (secret_id x))
     \<and> map_of kvs ''ClientRequestToken'' = Some (JString (client_request_token x))"
  unfolding srm_deserialize_def de_struct_Inr_iff
  by (auto simp: srm_build_Inr_iff srm_checks_pass)

theorem srm_deserialize_Inr_iff_witness: "srm_deserialize rotation_fixture = Inr rotation_event"
  unfolding rotation_fixture_def srm_deserialize_Inr_iff
  by (simp add: rotation_event_def known_entries_def)

text \<open>
  Missing field. On an object whose entries at the three keys are unique strings
  where present, the decoder fails with \<open>MissingField\<close> for the first field, in the
  order of the declaration, that the object lacks.
\<close>

theorem srm_missing_field:
  assumes "distinct (keys_of (known_entries srm_fields kvs))"
    and "checks_pass srm_fields kvs"
    and "find (\<lambda>k. map_of kvs k = None) srm_keys = Some k"
  shows "srm_deserialize (JObject kvs) = Inl (MissingField k)"
  using assms
  by (auto simp: srm_deserialize_def de_struct_eq srm_build_known srm_keys_def srm_checks_pass
      not_is_ok_iff is_ok_iff split: if_splits option.splits)

theorem srm_missing_field_witness:
  "srm_deserialize (JObject [(''Step'', JString ''createSecret''), (''Other'', JNull)])
     = Inl (MissingField ''SecretId'')"
  by (rule srm_missing_field) (simp_all add: known_entries_def srm_keys_def)

text \<open>
  Test. The test of the module passes on exactly the fixtures that the decoder
  accepts: the second parse and the comparison cannot fail.
\<close>

theorem srm_test_passes_iff:
  "example_secretsmanager_secret_rotation_event fixture = Passed
     \<longleftrightarrow> is_ok (srm_deserialize fixture)"
  by (cases "srm_deserialize fixture")
    (simp_all add: example_secretsmanager_secret_rotation_event_def roundtrip_test_def
      codec_okD [OF srm_codec_ok, unfolded srm_codec_def, simplified])

end
