(* ===== verification/Auto_Scaling.thy ===== *)
theory Auto_Scaling
  imports Serde
begin

text \<open>
  The Auto Scaling event envelope of \<^verbatim>\<open>src/lambda-events/src/event/autoscaling/mod.rs\<close>.

  \<^item> The record \<open>AutoScalingEvent\<close> is the struct \<^verbatim>\<open>AutoScalingEvent<T1>\<close>. Its second
    type parameter is \<^verbatim>\<open>T1\<close>, the type of the detail values; the first stands for
    \<^verbatim>\<open>DateTime<Utc>\<close>, a type of an external crate, which the model leaves abstract.
    The field \<^verbatim>\<open>id\<close> is \<open>id'\<close> in the record.
  \<^item> \<open>ase_fields\<close>, \<open>ase_build\<close> and \<open>ase_deserialize\<close> are the derived
    \<^verbatim>\<open>Deserialize\<close>, given the decoders of the two parameter types: the keys are the
    field names in camelCase, except for the two renamed ones (\<^verbatim>\<open>detail-type\<close>,
    \<^verbatim>\<open>account\<close>); the six optional strings and \<^verbatim>\<open>detail\<close> carry \<^verbatim>\<open>#[serde(default)]\<close>,
    \<^verbatim>\<open>time\<close> and \<^verbatim>\<open>resources\<close> are required; \<^verbatim>\<open>detail\<close> is read by
    \<open>deserialize_lambda_map\<close> (\<^verbatim>\<open>crate::custom_serde\<close>), which reads an optional map and
    replaces null by the empty map.
  \<^item> \<open>ase_serialize\<close> is the derived \<^verbatim>\<open>Serialize\<close>: all nine entries in declaration
    order, an unset optional as null, the map as an object.
  \<^item> \<open>example_autoscaling_event\<close> is the body that the six tests of the module share,
    at the default detail type (the untyped value), as a function of the parsed
    fixture.

  The lemmas show the round trip for all codecs of the parameter types that satisfy
  the round-trip law, the defaults of the optional fields and of \<^verbatim>\<open>detail\<close>, the
  content of \<^verbatim>\<open>detail\<close> when the payload has one, and the errors for a missing
  required field and for a \<^verbatim>\<open>detail\<close> of the wrong shape.
\<close>

section \<open>The event and its derived implementations\<close>

record ('t, 'd) AutoScalingEvent =
  version :: "string option"
  id' :: "string option"
  detail_type :: "string option"
  source :: "string option"
  account_id :: "string option"
  time :: 't
  region :: "string option"
  resources :: "string list"
  detail :: "(string, 'd) fmap"

definition deserialize_lambda_map :: "'d decoder \<Rightarrow> (string, 'd) fmap decoder" where
  "deserialize_lambda_map d v =
     map_res (\<lambda>opt. case opt of None \<Rightarrow> fmempty | Some m \<Rightarrow> m) (de_option (de_hashmap d) v)"

definition ase_fields :: "'t decoder \<Rightarrow> 'd decoder \<Rightarrow> fields" where
  "ase_fields td dd =
     [(''version'', check (de_option de_string)),
      (''id'', check (de_option de_string)),
      (''detail-type'', check (de_option de_string)),
      (''source'', check (de_option de_string)),
      (''account'', check (de_option de_string)),
      (''time'', check td),
      (''region'', check (de_option de_string)),
      (''resources'', check (de_vec de_string)),
      (''detail'', check (deserialize_lambda_map dd))]"

definition ase_build ::
  "'t decoder \<Rightarrow> 'd decoder \<Rightarrow> slots \<Rightarrow> de_error + ('t, 'd) AutoScalingEvent" where
  "ase_build td dd s =
     and_then (defaulted ''version'' (de_option de_string) None s) (\<lambda>f1.
     and_then (defaulted ''id'' (de_option de_string) None s) (\<lambda>f2.
     and_then (defaulted ''detail-type'' (de_option de_string) None s) (\<lambda>f3.
     and_then (defaulted ''source'' (de_option de_string) None s) (\<lambda>f4.
     and_then (defaulted ''account'' (de_option de_string) None s) (\<lambda>f5.
     and_then (required ''time'' td s) (\<lambda>f6.
     and_then (defaulted ''region'' (de_option de_string) None s) (\<lambda>f7.
     and_then (required ''resources'' (de_vec de_string) s) (\<lambda>f8.
     and_then (defaulted ''detail'' (deserialize_lambda_map dd) fmempty s) (\<lambda>f9.
     Inr \<lparr>version = f1, id' = f2, detail_type = f3, source = f4, account_id = f5,
          time = f6, region = f7, resources = f8, detail = f9\<rparr>)))))))))"

definition ase_deserialize :: "'t decoder \<Rightarrow> 'd decoder \<Rightarrow> ('t, 'd) AutoScalingEvent decoder" where
  "ase_deserialize td dd = de_struct ''AutoScalingEvent'' (ase_fields td dd) (ase_build td dd)"

definition ase_serialize :: "'t encoder \<Rightarrow> 'd encoder \<Rightarrow> ('t, 'd) AutoScalingEvent encoder" where
  "ase_serialize te de x = JObject
     [(''version'', ser_option ser_string (version x)),
      (''id'', ser_option ser_string (id' x)),
      (''detail-type'', ser_option ser_string (detail_type x)),
      (''source'', ser_option ser_string (source x)),
      (''account'', ser_option ser_string (account_id x)),
      (''time'', te (time x)),
      (''region'', ser_option ser_string (region x)),
      (''resources'', ser_vec ser_string (resources x)),
      (''detail'', ser_hashmap de (detail x))]"

definition ase_codec :: "'t codec \<Rightarrow> 'd codec \<Rightarrow> ('t, 'd) AutoScalingEvent codec" where
  "ase_codec tc dc =
     \<lparr>dec = ase_deserialize (dec tc) (dec dc), enc = ase_serialize (enc tc) (enc dc)\<rparr>"

definition example_autoscaling_event :: "'t codec \<Rightarrow> json \<Rightarrow> test_outcome" where
  "example_autoscaling_event tc fixture =
     roundtrip_test (ase_deserialize (dec tc) de_value) (ase_serialize (enc tc) ser_value) fixture"

definition ase_keys :: "string list" where
  "ase_keys = [''version'', ''id'', ''detail-type'', ''source'', ''account'', ''time'',
     ''region'', ''resources'', ''detail'']"

definition launch_fixture :: entries where
  "launch_fixture =
     [(''version'', JString ''0''),
      (''id'', JString ''12345678-1234-1234-1234-123456789012''),
      (''detail-type'', JString ''EC2 Instance Launch Successful''),
      (''source'', JString ''aws.autoscaling''),
      (''account'', JString ''123456789012''),
      (''time'', JString ''2015-11-11T21:31:47Z''),
      (''region'', JString ''us-west-2''),
      (''resources'', JArray [JString ''auto-scaling-group-arn'', JString ''instance-arn'']),
      (''detail'', JObject [(''StatusCode'', JString ''InProgress''),
                          (''EC2InstanceId'', JString ''i-1234567890abcdef0'')])]"


definition launch_event :: "(string, json) AutoScalingEvent" where
  "launch_event =
     \<lparr>version = Some ''0'',
      id' = Some ''12345678-1234-1234-1234-123456789012'',
      detail_type = Some ''EC2 Instance Launch Successful'',
      source = Some ''aws.autoscaling'',
      account_id = Some ''123456789012'',
      time = ''2015-11-11T21:31:47Z'',
      region = Some ''us-west-2'',
      resources = [''auto-scaling-group-arn'', ''instance-arn''],
      detail = fmap_of_list [(''EC2InstanceId'', JString ''i-1234567890abcdef0''),
                             (''StatusCode'', JString ''InProgress'')]\<rparr>"

definition minimal_fixture :: entries where
  "minimal_fixture = [(''resources'', JArray []), (''time'', JString ''2015-11-11T21:31:47Z'')]"

definition minimal_event :: "(string, json) AutoScalingEvent" where
  "minimal_event =
     \<lparr>version = None, id' = None, detail_type = None, source = None, account_id = None,
      time = ''2015-11-11T21:31:47Z'', region = None, resources = [], detail = fmempty\<rparr>"

section \<open>The derived decoder on an object\<close>

lemma deserialize_lambda_map_simps [simp]:
  "deserialize_lambda_map d JNull = Inr fmempty"
  "deserialize_lambda_map d (JObject es) =
     map_res (\<lambda>ds. fmap_of_list (rev ds)) (traverse (de_entry d) es)"
  "kind_of v \<notin> {KNull, KObject} \<Longrightarrow>
     deserialize_lambda_map d v = Inl (InvalidType (kind_of v) ExpMap)"
  by (cases v; cases "traverse (de_entry d) es";
      simp add: deserialize_lambda_map_def de_hashmap_def)+

lemma deserialize_lambda_map_roundtrip:
  "codec_ok c \<Longrightarrow> deserialize_lambda_map (dec c) (ser_hashmap (enc c) m) = Inr m"
  using roundtrip_hashmap [of c m]
  by (simp add: deserialize_lambda_map_def ser_hashmap_def del: de_hashmap_simps)

lemma ase_fields_keys [simp]: "keys_of (ase_fields td dd) = ase_keys"
  by (simp add: ase_fields_def ase_keys_def)

lemma ase_fields_lookup [simp]:
  "map_of (ase_fields td dd) ''version'' = Some (check (de_option de_string))"
  "map_of (ase_fields td dd) ''id'' = Some (check (de_option de_string))"
  "map_of (ase_fields td dd) ''detail-type'' = Some (check (de_option de_string))"
  "map_of (ase_fields td dd) ''source'' = Some (check (de_option de_string))"
  "map_of (ase_fields td dd) ''account'' = Some (check (de_option de_string))"
  "map_of (ase_fields td dd) ''time'' = Some (check td)"
  "map_of (ase_fields td dd) ''region'' = Some (check (de_option de_string))"
  "map_of (ase_fields td dd) ''resources'' = Some (check (de_vec de_string))"
  "map_of (ase_fields td dd) ''detail'' = Some (check (deserialize_lambda_map dd))"
  by (simp_all add: ase_fields_def)

lemma ase_fields_unknown: "k \<notin> set ase_keys \<Longrightarrow> map_of (ase_fields td dd) k = None"
  unfolding map_of_eq_None_iff set_map [symmetric] by simp

lemma ase_build_known:
  "ase_build td dd (known_slots (ase_fields td dd) kvs) =
     and_then (case map_of kvs ''version'' of None \<Rightarrow> Inr None | Some v \<Rightarrow> de_option de_string v) (\<lambda>f1.
     and_then (case map_of kvs ''id'' of None \<Rightarrow> Inr None | Some v \<Rightarrow> de_option de_string v) (\<lambda>f2.
     and_then (case map_of kvs ''detail-type'' of None \<Rightarrow> Inr None | Some v \<Rightarrow> de_option de_string v) (\<lambda>f3.
     and_then (case map_of kvs ''source'' of None \<Rightarrow> Inr None | Some v \<Rightarrow> de_option de_string v) (\<lambda>f4.
     and_then (case map_of kvs ''account'' of None \<Rightarrow> Inr None | Some v \<Rightarrow> de_option de_string v) (\<lambda>f5.
     and_then (case map_of kvs ''time'' of None \<Rightarrow> Inl (MissingField ''time'') | Some v \<Rightarrow> td v) (\<lambda>f6.
     and_then (case map_of kvs ''region'' of None \<Rightarrow> Inr None | Some v \<Rightarrow> de_option de_string v) (\<lambda>f7.
     and_then (case map_of kvs ''resources'' of
                 None \<Rightarrow> Inl (MissingField ''resources'') | Some v \<Rightarrow> de_vec de_string v) (\<lambda>f8.
     and_then (case map_of kvs ''detail'' of
                 None \<Rightarrow> Inr fmempty | Some v \<Rightarrow> deserialize_lambda_map dd v) (\<lambda>f9.
     Inr \<lparr>version = f1, id' = f2, detail_type = f3, source = f4, account_id = f5,
          time = f6, region = f7, resources = f8, detail = f9\<rparr>)))))))))"
  by (simp add: ase_build_def required_known [where fs = "ase_fields td dd"]
      defaulted_known [where fs = "ase_fields td dd"])

lemma ase_deserialize_Inr:
  assumes "ase_deserialize td dd v = Inr x"
  obtains kvs where "v = JObject kvs"
    and "distinct (keys_of (known_entries (ase_fields td dd) kvs))"
    and "checks_pass (ase_fields td dd) kvs"
    and "ase_build td dd (known_slots (ase_fields td dd) kvs) = Inr x"
  using assms unfolding ase_deserialize_def de_struct_Inr_iff by blast

lemma ase_deserialize_eq:
  assumes "distinct (keys_of (known_entries (ase_fields td dd) kvs))"
    and "checks_pass (ase_fields td dd) kvs"
  shows "ase_deserialize td dd (JObject kvs) = ase_build td dd (known_slots (ase_fields td dd) kvs)"
  using assms by (simp add: ase_deserialize_def de_struct_eq)

lemma ase_build_detail:
  assumes "ase_build td dd (known_slots (ase_fields td dd) kvs) = Inr x"
  shows "(case map_of kvs ''detail'' of
            None \<Rightarrow> Inr fmempty | Some v \<Rightarrow> deserialize_lambda_map dd v) = Inr (detail x)"
  using assms by (auto simp: ase_build_known and_then_Inr_iff)

lemma ase_codec_ok [codec_intros]:
  assumes "codec_ok tc" and "codec_ok dc"
  shows "codec_ok (ase_codec tc dc)"
proof
  fix x :: "('a, 'b) AutoScalingEvent"
  show "dec (ase_codec tc dc) (enc (ase_codec tc dc) x) = Inr x"
    using assms
    by (simp add: ase_codec_def ase_deserialize_def ase_serialize_def de_struct_eq
        ase_build_known known_entries_def codec_okD deserialize_lambda_map_roundtrip)
qed

lemma ase_build_optionals:
  assumes "checks_pass (ase_fields td dd) kvs"
  obtains f1 f2 f3 f4 f5 f7 f9 where
    "ase_build td dd (known_slots (ase_fields td dd) kvs) =
       and_then (required ''time'' td (known_slots (ase_fields td dd) kvs)) (\<lambda>f6.
       and_then (required ''resources'' (de_vec de_string) (known_slots (ase_fields td dd) kvs)) (\<lambda>f8.
       Inr \<lparr>version = f1, id' = f2, detail_type = f3, source = f4, account_id = f5,
            time = f6, region = f7, resources = f8, detail = f9\<rparr>))"
proof -
  note d = defaulted_is_ok [OF assms, unfolded is_ok_iff]
  let ?s = "known_slots (ase_fields td dd) kvs"
  note o = d [where dflt = None]
  from o [OF ase_fields_lookup(1)] o [OF ase_fields_lookup(2)] o [OF ase_fields_lookup(3)]
    o [OF ase_fields_lookup(4)] o [OF ase_fields_lookup(5)] o [OF ase_fields_lookup(7)]
    d [where dflt = fmempty, OF ase_fields_lookup(9)]
  obtain f1 f2 f3 f4 f5 f7 f9 where
    "defaulted ''version'' (de_option de_string) None ?s = Inr f1"
    "defaulted ''id'' (de_option de_string) None ?s = Inr f2"
    "defaulted ''detail-type'' (de_option de_string) None ?s = Inr f3"
    "defaulted ''source'' (de_option de_string) None ?s = Inr f4"
    "defaulted ''account'' (de_option de_string) None ?s = Inr f5"
    "defaulted ''region'' (de_option de_string) None ?s = Inr f7"
    "defaulted ''detail'' (deserialize_lambda_map dd) fmempty ?s = Inr f9"
    by blast
  then show ?thesis
    by (intro that [of f1 f2 f3 f4 f5 f7 f9]) (cases "required ''time'' td ?s", simp_all add: ase_build_def)
qed

lemma launch_fixture_decodes:
  "ase_deserialize de_string de_value (JObject launch_fixture) = Inr launch_event"
proof -
  have "distinct (keys_of (known_entries (ase_fields de_string de_value) launch_fixture))"
    and "checks_pass (ase_fields de_string de_value) launch_fixture"
    by (simp_all add: launch_fixture_def known_entries_def de_value_def)
  then show ?thesis
    by (simp add: ase_deserialize_eq ase_build_known)
      (simp add: launch_fixture_def launch_event_def de_value_def)
qed

lemma minimal_fixture_decodes:
  "ase_deserialize de_string de_value (JObject minimal_fixture) = Inr minimal_event"
proof -
  have "distinct (keys_of (known_entries (ase_fields de_string de_value) minimal_fixture))"
    and "checks_pass (ase_fields de_string de_value) minimal_fixture"
    by (simp_all add: minimal_fixture_def known_entries_def)
  then show ?thesis
    by (simp add: ase_deserialize_eq ase_build_known)
      (simp add: minimal_fixture_def minimal_event_def)
qed


section \<open>Properties\<close>

text \<open>
  C4 (round trip). For every codec of the timestamp and of the detail values that
  satisfies the round-trip law, decoding the encoding of an event returns the event.
\<close>

theorem ase_roundtrip:
  assumes "codec_ok tc" and "codec_ok dc"
  shows "ase_deserialize (dec tc) (dec dc) (ase_serialize (enc tc) (enc dc) x) = Inr x"
  using codec_okD [OF ase_codec_ok [OF assms], of x] by (simp add: ase_codec_def)

theorem ase_roundtrip_witness:
  "ase_deserialize de_string de_value
     (ase_serialize ser_string ser_value
        \<lparr>version = None, id' = Some ''1'', detail_type = None, source = None,
         account_id = None, time = ''2015-11-11T21:31:47Z'', region = None,
         resources = [''arn''], detail = fmempty\<rparr>)
   = Inr \<lparr>version = None, id' = Some ''1'', detail_type = None, source = None,
         account_id = None, time = ''2015-11-11T21:31:47Z'', region = None,
         resources = [''arn''], detail = fmempty\<rparr>"
  using ase_roundtrip [OF string_codec_ok value_codec_ok] by (simp add: codec_defs)

text \<open>
  C10 (detail defaults to empty). When the decoder accepts an object that has no
  \<^verbatim>\<open>detail\<close> entry, the event's detail is the empty map, and the same object with a
  \<^verbatim>\<open>detail\<close> of null is accepted with the same result: null is read as the empty map.
\<close>

theorem ase_detail_default:
  assumes "ase_deserialize td dd (JObject kvs) = Inr x" and "''detail'' \<notin> set (keys_of kvs)"
  shows "detail x = fmempty
     \<and> ase_deserialize td dd (JObject (kvs @ [(''detail'', JNull)])) = Inr x"
proof -
  let ?fs = "ase_fields td dd" and ?kvs' = "kvs @ [(''detail'', JNull)]"
  from assms(1) have dist: "distinct (keys_of (known_entries ?fs kvs))"
    and chk: "checks_pass ?fs kvs"
    and build: "ase_build td dd (known_slots ?fs kvs) = Inr x"
    by (auto elim: ase_deserialize_Inr)
  from assms(2) have absent: "map_of kvs ''detail'' = None"
    by (simp add: map_of_eq_None_iff)
  from assms(2) have "''detail'' \<notin> set (keys_of (known_entries ?fs kvs))"
    by (auto simp: known_entries_def)
  with dist have dist': "distinct (keys_of (known_entries ?fs ?kvs'))" by simp
  from chk have chk': "checks_pass ?fs ?kvs'" by (simp add: checks_pass_def)
  have slots: "map_of ?kvs' k = (if k = ''detail'' then Some JNull else map_of kvs k)" for k
    using absent by (simp add: map_add_def split: option.splits)
  have "ase_build td dd (known_slots ?fs ?kvs') = ase_build td dd (known_slots ?fs kvs)"
    unfolding ase_build_known slots using absent by simp
  with build ase_build_detail [OF build] absent show ?thesis
    by (simp add: ase_deserialize_eq [OF dist' chk'])
qed

theorem ase_detail_default_witness:
  "detail minimal_event = fmempty
   \<and> ase_deserialize de_string de_value (JObject (minimal_fixture @ [(''detail'', JNull)]))
       = Inr minimal_event"
  by (rule ase_detail_default [OF minimal_fixture_decodes]) (simp add: minimal_fixture_def)

text \<open>
  C19 (detail present). When the decoder accepts an object whose \<^verbatim>\<open>detail\<close> is an
  object with unique keys, the event's detail has exactly the keys of that object,
  each bound to the decoding of its value.
\<close>

theorem ase_detail_present:
  assumes "ase_deserialize td dd (JObject kvs) = Inr x"
    and "map_of kvs ''detail'' = Some (JObject es)" and "distinct (keys_of es)"
  shows "fmdom (detail x) = fset_of_list (keys_of es)
     \<and> (\<forall>(k, v) \<in> set es. dd v = Inr (the (fmlookup (detail x) k)))"
proof -
  from assms(1) have "ase_build td dd (known_slots (ase_fields td dd) kvs) = Inr x"
    by (auto elim: ase_deserialize_Inr)
  from ase_build_detail [OF this] assms(2)
  have "de_hashmap dd (JObject es) = Inr (detail x)" by simp
  from de_hashmap_Inr [OF this assms(3)] show ?thesis by blast
qed

theorem ase_detail_present_witness:
  "fmdom (detail launch_event) = {|''StatusCode'', ''EC2InstanceId''|}
   \<and> de_value (JString ''InProgress'') = Inr (the (fmlookup (detail launch_event) ''StatusCode''))"
  using ase_detail_present [OF launch_fixture_decodes,
      of "[(''StatusCode'', JString ''InProgress''), (''EC2InstanceId'', JString ''i-1234567890abcdef0'')]"]
  by (simp add: launch_fixture_def)

text \<open>
  C20 (detail of the wrong shape). An object whose \<^verbatim>\<open>detail\<close> entry is neither null nor
  an object is rejected, whatever its other entries are.
\<close>

theorem ase_detail_wrong_shape:
  assumes "(''detail'', v) \<in> set kvs" and "kind_of v \<notin> {KNull, KObject}"
  shows "\<not> is_ok (ase_deserialize td dd (JObject kvs))"
proof -
  from assms have "\<not> is_ok (deserialize_lambda_map dd v)" by simp
  with assms(1) have "\<not> checks_pass (ase_fields td dd) kvs"
    by (auto dest: checks_pass_entry [where d = "deserialize_lambda_map dd"])
  then show ?thesis
    unfolding ase_deserialize_def by (rule de_struct_check_fails)
qed

theorem ase_detail_wrong_shape_witness:
  "\<not> is_ok (ase_deserialize de_string de_value
     (JObject (minimal_fixture @ [(''detail'', JArray [JString ''a''])])))"
  by (rule ase_detail_wrong_shape [where v = "JArray [JString ''a'']"]) simp_all

text \<open>
  C25 (optional fields). In an accepted object the six optional fields are read from
  the keys \<^verbatim>\<open>version\<close>, \<^verbatim>\<open>id\<close>, \<^verbatim>\<open>detail-type\<close>, \<^verbatim>\<open>source\<close>, \<^verbatim>\<open>account\<close> and
  \<^verbatim>\<open>region\<close>: a string is the field's value, and a missing entry or null leaves the
  field unset.
\<close>

theorem ase_optional_fields:
  assumes "ase_deserialize td dd (JObject kvs) = Inr x"
  shows "version x = opt_string kvs ''version'' \<and> id' x = opt_string kvs ''id''
     \<and> detail_type x = opt_string kvs ''detail-type'' \<and> source x = opt_string kvs ''source''
     \<and> account_id x = opt_string kvs ''account'' \<and> region x = opt_string kvs ''region''"
proof -
  from assms have "ase_build td dd (known_slots (ase_fields td dd) kvs) = Inr x"
    by (auto elim: ase_deserialize_Inr)
  then show ?thesis
    by (auto simp: ase_build_known and_then_Inr_iff dest!: opt_string_slot)
qed

theorem ase_optional_fields_witness:
  "version launch_event = Some ''0'' \<and> account_id launch_event = Some ''123456789012''
   \<and> version minimal_event = None \<and> region minimal_event = None"
  using ase_optional_fields [OF launch_fixture_decodes]
    ase_optional_fields [OF minimal_fixture_decodes]
  by (simp add: opt_string_def launch_fixture_def minimal_fixture_def)

text \<open>
  C26 (missing required field). On an object whose entries at the nine keys are unique
  and decode, the decoder fails exactly when \<^verbatim>\<open>time\<close> or \<^verbatim>\<open>resources\<close> is missing, with
  \<open>MissingField\<close> for the first of the two, in declaration order, that is.
\<close>

theorem ase_missing_required:
  assumes "distinct (keys_of (known_entries (ase_fields td dd) kvs))"
    and "checks_pass (ase_fields td dd) kvs"
  shows "case find (\<lambda>k. map_of kvs k = None) [''time'', ''resources''] of
           None \<Rightarrow> is_ok (ase_deserialize td dd (JObject kvs))
         | Some k \<Rightarrow> ase_deserialize td dd (JObject kvs) = Inl (MissingField k)"
proof -
  let ?s = "known_slots (ase_fields td dd) kvs"
  have t: "is_ok (required ''time'' td ?s) \<longleftrightarrow> map_of kvs ''time'' \<noteq> None"
    by (rule required_is_ok_iff [OF assms(2) ase_fields_lookup(6)])
  have r: "is_ok (required ''resources'' (de_vec de_string) ?s) \<longleftrightarrow> map_of kvs ''resources'' \<noteq> None"
    by (rule required_is_ok_iff [OF assms(2) ase_fields_lookup(8)])
  have miss: "map_of kvs k = None \<Longrightarrow> required k d ?s = Inl (MissingField k)"
    if "k \<in> {''time'', ''resources''}" for k and d :: "'x decoder"
    using that by (auto simp: required_missing)
  from assms(2) obtain f1 f2 f3 f4 f5 f7 f9 where
    "ase_build td dd ?s =
       and_then (required ''time'' td ?s) (\<lambda>f6.
       and_then (required ''resources'' (de_vec de_string) ?s) (\<lambda>f8.
       Inr \<lparr>version = f1, id' = f2, detail_type = f3, source = f4, account_id = f5,
            time = f6, region = f7, resources = f8, detail = f9\<rparr>))"
    by (rule ase_build_optionals)
  then show ?thesis
    unfolding ase_deserialize_eq [OF assms]
    using t r miss [of "''time''" td] miss [of "''resources''" "de_vec de_string"]
    by (cases "required ''time'' td ?s"; cases "required ''resources'' (de_vec de_string) ?s")
      auto
qed

theorem ase_missing_required_witness:
  "ase_deserialize de_string de_value (JObject [(''time'', JString ''2015-11-11T21:31:47Z'')])
     = Inl (MissingField ''resources'')"
  using ase_missing_required [of de_string de_value "[(''time'', JString ''2015-11-11T21:31:47Z'')]"]
  by (simp add: known_entries_def)

text \<open>
  Tests. For a timestamp codec that satisfies the round-trip law, each of the six
  tests of the module passes exactly when its fixture is accepted by the decoder.
\<close>

theorem ase_test_passes_iff:
  assumes "codec_ok tc"
  shows "example_autoscaling_event tc fixture = Passed
     \<longleftrightarrow> is_ok (ase_deserialize (dec tc) de_value fixture)"
proof -
  have "ase_deserialize (dec tc) de_value (ase_serialize (enc tc) ser_value x) = Inr x" for x
    using codec_okD [OF ase_codec_ok [OF assms value_codec_ok], of x]
    by (simp add: ase_codec_def value_codec_def)
  then show ?thesis
    by (cases "ase_deserialize (dec tc) de_value fixture")
      (simp_all add: example_autoscaling_event_def roundtrip_test_def)
qed

theorem ase_test_passes_iff_witness:
  "example_autoscaling_event string_codec (JObject launch_fixture) = Passed"
  using ase_test_passes_iff [OF string_codec_ok, of "JObject launch_fixture"]
  by (simp add: string_codec_def launch_fixture_decodes)

end
