(* ===== verification/Kinesis.thy ===== *)
theory Kinesis
  imports Serde
begin

text \<open>
  The Kinesis events of \<^verbatim>\<open>src/lambda-events/src/event/kinesis/event.rs\<close>, in the order
  of their dependencies (the file declares them outermost first).

  \<^item> \<open>KinesisEncryptionType\<close> is the enum, with \<open>None'\<close> for its variant \<^verbatim>\<open>None\<close>; it is
    read from and written as the strings \<^verbatim>\<open>NONE\<close> and \<^verbatim>\<open>KMS\<close>
    (\<^verbatim>\<open>rename_all = "SCREAMING_SNAKE_CASE"\<close>), and its default (\<^verbatim>\<open>#[default]\<close>) is the
    instance of the class \<open>default\<close>. Only the string form of a variant is modelled,
    and no lemma states what the reader answers on an object.
  \<^item> \<open>KinesisRecord\<close>, \<open>KinesisEventRecord\<close> and \<open>KinesisEvent\<close> are the three
    structs; \<open>kr_\<close>, \<open>ker_\<close> and \<open>ke_\<close> prefix their derived implementations. The
    types \<^verbatim>\<open>SecondTimestamp\<close> and \<^verbatim>\<open>Base64Data\<close> of \<^verbatim>\<open>crate::encodings\<close> are type
    parameters, and their decoders and encoders are arguments.
  \<^item> \<open>KinesisTimeWindowEvent\<close> and \<open>KinesisTimeWindowEventResponse\<close> are the two
    structs whose fields are all flattened: the derived visitor buffers the entries
    of the object and hands them to each flattened field in declaration order, a
    field taking the entries at its own keys out of the buffer. The types
    \<^verbatim>\<open>TimeWindowProperties\<close> and \<^verbatim>\<open>TimeWindowEventResponseProperties\<close> of
    \<^verbatim>\<open>crate::time_window\<close> are type parameters, read from and written as entries.
  \<^item> \<open>kinesis_event_test\<close> is the body of the two tests of the module, which differ
    in the fixture and in the encryption type they expect of the first record.

  The lemmas show the round trips of the enum and of the four event types, the
  defaults of a record, how an event is read from its \<^verbatim>\<open>Records\<close>, that a flattened
  field named \<^verbatim>\<open>Records\<close> in the window properties would break the round trip, and
  the fixtures on which the tests pass or panic.
\<close>

section \<open>The encryption type\<close>

datatype KinesisEncryptionType = None' | Kms

instantiation KinesisEncryptionType :: default
begin

definition default_KinesisEncryptionType_def: "default = None'"

instance ..

end

definition encryption_variants :: "(string \<times> KinesisEncryptionType) list" where
  "encryption_variants = [(''NONE'', None'), (''KMS'', Kms)]"

definition de_encryption_type :: "KinesisEncryptionType decoder" where
  "de_encryption_type v =
     (case v of
        JString s \<Rightarrow>
          (case map_of encryption_variants s of
             Some x \<Rightarrow> Inr x
           | None \<Rightarrow> Inl (UnknownVariant s (keys_of encryption_variants)))
      | _ \<Rightarrow> Inl (InvalidType (kind_of v) (ExpEnum ''KinesisEncryptionType'')))"

fun ser_encryption_type :: "KinesisEncryptionType encoder" where
  "ser_encryption_type None' = JString ''NONE''"
| "ser_encryption_type Kms = JString ''KMS''"


section \<open>The record, the event record and the event\<close>

record ('ts, 'b) KinesisRecord =
  approximate_arrival_timestamp :: 'ts
  data :: 'b
  encryption_type :: KinesisEncryptionType
  partition_key :: string
  sequence_number :: string
  kinesis_schema_version :: "string option"

record ('ts, 'b) KinesisEventRecord =
  aws_region :: "string option"
  event_id :: "string option"
  event_name :: "string option"
  event_source :: "string option"
  event_source_arn :: "string option"
  event_version :: "string option"
  invoke_identity_arn :: "string option"
  kinesis :: "('ts, 'b) KinesisRecord"

record ('ts, 'b) KinesisEvent =
  records :: "('ts, 'b) KinesisEventRecord list"

definition kr_fields :: "'ts decoder \<Rightarrow> 'b decoder \<Rightarrow> fields" where
  "kr_fields tsd bd =
     [(''approximateArrivalTimestamp'', check tsd),
      (''data'', check bd),
      (''encryptionType'', check de_encryption_type),
      (''partitionKey'', check de_string),
      (''sequenceNumber'', check de_string),
      (''kinesisSchemaVersion'', check (de_option de_string))]"

definition kr_build :: "'ts decoder \<Rightarrow> 'b decoder \<Rightarrow> slots \<Rightarrow> de_error + ('ts, 'b) KinesisRecord" where
  "kr_build tsd bd s =
     and_then (required ''approximateArrivalTimestamp'' tsd s) (\<lambda>f1.
     and_then (required ''data'' bd s) (\<lambda>f2.
     and_then (defaulted ''encryptionType'' de_encryption_type default s) (\<lambda>f3.
     and_then (defaulted ''partitionKey'' de_string [] s) (\<lambda>f4.
     and_then (defaulted ''sequenceNumber'' de_string [] s) (\<lambda>f5.
     and_then (defaulted ''kinesisSchemaVersion'' (de_option de_string) None s) (\<lambda>f6.
     Inr \<lparr>approximate_arrival_timestamp = f1, data = f2, encryption_type = f3,
          partition_key = f4, sequence_number = f5, kinesis_schema_version = f6\<rparr>))))))"

definition kr_deserialize :: "'ts decoder \<Rightarrow> 'b decoder \<Rightarrow> ('ts, 'b) KinesisRecord decoder" where
  "kr_deserialize tsd bd = de_struct ''KinesisRecord'' (kr_fields tsd bd) (kr_build tsd bd)"

definition kr_serialize :: "'ts encoder \<Rightarrow> 'b encoder \<Rightarrow> ('ts, 'b) KinesisRecord encoder" where
  "kr_serialize tse be x = JObject
     [(''approximateArrivalTimestamp'', tse (approximate_arrival_timestamp x)),
      (''data'', be (data x)),
      (''encryptionType'', ser_encryption_type (encryption_type x)),
      (''partitionKey'', ser_string (partition_key x)),
      (''sequenceNumber'', ser_string (sequence_number x)),
      (''kinesisSchemaVersion'', ser_option ser_string (kinesis_schema_version x))]"

definition ker_fields :: "'ts decoder \<Rightarrow> 'b decoder \<Rightarrow> fields" where
  "ker_fields tsd bd =
     [(''awsRegion'', check (de_option de_string)),
      (''eventID'', check (de_option de_string)),
      (''eventName'', check (de_option de_string)),
      (''eventSource'', check (de_option de_string)),
      (''eventSourceARN'', check (de_option de_string)),
      (''eventVersion'', check (de_option de_string)),
      (''invokeIdentityArn'', check (de_option de_string)),
      (''kinesis'', check (kr_deserialize tsd bd))]"

definition ker_build ::
  "'ts decoder \<Rightarrow> 'b decoder \<Rightarrow> slots \<Rightarrow> de_error + ('ts, 'b) KinesisEventRecord" where
  "ker_build tsd bd s =
     and_then (defaulted ''awsRegion'' (de_option de_string) None s) (\<lambda>f1.
     and_then (defaulted ''eventID'' (de_option de_string) None s) (\<lambda>f2.
     and_then (defaulted ''eventName'' (de_option de_string) None s) (\<lambda>f3.
     and_then (defaulted ''eventSource'' (de_option de_string) None s) (\<lambda>f4.
     and_then (defaulted ''eventSourceARN'' (de_option de_string) None s) (\<lambda>f5.
     and_then (defaulted ''eventVersion'' (de_option de_string) None s) (\<lambda>f6.
     and_then (defaulted ''invokeIdentityArn'' (de_option de_string) None s) (\<lambda>f7.
     and_then (required ''kinesis'' (kr_deserialize tsd bd) s) (\<lambda>f8.
     Inr \<lparr>aws_region = f1, event_id = f2, event_name = f3, event_source = f4,
          event_source_arn = f5, event_version = f6, invoke_identity_arn = f7,
          kinesis = f8\<rparr>))))))))"

definition ker_deserialize ::
  "'ts decoder \<Rightarrow> 'b decoder \<Rightarrow> ('ts, 'b) KinesisEventRecord decoder" where
  "ker_deserialize tsd bd =
     de_struct ''KinesisEventRecord'' (ker_fields tsd bd) (ker_build tsd bd)"

definition ker_serialize ::
  "'ts encoder \<Rightarrow> 'b encoder \<Rightarrow> ('ts, 'b) KinesisEventRecord encoder" where
  "ker_serialize tse be x = JObject
     [(''awsRegion'', ser_option ser_string (aws_region x)),
      (''eventID'', ser_option ser_string (event_id x)),
      (''eventName'', ser_option ser_string (event_name x)),
      (''eventSource'', ser_option ser_string (event_source x)),
      (''eventSourceARN'', ser_option ser_string (event_source_arn x)),
      (''eventVersion'', ser_option ser_string (event_version x)),
      (''invokeIdentityArn'', ser_option ser_string (invoke_identity_arn x)),
      (''kinesis'', kr_serialize tse be (kinesis x))]"

definition ke_fields :: "'ts decoder \<Rightarrow> 'b decoder \<Rightarrow> fields" where
  "ke_fields tsd bd = [(''Records'', check (de_vec (ker_deserialize tsd bd)))]"

definition ke_build :: "'ts decoder \<Rightarrow> 'b decoder \<Rightarrow> slots \<Rightarrow> de_error + ('ts, 'b) KinesisEvent" where
  "ke_build tsd bd s =
     and_then (required ''Records'' (de_vec (ker_deserialize tsd bd)) s) (\<lambda>f1.
     Inr \<lparr>records = f1\<rparr>)"

definition ke_deserialize :: "'ts decoder \<Rightarrow> 'b decoder \<Rightarrow> ('ts, 'b) KinesisEvent decoder" where
  "ke_deserialize tsd bd = de_struct ''KinesisEvent'' (ke_fields tsd bd) (ke_build tsd bd)"

definition ke_serialize :: "'ts encoder \<Rightarrow> 'b encoder \<Rightarrow> ('ts, 'b) KinesisEvent encoder" where
  "ke_serialize tse be x = JObject
     [(''Records'', ser_vec (ker_serialize tse be) (records x))]"

definition kr_codec :: "'ts codec \<Rightarrow> 'b codec \<Rightarrow> ('ts, 'b) KinesisRecord codec" where
  "kr_codec tsc bc =
     \<lparr>dec = kr_deserialize (dec tsc) (dec bc), enc = kr_serialize (enc tsc) (enc bc)\<rparr>"

definition ker_codec :: "'ts codec \<Rightarrow> 'b codec \<Rightarrow> ('ts, 'b) KinesisEventRecord codec" where
  "ker_codec tsc bc =
     \<lparr>dec = ker_deserialize (dec tsc) (dec bc), enc = ker_serialize (enc tsc) (enc bc)\<rparr>"

definition ke_codec :: "'ts codec \<Rightarrow> 'b codec \<Rightarrow> ('ts, 'b) KinesisEvent codec" where
  "ke_codec tsc bc =
     \<lparr>dec = ke_deserialize (dec tsc) (dec bc), enc = ke_serialize (enc tsc) (enc bc)\<rparr>"


section \<open>The events with flattened fields\<close>

type_synonym 'a flat_decoder = "entries \<Rightarrow> de_error + 'a"
type_synonym 'a flat_encoder = "'a \<Rightarrow> entries"

record ('ts, 'b, 'w) KinesisTimeWindowEvent =
  kinesis_event :: "('ts, 'b) KinesisEvent"
  time_window_properties :: 'w

record 'p KinesisTimeWindowEventResponse =
  time_window_event_response_properties :: 'p

definition leave_fields :: "fields \<Rightarrow> entries \<Rightarrow> entries" where
  "leave_fields fs kvs = filter (\<lambda>kv. map_of fs (fst kv) = None) kvs"

definition twe_deserialize ::
  "'ts decoder \<Rightarrow> 'b decoder \<Rightarrow> 'w flat_decoder \<Rightarrow> ('ts, 'b, 'w) KinesisTimeWindowEvent decoder" where
  "twe_deserialize tsd bd wd v =
     (case v of
        JObject kvs \<Rightarrow>
          and_then (ke_deserialize tsd bd (JObject (known_entries (ke_fields tsd bd) kvs))) (\<lambda>f1.
          and_then (wd (leave_fields (ke_fields tsd bd) kvs)) (\<lambda>f2.
          Inr \<lparr>kinesis_event = f1, time_window_properties = f2\<rparr>))
      | _ \<Rightarrow> Inl (InvalidType (kind_of v) (ExpStruct ''KinesisTimeWindowEvent'')))"

definition twe_serialize ::
  "'ts encoder \<Rightarrow> 'b encoder \<Rightarrow> 'w flat_encoder \<Rightarrow> ('ts, 'b, 'w) KinesisTimeWindowEvent encoder" where
  "twe_serialize tse be we x = JObject
     ((''Records'', ser_vec (ker_serialize tse be) (records (kinesis_event x)))
      # we (time_window_properties x))"

definition twr_deserialize :: "'p flat_decoder \<Rightarrow> 'p KinesisTimeWindowEventResponse decoder" where
  "twr_deserialize pd v =
     (case v of
        JObject kvs \<Rightarrow>
          and_then (pd kvs) (\<lambda>f1. Inr \<lparr>time_window_event_response_properties = f1\<rparr>)
      | _ \<Rightarrow> Inl (InvalidType (kind_of v) (ExpStruct ''KinesisTimeWindowEventResponse'')))"

definition twr_serialize :: "'p flat_encoder \<Rightarrow> 'p KinesisTimeWindowEventResponse encoder" where
  "twr_serialize pe x = JObject (pe (time_window_event_response_properties x))"

definition twr_default :: "'p::default KinesisTimeWindowEventResponse" where
  "twr_default = \<lparr>time_window_event_response_properties = default\<rparr>"


section \<open>The tests of the module\<close>

definition kinesis_event_test ::
  "'ts codec \<Rightarrow> 'b codec \<Rightarrow> KinesisEncryptionType \<Rightarrow> json \<Rightarrow> test_outcome" where
  "kinesis_event_test tsc bc expected fixture =
     unwrap (ke_deserialize (dec tsc) (dec bc) fixture) (\<lambda>parsed.
     index (records parsed) 0 (\<lambda>first.
     assert_eq expected (encryption_type (kinesis first))
       (unwrap (ke_deserialize (dec tsc) (dec bc) (ke_serialize (enc tsc) (enc bc) parsed))
          (\<lambda>reparsed. assert_eq parsed reparsed Passed))))"

definition example_kinesis_event :: "'ts codec \<Rightarrow> 'b codec \<Rightarrow> json \<Rightarrow> test_outcome" where
  "example_kinesis_event tsc bc = kinesis_event_test tsc bc None'"

definition example_kinesis_event_encrypted :: "'ts codec \<Rightarrow> 'b codec \<Rightarrow> json \<Rightarrow> test_outcome" where
  "example_kinesis_event_encrypted tsc bc = kinesis_event_test tsc bc Kms"



section \<open>Sample payloads\<close>

definition record_fixture :: entries where
  "record_fixture =
     [(''kinesisSchemaVersion'', JString ''1.0''),
      (''partitionKey'', JString ''s1''),
      (''sequenceNumber'', JString ''49568167373333333333333333333333333333333333333333333333''),
      (''data'', JString ''SGVsbG8gV29ybGQ=''),
      (''approximateArrivalTimestamp'', JNumber 1480641523)]"

definition record_value :: "(json, json) KinesisRecord" where
  "record_value =
     \<lparr>approximate_arrival_timestamp = JNumber 1480641523,
      data = JString ''SGVsbG8gV29ybGQ='',
      encryption_type = None',
      partition_key = ''s1'',
      sequence_number = ''49568167373333333333333333333333333333333333333333333333'',
      kinesis_schema_version = Some ''1.0''\<rparr>"

definition event_record_fixture :: entries where
  "event_record_fixture =
     [(''kinesis'', JObject record_fixture),
      (''eventSource'', JString ''aws:kinesis''),
      (''eventID'', JString ''shardId-000000000000:49568167373333333333333333333333333333333333333333333333''),
      (''eventName'', JString ''aws:kinesis:record''),
      (''awsRegion'', JString ''us-east-1'')]"

definition event_record_value :: "(json, json) KinesisEventRecord" where
  "event_record_value =
     \<lparr>aws_region = Some ''us-east-1'',
      event_id = Some ''shardId-000000000000:49568167373333333333333333333333333333333333333333333333'',
      event_name = Some ''aws:kinesis:record'',
      event_source = Some ''aws:kinesis'',
      event_source_arn = None,
      event_version = None,
      invoke_identity_arn = None,
      kinesis = record_value\<rparr>"

definition event_fixture :: entries where
  "event_fixture = [(''Records'', JArray [JObject event_record_fixture])]"

definition shard_enc :: "string flat_encoder" where
  "shard_enc w = [(''shardId'', JString w)]"

definition shard_dec :: "string flat_decoder" where
  "shard_dec kvs = required ''shardId'' de_string (map_of kvs)"


section \<open>The derived decoders on an object\<close>

lemma de_encryption_type_simps [simp]:
  "de_encryption_type (JString ''NONE'') = Inr None'"
  "de_encryption_type (JString ''KMS'') = Inr Kms"
  "kind_of v \<notin> {KString, KObject} \<Longrightarrow>
     de_encryption_type v = Inl (InvalidType (kind_of v) (ExpEnum ''KinesisEncryptionType''))"
  by (cases v; simp add: de_encryption_type_def encryption_variants_def)+

lemma encryption_type_roundtrip [simp]: "de_encryption_type (ser_encryption_type e) = Inr e"
  by (cases e) simp_all

lemma kr_fields_lookup [simp]:
  "map_of (kr_fields tsd bd) ''approximateArrivalTimestamp'' = Some (check tsd)"
  "map_of (kr_fields tsd bd) ''data'' = Some (check bd)"
  "map_of (kr_fields tsd bd) ''encryptionType'' = Some (check de_encryption_type)"
  "map_of (kr_fields tsd bd) ''partitionKey'' = Some (check de_string)"
  "map_of (kr_fields tsd bd) ''sequenceNumber'' = Some (check de_string)"
  "map_of (kr_fields tsd bd) ''kinesisSchemaVersion'' = Some (check (de_option de_string))"
  by (simp_all add: kr_fields_def)

lemma ker_fields_lookup [simp]:
  "map_of (ker_fields tsd bd) ''awsRegion'' = Some (check (de_option de_string))"
  "map_of (ker_fields tsd bd) ''eventID'' = Some (check (de_option de_string))"
  "map_of (ker_fields tsd bd) ''eventName'' = Some (check (de_option de_string))"
  "map_of (ker_fields tsd bd) ''eventSource'' = Some (check (de_option de_string))"
  "map_of (ker_fields tsd bd) ''eventSourceARN'' = Some (check (de_option de_string))"
  "map_of (ker_fields tsd bd) ''eventVersion'' = Some (check (de_option de_string))"
  "map_of (ker_fields tsd bd) ''invokeIdentityArn'' = Some (check (de_option de_string))"
  "map_of (ker_fields tsd bd) ''kinesis'' = Some (check (kr_deserialize tsd bd))"
  by (simp_all add: ker_fields_def)

lemma ke_fields_lookup [simp]:
  "map_of (ke_fields tsd bd) k =
     (if k = ''Records'' then Some (check (de_vec (ker_deserialize tsd bd))) else None)"
  by (simp add: ke_fields_def)

lemma kr_build_known:
  "kr_build tsd bd (known_slots (kr_fields tsd bd) kvs) =
     and_then (case map_of kvs ''approximateArrivalTimestamp'' of
                 None \<Rightarrow> Inl (MissingField ''approximateArrivalTimestamp'') | Some v \<Rightarrow> tsd v) (\<lambda>f1.
     and_then (case map_of kvs ''data'' of None \<Rightarrow> Inl (MissingField ''data'') | Some v \<Rightarrow> bd v) (\<lambda>f2.
     and_then (case map_of kvs ''encryptionType'' of
                 None \<Rightarrow> Inr None' | Some v \<Rightarrow> de_encryption_type v) (\<lambda>f3.
     and_then (case map_of kvs ''partitionKey'' of None \<Rightarrow> Inr [] | Some v \<Rightarrow> de_string v) (\<lambda>f4.
     and_then (case map_of kvs ''sequenceNumber'' of None \<Rightarrow> Inr [] | Some v \<Rightarrow> de_string v) (\<lambda>f5.
     and_then (case map_of kvs ''kinesisSchemaVersion'' of
                 None \<Rightarrow> Inr None | Some v \<Rightarrow> de_option de_string v) (\<lambda>f6.
     Inr \<lparr>approximate_arrival_timestamp = f1, data = f2, encryption_type = f3,
          partition_key = f4, sequence_number = f5, kinesis_schema_version = f6\<rparr>))))))"
  by (simp add: kr_build_def required_known [where fs = "kr_fields tsd bd"]
      defaulted_known [where fs = "kr_fields tsd bd"] default_KinesisEncryptionType_def)

lemma ker_build_known:
  "ker_build tsd bd (known_slots (ker_fields tsd bd) kvs) =
     and_then (case map_of kvs ''awsRegion'' of None \<Rightarrow> Inr None | Some v \<Rightarrow> de_option de_string v) (\<lambda>f1.
     and_then (case map_of kvs ''eventID'' of None \<Rightarrow> Inr None | Some v \<Rightarrow> de_option de_string v) (\<lambda>f2.
     and_then (case map_of kvs ''eventName'' of None \<Rightarrow> Inr None | Some v \<Rightarrow> de_option de_string v) (\<lambda>f3.
     and_then (case map_of kvs ''eventSource'' of None \<Rightarrow> Inr None | Some v \<Rightarrow> de_option de_string v) (\<lambda>f4.
     and_then (case map_of kvs ''eventSourceARN'' of None \<Rightarrow> Inr None | Some v \<Rightarrow> de_option de_string v) (\<lambda>f5.
     and_then (case map_of kvs ''eventVersion'' of None \<Rightarrow> Inr None | Some v \<Rightarrow> de_option de_string v) (\<lambda>f6.
     and_then (case map_of kvs ''invokeIdentityArn'' of None \<Rightarrow> Inr None | Some v \<Rightarrow> de_option de_string v) (\<lambda>f7.
     and_then (case map_of kvs ''kinesis'' of
                 None \<Rightarrow> Inl (MissingField ''kinesis'') | Some v \<Rightarrow> kr_deserialize tsd bd v) (\<lambda>f8.
     Inr \<lparr>aws_region = f1, event_id = f2, event_name = f3, event_source = f4,
          event_source_arn = f5, event_version = f6, invoke_identity_arn = f7,
          kinesis = f8\<rparr>))))))))"
  by (simp add: ker_build_def required_known [where fs = "ker_fields tsd bd"]
      defaulted_known [where fs = "ker_fields tsd bd"])

lemma ke_build_known:
  "ke_build tsd bd (known_slots (ke_fields tsd bd) kvs) =
     and_then (case map_of kvs ''Records'' of
                 None \<Rightarrow> Inl (MissingField ''Records'')
               | Some v \<Rightarrow> de_vec (ker_deserialize tsd bd) v) (\<lambda>f1.
     Inr \<lparr>records = f1\<rparr>)"
  by (simp add: ke_build_def required_known [where fs = "ke_fields tsd bd"])

lemma kr_codec_ok [codec_intros]:
  assumes "codec_ok tsc" and "codec_ok bc"
  shows "codec_ok (kr_codec tsc bc)"
proof
  fix x :: "('a, 'b) KinesisRecord"
  show "dec (kr_codec tsc bc) (enc (kr_codec tsc bc) x) = Inr x"
    using assms
    by (simp add: kr_codec_def kr_deserialize_def kr_serialize_def de_struct_eq kr_build_known
        known_entries_def codec_okD)
qed

lemma ker_codec_ok [codec_intros]:
  assumes "codec_ok tsc" and "codec_ok bc"
  shows "codec_ok (ker_codec tsc bc)"
proof
  fix x :: "('a, 'b) KinesisEventRecord"
  have "kr_deserialize (dec tsc) (dec bc) (kr_serialize (enc tsc) (enc bc) y) = Inr y" for y
    using codec_okD [OF kr_codec_ok [OF assms], of y] by (simp add: kr_codec_def)
  then show "dec (ker_codec tsc bc) (enc (ker_codec tsc bc) x) = Inr x"
    by (simp add: ker_codec_def ker_deserialize_def ker_serialize_def de_struct_eq
        ker_build_known known_entries_def)
qed

lemma ke_codec_ok [codec_intros]:
  assumes "codec_ok tsc" and "codec_ok bc"
  shows "codec_ok (ke_codec tsc bc)"
proof
  fix x :: "('a, 'b) KinesisEvent"
  have "de_vec (ker_deserialize (dec tsc) (dec bc)) (ser_vec (ker_serialize (enc tsc) (enc bc)) ys)
      = Inr ys" for ys
    using codec_okD [OF vec_codec_ok [OF ker_codec_ok [OF assms]], of ys]
    by (simp add: ker_codec_def vec_codec_def)
  then show "dec (ke_codec tsc bc) (enc (ke_codec tsc bc) x) = Inr x"
    by (simp add: ke_codec_def ke_deserialize_def ke_serialize_def de_struct_eq
        ke_build_known known_entries_def)
qed

lemma ke_known_entries:
  "distinct (keys_of kvs) \<Longrightarrow>
   known_entries (ke_fields tsd bd) kvs =
     (case map_of kvs ''Records'' of None \<Rightarrow> [] | Some v \<Rightarrow> [(''Records'', v)])"
proof (induction kvs)
  case Nil
  then show ?case by (simp add: known_entries_def)
next
  case (Cons kv kvs)
  obtain k v where kv: "kv = (k, v)" by (cases kv)
  from Cons.prems kv have "k = ''Records'' \<Longrightarrow> map_of kvs ''Records'' = None"
    by (simp add: map_of_eq_None_iff)
  with Cons kv show ?case by (auto simp: known_entries_def)
qed

lemma ke_deserialize_known:
  "ke_deserialize tsd bd (JObject (known_entries (ke_fields tsd bd) kvs))
     = ke_deserialize tsd bd (JObject kvs)"
  unfolding ke_deserialize_def by (rule de_struct_known_entries) simp

lemma record_fixture_decodes:
  "kr_deserialize de_value de_value (JObject record_fixture) = Inr record_value"
  by (simp add: kr_deserialize_def de_struct_eq kr_build_known record_fixture_def
      record_value_def known_entries_def de_value_def)

lemma event_record_fixture_decodes:
  "ker_deserialize de_value de_value (JObject event_record_fixture) = Inr event_record_value"
  by (simp add: ker_deserialize_def de_struct_eq ker_build_known event_record_fixture_def
      event_record_value_def known_entries_def record_fixture_decodes)

lemma event_fixture_decodes:
  "ke_deserialize de_value de_value (JObject event_fixture) = Inr \<lparr>records = [event_record_value]\<rparr>"
  by (simp add: ke_deserialize_def de_struct_eq ke_build_known event_fixture_def
      known_entries_def event_record_fixture_decodes)


lemma ke_roundtrip_aux:
  "codec_ok tsc \<Longrightarrow> codec_ok bc \<Longrightarrow>
   ke_deserialize (dec tsc) (dec bc) (ke_serialize (enc tsc) (enc bc) x) = Inr x"
  using codec_okD [OF ke_codec_ok, of tsc bc x] by (simp add: ke_codec_def)

lemma known_entries_ke: "known_entries (ke_fields tsd bd) kvs = filter (\<lambda>kv. fst kv = ''Records'') kvs"
  by (simp add: known_entries_def)

lemma leave_fields_ke: "leave_fields (ke_fields tsd bd) kvs = filter (\<lambda>kv. fst kv \<noteq> ''Records'') kvs"
  by (simp add: leave_fields_def)

lemma filter_key_absent:
  "k \<notin> set (keys_of kvs) \<Longrightarrow> filter (\<lambda>kv. fst kv = k) kvs = []"
  "k \<notin> set (keys_of kvs) \<Longrightarrow> filter (\<lambda>kv. fst kv \<noteq> k) kvs = kvs"
  by (induction kvs) auto

lemma twe_deserialize_object:
  "twe_deserialize tsd bd wd (JObject kvs) =
     and_then (ke_deserialize tsd bd (JObject kvs)) (\<lambda>f1.
     and_then (wd (filter (\<lambda>kv. fst kv \<noteq> ''Records'') kvs)) (\<lambda>f2.
     Inr \<lparr>kinesis_event = f1, time_window_properties = f2\<rparr>))"
  by (simp add: twe_deserialize_def ke_deserialize_known leave_fields_ke)

lemma twr_roundtrip:
  assumes "pd (pe (time_window_event_response_properties x)) =
     Inr (time_window_event_response_properties x)"
  shows "twr_deserialize pd (twr_serialize pe x) = Inr x"
  using assms by (cases x) (simp add: twr_deserialize_def twr_serialize_def)

lemma twr_default_roundtrip:
  "pd (pe default) = Inr (default :: 'p::default) \<Longrightarrow>
   twr_deserialize pd (twr_serialize pe twr_default)
     = Inr (twr_default :: 'p KinesisTimeWindowEventResponse)"
  by (simp add: twr_deserialize_def twr_serialize_def twr_default_def)

lemma kinesis_event_test_eq:
  assumes "codec_ok tsc" and "codec_ok bc"
  shows "kinesis_event_test tsc bc expected fixture =
     (case ke_deserialize (dec tsc) (dec bc) fixture of
        Inl e \<Rightarrow> Panicked (UnwrapFailed e)
      | Inr parsed \<Rightarrow>
          (case records parsed of
             [] \<Rightarrow> Panicked IndexOutOfBounds
           | first # rest \<Rightarrow>
               if encryption_type (kinesis first) = expected then Passed
               else Panicked AssertionFailed))"
  using assms
  by (auto simp: kinesis_event_test_def ke_roundtrip_aux assert_eq_def
      split: sum.splits list.splits)

section \<open>Properties\<close>

text \<open>
  C5 (round trip of an event). For all codecs of the timestamp and of the data that
  satisfy the round-trip law, decoding the encoding of a Kinesis event returns the
  event, through the vector of event records and the record nested in each.
\<close>

theorem ke_roundtrip:
  assumes "codec_ok tsc" and "codec_ok bc"
  shows "ke_deserialize (dec tsc) (dec bc) (ke_serialize (enc tsc) (enc bc) x) = Inr x"
  using assms by (rule ke_roundtrip_aux)

theorem ke_roundtrip_witness:
  "ke_deserialize de_value de_value
     (ke_serialize ser_value ser_value \<lparr>records = [event_record_value]\<rparr>)
   = Inr \<lparr>records = [event_record_value]\<rparr>"
  using ke_roundtrip [OF value_codec_ok value_codec_ok] by (simp add: value_codec_def)

text \<open>
  Encryption type. The encryption type is read from the strings \<^verbatim>\<open>NONE\<close> and
  \<^verbatim>\<open>KMS\<close>; any other string is an unknown variant, reported with the two expected
  names; and reading what the encoder writes returns the variant.
\<close>

theorem encryption_type_codec:
  "de_encryption_type (JString s) =
     (if s = ''NONE'' then Inr None' else if s = ''KMS'' then Inr Kms
      else Inl (UnknownVariant s [''NONE'', ''KMS'']))
   \<and> de_encryption_type (ser_encryption_type e) = Inr e"
  by (simp add: de_encryption_type_def [of "JString s"] encryption_variants_def)

text \<open>
  Defaults of a record. In an accepted record object, a missing
  \<^verbatim>\<open>encryptionType\<close> is the variant \<^verbatim>\<open>None\<close>, a missing \<^verbatim>\<open>partitionKey\<close> or
  \<^verbatim>\<open>sequenceNumber\<close> is the empty string, and a missing or null
  \<^verbatim>\<open>kinesisSchemaVersion\<close> is unset; a present entry gives the field its value.
\<close>

theorem kr_defaults:
  assumes "kr_deserialize tsd bd (JObject kvs) = Inr x"
  shows "encryption_type x =
       (if map_of kvs ''encryptionType'' = Some (JString ''KMS'') then Kms else None')
     \<and> partition_key x = (case map_of kvs ''partitionKey'' of Some (JString s) \<Rightarrow> s | _ \<Rightarrow> [])
     \<and> sequence_number x = (case map_of kvs ''sequenceNumber'' of Some (JString s) \<Rightarrow> s | _ \<Rightarrow> [])
     \<and> kinesis_schema_version x = opt_string kvs ''kinesisSchemaVersion''"
proof -
  have enc: "f = (if map_of kvs k = Some (JString ''KMS'') then Kms else None')"
    if "(case map_of kvs k of None \<Rightarrow> Inr None' | Some v \<Rightarrow> de_encryption_type v) = Inr f" for k f
    using that
    by (auto simp: de_encryption_type_def encryption_variants_def
        split: option.splits json.splits if_splits)
  have str: "f = (case map_of kvs k of Some (JString s) \<Rightarrow> s | _ \<Rightarrow> [])"
    if "(case map_of kvs k of None \<Rightarrow> Inr [] | Some v \<Rightarrow> de_string v) = Inr f" for k f
    using that by (auto simp: de_string_Inr_iff split: option.splits)
  from assms have "kr_build tsd bd (known_slots (kr_fields tsd bd) kvs) = Inr x"
    unfolding kr_deserialize_def de_struct_Inr_iff by blast
  then show ?thesis
    by (auto simp: kr_build_known and_then_Inr_iff dest!: enc str opt_string_slot)
qed

theorem kr_defaults_witness:
  "encryption_type record_value = None' \<and> partition_key record_value = ''s1''"
  using kr_defaults [OF record_fixture_decodes] by (simp add: record_fixture_def)

text \<open>
  An event is its records. On an object with unique keys the event decoder
  fails with \<open>MissingField\<close> when there is no \<^verbatim>\<open>Records\<close> entry, and otherwise reads that
  entry as a vector of event records, returning the first error of a record that
  does not decode.
\<close>

theorem ke_deserialize_object:
  assumes "distinct (keys_of kvs)"
  shows "ke_deserialize tsd bd (JObject kvs) =
     (case map_of kvs ''Records'' of
        None \<Rightarrow> Inl (MissingField ''Records'')
      | Some v \<Rightarrow> map_res (\<lambda>rs. \<lparr>records = rs\<rparr>) (de_vec (ker_deserialize tsd bd) v))"
proof -
  show ?thesis
  proof (cases "map_of kvs ''Records''")
    case None
    then show ?thesis
      unfolding ke_deserialize_known [of tsd bd kvs, symmetric] ke_known_entries [OF assms]
      by (simp add: ke_deserialize_def de_struct_def ke_build_def required_def)
  next
    case (Some v)
    then show ?thesis
      unfolding ke_deserialize_known [of tsd bd kvs, symmetric] ke_known_entries [OF assms]
      by (cases "de_vec (ker_deserialize tsd bd) v")
        (simp_all add: ke_deserialize_def de_struct_def visit_map_Cons ke_build_def required_def
          check_def)
  qed
qed

theorem ke_deserialize_object_witness:
  "ke_deserialize de_value de_value (JObject [(''records'', JArray [])])
     = Inl (MissingField ''Records'')"
  using ke_deserialize_object [of "[(''records'', JArray [])]" de_value de_value] by simp

text \<open>
  C9 (round trip of a window event). A window event is written as one object holding
  the \<^verbatim>\<open>Records\<close> of the event and the entries of the window properties. Decoding it
  returns the event when the window properties decode from their own entries and
  none of these entries has the key \<^verbatim>\<open>Records\<close>.
\<close>

theorem twe_roundtrip:
  assumes "codec_ok tsc" and "codec_ok bc"
    and "wd (we (time_window_properties x)) = Inr (time_window_properties x)"
    and "''Records'' \<notin> set (keys_of (we (time_window_properties x)))"
  shows "twe_deserialize (dec tsc) (dec bc) wd (twe_serialize (enc tsc) (enc bc) we x) = Inr x"
proof -
  let ?rs = "(''Records'', ser_vec (ker_serialize (enc tsc) (enc bc)) (records (kinesis_event x)))"
  have "ke_deserialize (dec tsc) (dec bc) (JObject (?rs # we (time_window_properties x)))
      = ke_deserialize (dec tsc) (dec bc) (ke_serialize (enc tsc) (enc bc) (kinesis_event x))"
    unfolding ke_deserialize_known [of _ _ "?rs # we (time_window_properties x)", symmetric]
    by (simp add: known_entries_ke filter_key_absent [OF assms(4)] ke_serialize_def)
  then show ?thesis
    using assms
    by (simp add: twe_serialize_def twe_deserialize_object ke_roundtrip_aux
        filter_key_absent [OF assms(4)])
qed

theorem twe_roundtrip_witness:
  "twe_deserialize de_value de_value shard_dec
     (twe_serialize ser_value ser_value shard_enc
        \<lparr>kinesis_event = \<lparr>records = []\<rparr>, time_window_properties = ''shardId-000000000006''\<rparr>)
   = Inr \<lparr>kinesis_event = \<lparr>records = []\<rparr>, time_window_properties = ''shardId-000000000006''\<rparr>"
  using twe_roundtrip [OF value_codec_ok value_codec_ok, of shard_dec shard_enc
      "\<lparr>kinesis_event = \<lparr>records = []\<rparr>, time_window_properties = ''shardId-000000000006''\<rparr>"]
  by (simp add: value_codec_def shard_dec_def shard_enc_def required_def)

text \<open>
  C27 (flattened key collision). If the window properties are written with an entry
  whose key is \<^verbatim>\<open>Records\<close>, the object has that key twice and the decoder rejects what
  the encoder wrote.
\<close>

theorem twe_collision:
  assumes "''Records'' \<in> set (keys_of (we (time_window_properties x)))"
  shows "\<not> is_ok (twe_deserialize tsd bd wd (twe_serialize tse be we x))"
proof -
  let ?kvs = "(''Records'', ser_vec (ker_serialize tse be) (records (kinesis_event x)))
      # we (time_window_properties x)"
  from assms have "\<not> distinct (keys_of (known_entries (ke_fields tsd bd) ?kvs))"
    by (auto simp: known_entries_ke)
  then have "\<not> is_ok (ke_deserialize tsd bd (JObject ?kvs))"
    unfolding ke_deserialize_def by (rule de_struct_duplicate)
  then show ?thesis
    by (auto simp: twe_serialize_def twe_deserialize_object not_is_ok_iff)
qed

theorem twe_collision_witness:
  "\<not> is_ok (twe_deserialize de_value de_value shard_dec
      (twe_serialize ser_value ser_value (\<lambda>w. [(''Records'', JString w)])
         \<lparr>kinesis_event = \<lparr>records = []\<rparr>, time_window_properties = ''shardId-000000000006''\<rparr>))"
  by (rule twe_collision) simp

text \<open>
  Flattened fields read one object. A window event is accepted exactly when the
  object is accepted as a Kinesis event and its entries other than \<^verbatim>\<open>Records\<close> are
  accepted as window properties; the two fields are the two results.
\<close>

theorem twe_deserialize_Inr_iff:
  "twe_deserialize tsd bd wd (JObject kvs) = Inr x \<longleftrightarrow>
     ke_deserialize tsd bd (JObject kvs) = Inr (kinesis_event x)
     \<and> wd (filter (\<lambda>kv. fst kv \<noteq> ''Records'') kvs) = Inr (time_window_properties x)"
  by (cases x) (auto simp: twe_deserialize_object and_then_Inr_iff)

text \<open>
  C40 (tests). For codecs that satisfy the round-trip law, the test
  \<^verbatim>\<open>example_kinesis_event\<close> passes exactly on a fixture that decodes to an event with at
  least one record whose first record has the encryption type \<^verbatim>\<open>None\<close>, and
  \<^verbatim>\<open>example_kinesis_event_encrypted\<close> exactly when that type is \<^verbatim>\<open>Kms\<close>; a fixture that
  decodes to an event without records makes both panic on the index.
\<close>

theorem kinesis_tests:
  assumes "codec_ok tsc" and "codec_ok bc"
  shows "(example_kinesis_event tsc bc fixture = Passed \<longleftrightarrow>
       (\<exists>x r rs. ke_deserialize (dec tsc) (dec bc) fixture = Inr x \<and> records x = r # rs
          \<and> encryption_type (kinesis r) = None'))
     \<and> (example_kinesis_event_encrypted tsc bc fixture = Passed \<longleftrightarrow>
       (\<exists>x r rs. ke_deserialize (dec tsc) (dec bc) fixture = Inr x \<and> records x = r # rs
          \<and> encryption_type (kinesis r) = Kms))
     \<and> (\<forall>x. ke_deserialize (dec tsc) (dec bc) fixture = Inr x \<and> records x = [] \<longrightarrow>
          example_kinesis_event tsc bc fixture = Panicked IndexOutOfBounds
          \<and> example_kinesis_event_encrypted tsc bc fixture = Panicked IndexOutOfBounds)"
  unfolding example_kinesis_event_def example_kinesis_event_encrypted_def
    kinesis_event_test_eq [OF assms]
  by (cases "ke_deserialize (dec tsc) (dec bc) fixture") (auto split: list.splits)

theorem kinesis_tests_witness:
  "example_kinesis_event value_codec value_codec (JObject event_fixture) = Passed
   \<and> example_kinesis_event_encrypted value_codec value_codec (JObject event_fixture)
       \<noteq> Passed"
  using kinesis_tests [OF value_codec_ok value_codec_ok, of "JObject event_fixture"]
  by (simp add: value_codec_def event_fixture_decodes event_record_value_def record_value_def)

end
