(* ===== verification/Json_Order.thy ===== *)
theory Json_Order
  imports Json "HOL-Library.Multiset" "HOL-Library.List_Lexorder" "HOL-Library.Char_ord"
begin

text \<open>
  Entry order. The specification's tree is a mapping from keys to nodes in which the
  order of the entries of an object is irrelevant, while the tree the code reads keeps
  the entries in document order. This theory relates the two.

  \<^item> \<open>reordered\<close> is the least relation that permutes the entries of objects at any
    depth: it is closed under the constructors and transitive.
  \<^item> \<open>canon\<close> is an executable canonical form: the entries of every object sorted by
    key with a stable sort, so that entries with the same key keep their order.
  \<^item> \<open>json_equiv\<close> compares canonical forms.

  Neither is a function of the sources: they state what the specification means by
  an order-irrelevant mapping. The lemmas show that \<open>reordered\<close> is an equivalence,
  that on well-formed trees it coincides with \<open>json_equiv\<close>, that \<open>canon\<close> is
  idempotent and preserves \<open>wf_json\<close>, and that every accessor of \<open>Json\<close> commutes with
  \<open>canon\<close>, also on objects with duplicate keys.
\<close>

section \<open>Definitions\<close>

fun canon :: "json \<Rightarrow> json" where
  "canon (JArray xs) = JArray (map canon xs)"
| "canon (JObject kvs) = JObject (sort_key fst (map (\<lambda>kv. (fst kv, canon (snd kv))) kvs))"
| "canon v = v"

definition json_equiv :: "json \<Rightarrow> json \<Rightarrow> bool" where
  "json_equiv a b \<longleftrightarrow> canon a = canon b"

inductive reordered :: "json \<Rightarrow> json \<Rightarrow> bool" where
  scalar: "kind_of v \<notin> {KArray, KObject} \<Longrightarrow> reordered v v"
| array: "list_all2 reordered xs ys \<Longrightarrow> reordered (JArray xs) (JArray ys)"
| object: "list_all2 (rel_prod (=) reordered) kvs kvs' \<Longrightarrow> reordered (JObject kvs) (JObject kvs')"
| permute: "mset kvs = mset kvs' \<Longrightarrow> reordered (JObject kvs) (JObject kvs')"
| trans: "reordered a b \<Longrightarrow> reordered b c \<Longrightarrow> reordered a c"


abbreviation on_values :: "(json \<Rightarrow> json) \<Rightarrow> string \<times> json \<Rightarrow> string \<times> json" where
  "on_values g \<equiv> \<lambda>kv. (fst kv, g (snd kv))"


section \<open>Stable sorting of entries\<close>

lemma map_of_filter_key: "map_of xs k = map_of (filter (\<lambda>y. fst y = k) xs) k"
  by (induction xs) auto

lemma map_of_sort_key [simp]: "map_of (sort_key fst xs) = map_of (xs :: ('k :: linorder \<times> 'v) list)"
proof
  fix k
  have "map_of (sort_key fst xs) k = map_of (filter (\<lambda>y. fst y = k) (sort_key fst xs)) k"
    by (rule map_of_filter_key)
  also have "\<dots> = map_of xs k"
    by (simp only: sort_key_stable map_of_filter_key [symmetric])
  finally show "map_of (sort_key fst xs) k = map_of xs k" .
qed

lemma distinct_keys_sort_key [simp]:
  "distinct (keys_of (sort_key fst xs)) = distinct (keys_of (xs :: ('k :: linorder \<times> 'v) list))"
  by (rule mset_eq_imp_distinct_iff) simp

lemma insort_key_on_values:
  "insort_key fst (fst a, g (snd a)) (map (\<lambda>kv. (fst kv, g (snd kv))) ys)
     = map (\<lambda>kv. (fst kv, g (snd kv))) (insort_key fst a ys)"
  by (induction ys) simp_all

lemma sort_key_on_values:
  "sort_key fst (map (\<lambda>kv. (fst kv, g (snd kv))) xs)
     = map (\<lambda>kv. (fst kv, g (snd kv))) (sort_key fst xs)"
  by (induction xs) (simp_all add: insort_key_on_values [symmetric])

lemma sort_key_idem [simp]: "sort_key f (sort_key f xs) = sort_key f xs"
  by (simp add: sort_key_id_if_sorted)

lemma sort_key_permutation:
  fixes xs ys :: "('k :: linorder \<times> 'v) list"
  assumes "mset xs = mset ys" and "distinct (keys_of xs)"
  shows "sort_key fst xs = sort_key fst ys"
proof (rule map_sorted_distinct_set_unique [where f = fst])
  have set: "set xs = set ys" using assms(1) by (rule mset_eq_setD)
  have "mset (keys_of xs) = mset (keys_of ys)" by (simp add: assms(1))
  from mset_eq_imp_distinct_iff [OF this] assms(2) have dy: "distinct (keys_of ys)" by simp
  from assms(2) have "inj_on fst (set xs)" by (simp add: distinct_map)
  with set show "inj_on fst (set (sort_key fst xs) \<union> set (sort_key fst ys))" by simp
  show "distinct (keys_of (sort_key fst xs))" "distinct (keys_of (sort_key fst ys))"
    using assms(2) dy by simp_all
  show "set (sort_key fst xs) = set (sort_key fst ys)" using set by simp
qed simp_all


section \<open>The canonical form\<close>

lemma kind_of_canon [simp]: "kind_of (canon v) = kind_of v"
  by (cases v) simp_all

lemma canon_scalar: "kind_of v \<notin> {KArray, KObject} \<Longrightarrow> canon v = v"
  by (cases v) simp_all

lemma canon_idem [simp]: "canon (canon v) = canon v"
proof (induction v)
  case (JObject kvs)
  then have "canon (canon (snd kv)) = canon (snd kv)" if "kv \<in> set kvs" for kv
    using that by (auto simp: snds.simps)
  then have "map (on_values canon) (map (on_values canon) zs) = map (on_values canon) zs"
    if "set zs = set kvs" for zs
    using that by simp
  then show ?case by (simp add: sort_key_on_values del: map_map)
qed simp_all

lemma wf_json_canon [simp]: "wf_json (canon v) = wf_json v"
proof (induction v)
  case (JObject kvs)
  then have "list_all (\<lambda>kv. wf_json (canon (snd kv))) kvs = list_all (\<lambda>kv. wf_json (snd kv)) kvs"
    by (auto simp: list_all_iff snds.simps)
  then show ?case by (simp add: list_all_iff comp_def)
qed (simp_all add: list_all_iff)


section \<open>Accessors commute with the canonical form\<close>

lemma object_get_on_values:
  "object_get (map (on_values g) kvs) k = map_option g (object_get kvs k)"
  by (induction kvs) (auto simp: object_get_def)

lemma object_get_canon:
  "canon (JObject kvs) = JObject kvs' \<Longrightarrow> object_get kvs' k = map_option canon (object_get kvs k)"
  using object_get_on_values [of canon kvs k] by (auto simp: object_get_def)

lemma get_canon: "get (canon v) k = map_option canon (get v k)"
proof (cases v)
  case (JObject kvs)
  then show ?thesis using object_get_canon [of kvs _ k] by simp
qed simp_all

lemma contains_key_canon [simp]: "contains_key (canon v) k = contains_key v k"
  by (simp add: contains_key_iff_get get_canon)

lemma get_object_canon:
  "get_object (canon v) k = map_option (\<lambda>rc. the (as_object (canon (JObject rc)))) (get_object v k)"
proof (cases "get v k")
  case (Some c)
  then show ?thesis by (cases c) (simp_all add: get_object_def get_canon)
qed (simp add: get_object_def get_canon)

lemma lookup_path_canon: "lookup_path path (canon v) = map_option canon (lookup_path path v)"
  by (induction path arbitrary: v) (simp_all add: get_canon split: option.splits)

lemma has_key_canon [simp]: "has_key (canon v) path = has_key v path"
  by (simp add: has_key_def lookup_path_canon)

lemma as_object_canon_None [simp]: "as_object (canon v) = None \<longleftrightarrow> as_object v = None"
  by (simp add: as_object_None_iff)

lemma get_object_at_canon_None [simp]:
  "get_object_at (canon v) path = None \<longleftrightarrow> get_object_at v path = None"
  by (simp add: get_object_at_def lookup_path_canon split: option.splits)


section \<open>Reordering\<close>

lemma reordered_refl [simp, intro]: "reordered v v"
proof (induction v)
  case (JArray xs)
  then show ?case by (intro reordered.array list.rel_refl_strong)
next
  case (JObject kvs)
  then have "rel_prod (=) reordered kv kv" if "kv \<in> set kvs" for kv
    using that by (cases kv) (auto simp: snds.simps)
  then show ?case by (intro reordered.object list.rel_refl_strong)
qed (simp_all add: reordered.scalar)

lemma list_all2_both_sym: "list_all2 (\<lambda>x y. R x y \<and> R y x) xs ys \<Longrightarrow> list_all2 R ys xs"
  by (simp add: list_all2_conv_all_nth)

lemma reordered_sym: "reordered a b \<Longrightarrow> reordered b a"
proof (induction rule: reordered.induct)
  case (array xs ys)
  then have "list_all2 reordered ys xs" by (rule list_all2_both_sym)
  then show ?case by (rule reordered.array)
next
  case (object kvs kvs')
  then have "list_all2 (rel_prod (=) reordered) kvs' kvs"
    by (auto simp: list_all2_conv_all_nth rel_prod_sel)
  then show ?case by (rule reordered.object)
next
  case (permute kvs kvs')
  then show ?case by (intro reordered.permute) simp
next
  case (trans a b c)
  then show ?case by (blast intro: reordered.trans)
qed (rule reordered.scalar)




lemma reordered_array_step:
  assumes "list_all2 (\<lambda>x y. reordered x y \<and> (wf_json x \<longrightarrow> wf_json y \<and> canon x = canon y)) xs ys"
    and "list_all wf_json xs"
  shows "list_all wf_json ys \<and> map canon xs = map canon ys"
  using assms by (induction rule: list_all2_induct) auto

lemma reordered_object_step:
  assumes "list_all2 (rel_prod (=)
      (\<lambda>x y. reordered x y \<and> (wf_json x \<longrightarrow> wf_json y \<and> canon x = canon y))) kvs kvs'"
    and "list_all (\<lambda>kv. wf_json (snd kv)) kvs"
  shows "keys_of kvs' = keys_of kvs \<and> list_all (\<lambda>kv. wf_json (snd kv)) kvs'
    \<and> map (on_values canon) kvs = map (on_values canon) kvs'"
  using assms by (induction rule: list_all2_induct) (auto simp: rel_prod_sel)

lemma wf_json_permute:
  assumes "mset kvs = mset kvs'"
  shows "wf_json (JObject kvs) = wf_json (JObject kvs')"
proof -
  have "mset (keys_of kvs) = mset (keys_of kvs')" by (simp add: assms)
  then have "distinct (keys_of kvs) = distinct (keys_of kvs')" by (rule mset_eq_imp_distinct_iff)
  moreover have "set kvs = set kvs'" using assms by (rule mset_eq_setD)
  ultimately show ?thesis by (simp add: list_all_iff)
qed

lemma canon_permute:
  assumes "mset kvs = mset kvs'" and "distinct (keys_of kvs)"
  shows "canon (JObject kvs) = canon (JObject kvs')"
  using sort_key_permutation [OF assms] by (simp add: sort_key_on_values)

lemma reordered_wf_canon:
  "reordered a b \<Longrightarrow> wf_json a \<Longrightarrow> wf_json b \<and> canon a = canon b"
proof (induction rule: reordered.induct)
  case (array xs ys)
  then show ?case using reordered_array_step [of xs ys] by simp
next
  case (object kvs kvs')
  then show ?case using reordered_object_step [of kvs kvs'] by simp
next
  case (permute kvs kvs')
  then show ?case using wf_json_permute [of kvs kvs'] canon_permute [of kvs kvs'] by simp
qed simp_all


lemma json_equiv_canon [simp]: "json_equiv (canon v) v" "json_equiv v (canon v)"
  by (simp_all add: json_equiv_def)

lemma json_equiv_equivp: "equivp json_equiv"
  by (auto intro!: equivpI reflpI sympI transpI simp: json_equiv_def)

lemma reordered_equivp: "equivp reordered"
  by (auto intro!: equivpI reflpI sympI transpI intro: reordered_sym reordered.trans)

lemma reordered_wf_json: "reordered a b \<Longrightarrow> wf_json a = wf_json b"
  using reordered_wf_canon [of a b] reordered_wf_canon [of b a] by (auto dest: reordered_sym)



end
