(* ===== verification/Entry_Order.thy ===== *)
theory Entry_Order
  imports Json_Order Visitor Lambda_Request
begin

text \<open>
  What the readers do with the order of the entries of an object.

  The specification calls an object an order-irrelevant mapping; the readers of the
  sources walk the entries in document order. The lemmas of this theory show where the
  two agree: the dispatcher of \<^verbatim>\<open>lambda-http\<close> selects the same variant for equivalent
  trees (\<open>json_equiv\<close> of \<open>Json_Order\<close>), also when keys repeat, because a lookup returns
  the first entry of a key and the canonical form keeps the order of equal keys; and a
  derived struct reader accepts a permutation of the entries of an object exactly when
  it accepts the object, with the same value. The error of a rejected object is that of
  the first offending entry, so it does depend on the order. Reordering at every depth
  is the subject of \<open>Order_Blind\<close>.
\<close>

section \<open>Samples\<close>

definition reversed_rest :: json where
  "reversed_rest = JObject
     [(''request_context'', JObject [(''account_id'', JString ''12345678912'')]),
      (''http_method'', JString ''GET'')]"


lemmas struct_eval = de_struct_def visit_map.simps(2) check_def de_string_def required_def

section \<open>The dispatcher\<close>

lemma matches_canon [simp]: "matches ks t (canon v) = matches ks t v"
  by (cases t) (simp_all add: is_variant_defs)

lemma select_canon [simp]: "select (catalog ks f) (canon v) = select (catalog ks f) v"
  by (rule select_cong) simp

lemma select_json_equiv:
  assumes "json_equiv a b"
  shows "select (catalog ks f) a = select (catalog ks f) b"
  using assms unfolding json_equiv_def by (metis select_canon)


section \<open>Derived struct readers\<close>

lemma known_entries_permute:
  "mset kvs = mset kvs' \<Longrightarrow> mset (known_entries fs kvs) = mset (known_entries fs kvs')"
  by (simp add: known_entries_def)

lemma distinct_known_permute:
  assumes "mset kvs = mset kvs'"
  shows "distinct (keys_of (known_entries fs kvs)) = distinct (keys_of (known_entries fs kvs'))"
proof (rule mset_eq_imp_distinct_iff)
  show "mset (keys_of (known_entries fs kvs)) = mset (keys_of (known_entries fs kvs'))"
    using known_entries_permute [OF assms, of fs] by simp
qed

lemma checks_pass_permute: "mset kvs = mset kvs' \<Longrightarrow> checks_pass fs kvs = checks_pass fs kvs'"
  by (auto simp: checks_pass_def list_all_iff dest: mset_eq_setD)

lemma known_slots_permute:
  assumes "mset kvs = mset kvs'" and "distinct (keys_of (known_entries fs kvs))"
  shows "known_slots fs kvs = known_slots fs kvs'"
proof -
  have "distinct (keys_of (known_entries fs kvs'))"
    using assms distinct_known_permute by blast
  moreover have "set (known_entries fs kvs) = set (known_entries fs kvs')"
    using known_entries_permute [OF assms(1)] by (rule mset_eq_setD)
  ultimately have "map_of (known_entries fs kvs) = map_of (known_entries fs kvs')"
    using assms(2) by (simp add: map_of_inject_set)
  then have "known_slots fs (known_entries fs kvs) = known_slots fs (known_entries fs kvs')"
    unfolding known_slots_def
    by (rule arg_cong [where f = "\<lambda>m k. case map_of fs k of None \<Rightarrow> None | Some chk \<Rightarrow> m k"])
  then show ?thesis by simp
qed

lemma de_struct_permute_Inr:
  assumes "mset kvs = mset kvs'" and "de_struct name fs build (JObject kvs) = Inr x"
  shows "de_struct name fs build (JObject kvs') = Inr x"
  using assms distinct_known_permute [OF assms(1), of fs] checks_pass_permute [OF assms(1), of fs]
    known_slots_permute [OF assms(1), of fs]
  by (auto simp: de_struct_Inr_iff)


lemma known_entries_canon:
  "known_entries fs (sort_key fst (map (on_values g) kvs))
     = sort_key fst (map (on_values g) (known_entries fs kvs))"
  by (simp add: known_entries_def filter_sort filter_map comp_def)

lemma distinct_known_canon:
  "canon (JObject kvs) = JObject kvs' \<Longrightarrow>
   distinct (keys_of (known_entries fs kvs')) = distinct (keys_of (known_entries fs kvs))"
  by (auto simp: known_entries_canon comp_def)


text \<open>
  C16 (the dispatcher does not depend on entry order). For equivalent trees the
  dispatcher selects the same variant or the same fall-back: on the second tree it calls
  the decoder it calls on the first. This holds for every tree, also with repeated
  keys. The result of the decoder and the text a pass-through returns are those of the
  tree that is given.
\<close>
theorem deserialize_json_equiv:
  assumes "json_equiv a b"
  shows "deserialize f d data b =
     (case select (catalog code_keys f) a of
        None \<Rightarrow> fallback f data
      | Some t \<Rightarrow> decode_as d t b)"
  by (simp add: deserialize_select select_json_equiv [OF assms])

theorem deserialize_json_equiv_witness:
  "json_equiv payload_rest reversed_rest
   \<and> deserialize all_features tree_decoders ''{}'' reversed_rest = Inr (ApiGatewayV1 reversed_rest)"
proof -
  have e: "json_equiv payload_rest reversed_rest"
    by (simp add: json_equiv_def payload_rest_def reversed_rest_def)
  from deserialize_json_equiv [OF e, of all_features tree_decoders "''{}''"] e
  show ?thesis by (simp add: tree_decoders_def)
qed

text \<open>
  C17 (a struct reader accepts every permutation of an accepted object). For every
  derived struct reader, an object is accepted with value \<open>x\<close> exactly when every
  permutation of its entries is accepted with value \<open>x\<close>. The error of a rejected
  object is that of its first offending entry and can change with the order.
\<close>
theorem de_struct_permute:
  assumes "mset kvs = mset kvs'"
  shows "de_struct name fs build (JObject kvs) = Inr x
     \<longleftrightarrow> de_struct name fs build (JObject kvs') = Inr x"
  using de_struct_permute_Inr [OF assms, of name fs build x]
    de_struct_permute_Inr [OF assms [symmetric], of name fs build x]
  by blast

theorem de_struct_permute_witness:
  "de_struct ''S'' [(''a'', check de_string), (''b'', check de_string)] (required ''b'' de_string)
     (JObject [(''b'', JString ''y''), (''c'', JNull), (''a'', JString ''x'')]) = Inr ''y''
   \<and> de_struct ''S'' [(''a'', check de_string), (''b'', check de_string)] (required ''b'' de_string)
     (JObject [(''a'', JNull), (''b'', JBool True)]) = Inl (InvalidType KNull ExpString)
   \<and> de_struct ''S'' [(''a'', check de_string), (''b'', check de_string)] (required ''b'' de_string)
     (JObject [(''b'', JBool True), (''a'', JNull)]) = Inl (InvalidType KBool ExpString)"
  using de_struct_permute [of "[(''a'', JString ''x''), (''b'', JString ''y''), (''c'', JNull)]"
      "[(''b'', JString ''y''), (''c'', JNull), (''a'', JString ''x'')]" "''S''"
      "[(''a'', check de_string), (''b'', check de_string)]" "required ''b'' de_string" "''y''"]
  by (simp add: struct_eval)

end
