(* ===== verification/Order_Blind.thy ===== *)
theory Order_Blind
  imports Entry_Order Secrets_Manager Auto_Scaling Kinesis
begin

text \<open>
  Readers that do not depend on the order of entries, at any depth.

  \<open>order_blind d\<close> says that the reader \<open>d\<close> accepts a tree and its canonical form alike,
  with the same value. It is the interface between a struct and the readers of its
  fields: the primitive readers satisfy it, the reader of a vector, of an option and of
  a hash map satisfy it when the reader of the elements does, and a derived struct
  reader satisfies it when the readers of its fields do (\<open>order_blind_struct\<close>). The
  readers of the rotation event, of the Auto Scaling event and of the Kinesis event
  follow, for all order-blind readers of the external types. The reader of the untyped
  value returns the tree itself and is not order-blind in this sense.

  A hash map keeps the last entry of a repeated key; the canonical form keeps the order
  of entries with the same key, so the reader of a hash map is order-blind also on
  objects with repeated keys.
\<close>

section \<open>Definitions\<close>

definition order_blind :: "'a decoder \<Rightarrow> bool" where
  "order_blind d \<longleftrightarrow> (\<forall>v x. d (canon v) = Inr x \<longleftrightarrow> d v = Inr x)"

definition canon_slots :: "slots \<Rightarrow> slots" where
  "canon_slots s = (\<lambda>k. map_option canon (s k))"

named_theorems order_blind_intros "readers that do not depend on entry order"

definition shuffled_event :: json where
  "shuffled_event = JObject
     [(''Records'', JArray [JObject
        [(''kinesis'', JObject [(''partitionKey'', JString ''k''), (''data'', JString ''d''),
            (''approximateArrivalTimestamp'', JString ''t'')]),
         (''awsRegion'', JString ''us-east-1'')]])]"

definition sorted_event :: json where
  "sorted_event = JObject
     [(''Records'', JArray [JObject
        [(''awsRegion'', JString ''us-east-1''),
         (''kinesis'', JObject [(''approximateArrivalTimestamp'', JString ''t''),
            (''data'', JString ''d''), (''partitionKey'', JString ''k'')])]])]"


section \<open>Primitive readers\<close>

lemma order_blindD: "order_blind d \<Longrightarrow> d (canon v) = Inr x \<longleftrightarrow> d v = Inr x"
  by (simp add: order_blind_def)

lemma order_blindI: "(\<And>v x. d (canon v) = Inr x \<longleftrightarrow> d v = Inr x) \<Longrightarrow> order_blind d"
  by (simp add: order_blind_def)

lemma order_blind_is_ok: "order_blind d \<Longrightarrow> is_ok (d (canon v)) = is_ok (d v)"
  by (simp add: is_ok_iff order_blindD)

lemma order_blind_check: "order_blind d \<Longrightarrow> check d (canon v) = None \<longleftrightarrow> check d v = None"
  using order_blind_is_ok [of d v] by (auto simp: check_def is_ok_iff split: sum.splits)

lemma order_blind_json_equiv:
  "order_blind d \<Longrightarrow> json_equiv a b \<Longrightarrow> d a = Inr x \<longleftrightarrow> d b = Inr x"
  using order_blindD [of d a x] order_blindD [of d b x] by (simp add: json_equiv_def)

lemma canon_eq_JNull [simp]: "canon v = JNull \<longleftrightarrow> v = JNull"
  by (cases v) auto

lemma de_string_canon [simp]: "de_string (canon v) = de_string v"
  by (cases v) (simp_all add: de_string_def)

lemma order_blind_string [order_blind_intros]: "order_blind de_string"
  by (simp add: order_blind_def)

lemma order_blind_encryption_type [order_blind_intros]: "order_blind de_encryption_type"
proof (rule order_blindI)
  show "de_encryption_type (canon v) = Inr x \<longleftrightarrow> de_encryption_type v = Inr x" for v x
    by (cases v) (simp_all add: de_encryption_type_def)
qed

lemma order_blind_option [order_blind_intros]:
  assumes "order_blind d"
  shows "order_blind (de_option d)"
proof (rule order_blindI)
  have eq: "de_option d v = (if v = JNull then Inr None else map_res Some (d v))" for v
    by (cases v) (simp_all add: de_option_def)
  show "de_option d (canon v) = Inr x \<longleftrightarrow> de_option d v = Inr x" for v x
    by (simp add: eq map_res_Inr_iff order_blindD [OF assms])
qed

lemma traverse_Cons_Inr_iff:
  "traverse f (x # xs) = Inr zs \<longleftrightarrow>
     (\<exists>y ys. f x = Inr y \<and> traverse f xs = Inr ys \<and> zs = y # ys)"
  by (auto split: sum.splits)

lemma traverse_canon:
  assumes "order_blind d"
  shows "traverse d (map canon xs) = Inr ys \<longleftrightarrow> traverse d xs = Inr ys"
  by (induction xs arbitrary: ys)
    (simp_all add: traverse_Cons_Inr_iff order_blindD [OF assms] del: traverse.simps(2))

lemma order_blind_vec [order_blind_intros]:
  assumes "order_blind d"
  shows "order_blind (de_vec d)"
proof (rule order_blindI)
  show "de_vec d (canon v) = Inr x \<longleftrightarrow> de_vec d v = Inr x" for v x
    by (cases v) (simp_all add: de_vec_def traverse_canon [OF assms])
qed


section \<open>The reader of a hash map\<close>

lemma traverse_Inr_iff_list_all2:
  "traverse f xs = Inr ys \<longleftrightarrow> list_all2 (\<lambda>x y. f x = Inr y) xs ys"
proof (induction xs arbitrary: ys)
  case (Cons x xs)
  then show ?case
    by (cases ys) (auto simp: traverse_Cons_Inr_iff simp del: traverse.simps(2))
qed auto

lemma list_all2_insort_key:
  assumes "list_all2 R xs ys" and "R x y" and "\<And>a b. R a b \<Longrightarrow> f a = g b"
  shows "list_all2 R (insort_key f x xs) (insort_key g y ys)"
  using assms(1)
proof (induction rule: list_all2_induct)
  case (Cons a xs b ys)
  then show ?case using assms(2) assms(3) [of a b] assms(3) [of x y] by auto
qed (simp add: assms(2))

lemma list_all2_sort_key:
  assumes "list_all2 R xs ys" and "\<And>a b. R a b \<Longrightarrow> f a = g b"
  shows "list_all2 R (sort_key f xs) (sort_key g ys)"
  using assms(1)
  by (induction rule: list_all2_induct) (simp_all add: list_all2_insort_key assms(2))

lemma de_entry_key: "de_entry d kv = Inr e \<Longrightarrow> fst kv = fst e"
  by (cases kv) (auto simp: map_res_Inr_iff)

lemma traverse_entries_sorted:
  "traverse (de_entry d) (sort_key fst kvs) = Inr es' \<longleftrightarrow>
     (\<exists>es. traverse (de_entry d) kvs = Inr es \<and> es' = sort_key fst es)"
  (is "?L \<longleftrightarrow> ?R")
proof -
  have fwd: "traverse (de_entry d) (sort_key fst kvs) = Inr (sort_key fst es)"
    if "traverse (de_entry d) kvs = Inr es" for es
    using that unfolding traverse_Inr_iff_list_all2
    by (rule list_all2_sort_key) (rule de_entry_key)
  show ?thesis
  proof
    assume l: ?L
    then have "is_ok (traverse (de_entry d) (sort_key fst kvs))" by simp
    then have "is_ok (traverse (de_entry d) kvs)" by (simp add: traverse_is_ok_iff)
    then obtain es where es: "traverse (de_entry d) kvs = Inr es" by (auto simp: is_ok_iff)
    with fwd [OF es] l show ?R by simp
  qed (auto dest: fwd)
qed

lemma traverse_entries_canon:
  assumes "order_blind d"
  shows "traverse (de_entry d) (map (on_values canon) kvs) = Inr es
     \<longleftrightarrow> traverse (de_entry d) kvs = Inr es"
proof -
  have "de_entry d (fst kv, canon (snd kv)) = Inr e \<longleftrightarrow> de_entry d kv = Inr e" for kv e
    by (cases kv) (simp add: map_res_Inr_iff order_blindD [OF assms])
  then show ?thesis by (simp add: traverse_Inr_iff_list_all2 list_all2_map1)
qed

lemma map_of_rev_sort_key:
  "map_of (rev (sort_key fst es)) = map_of (rev (es :: ('k :: linorder \<times> 'v) list))"
proof
  fix k
  have "filter (\<lambda>y. fst y = k) (rev (sort_key fst es)) = filter (\<lambda>y. fst y = k) (rev es)"
    by (simp only: rev_filter [symmetric] sort_key_stable)
  then show "map_of (rev (sort_key fst es)) k = map_of (rev es) k"
    using map_of_filter_key [of "rev (sort_key fst es)" k] map_of_filter_key [of "rev es" k]
    by simp
qed

lemma fmap_of_list_rev_sort_key:
  "fmap_of_list (rev (sort_key fst es)) = fmap_of_list (rev (es :: (string \<times> 'v) list))"
  by (rule fmap_ext) (simp add: fmlookup_of_list map_of_rev_sort_key)

lemma order_blind_hashmap [order_blind_intros]:
  assumes "order_blind d"
  shows "order_blind (de_hashmap d)"
proof (rule order_blindI)
  fix v m
  show "de_hashmap d (canon v) = Inr m \<longleftrightarrow> de_hashmap d v = Inr m"
  proof (cases v)
    case (JObject kvs)
    then show ?thesis
      by (auto simp: de_hashmap_def map_res_Inr_iff traverse_entries_sorted
          traverse_entries_canon [OF assms] fmap_of_list_rev_sort_key)
  qed (simp_all add: de_hashmap_def)
qed

lemma order_blind_lambda_map [order_blind_intros]:
  assumes "order_blind d"
  shows "order_blind (deserialize_lambda_map d)"
  using order_blind_option [OF order_blind_hashmap [OF assms]]
  by (simp add: order_blind_def deserialize_lambda_map_def map_res_Inr_iff)


section \<open>Derived struct readers\<close>

lemma required_canon_slots:
  "order_blind d \<Longrightarrow> required k d (canon_slots s) = Inr x \<longleftrightarrow> required k d s = Inr x"
  by (cases "s k") (simp_all add: required_def canon_slots_def order_blindD)

lemma defaulted_canon_slots:
  "order_blind d \<Longrightarrow> defaulted k d dflt (canon_slots s) = Inr x \<longleftrightarrow> defaulted k d dflt s = Inr x"
  by (cases "s k") (simp_all add: defaulted_def canon_slots_def order_blindD)

lemmas build_canon_simps = and_then_Inr_iff required_canon_slots defaulted_canon_slots

lemma known_slots_canon:
  assumes "canon (JObject kvs) = JObject kvs'"
  shows "known_slots fs kvs' = canon_slots (known_slots fs kvs)"
proof
  fix k
  have "map_of kvs' k = map_option canon (map_of kvs k)"
    using object_get_canon [OF assms, of k] by (simp add: object_get_def)
  then show "known_slots fs kvs' k = canon_slots (known_slots fs kvs) k"
    by (simp add: known_slots_def canon_slots_def split: option.splits)
qed

lemma checks_pass_canon:
  assumes "canon (JObject kvs) = JObject kvs'"
    and "\<And>k chk v. (k, chk) \<in> set fs \<Longrightarrow> chk (canon v) = None \<longleftrightarrow> chk v = None"
  shows "checks_pass fs kvs' = checks_pass fs kvs"
proof -
  have "chk (canon v) = None \<longleftrightarrow> chk v = None" if "map_of fs k = Some chk" for k chk v
    using that assms(2) by (auto dest: map_of_SomeD)
  then have eq: "(case map_of fs (fst kv) of None \<Rightarrow> True | Some chk \<Rightarrow> chk (canon (snd kv)) = None)
      = (case map_of fs (fst kv) of None \<Rightarrow> True | Some chk \<Rightarrow> chk (snd kv) = None)" for kv
    by (simp split: option.splits)
  have "checks_pass fs kvs' = list_all (\<lambda>kv. case map_of fs (fst kv) of None \<Rightarrow> True
      | Some chk \<Rightarrow> chk (canon (snd kv)) = None) kvs"
    using assms(1) by (fastforce simp: checks_pass_def list_all_iff split: option.splits)
  then show ?thesis by (simp add: eq checks_pass_def)
qed

lemma order_blind_struct:
  assumes checks: "\<And>k chk v. (k, chk) \<in> set fs \<Longrightarrow> chk (canon v) = None \<longleftrightarrow> chk v = None"
    and build: "\<And>s x. build (canon_slots s) = Inr x \<longleftrightarrow> build s = Inr x"
  shows "order_blind (de_struct name fs build)"
proof (rule order_blindI)
  fix v x
  show "de_struct name fs build (canon v) = Inr x \<longleftrightarrow> de_struct name fs build v = Inr x"
  proof (cases v)
    case (JObject kvs)
    obtain kvs' where c: "canon (JObject kvs) = JObject kvs'" by simp
    show ?thesis
      unfolding JObject c de_struct_Inr_iff
      by (simp add: distinct_known_canon [OF c] checks_pass_canon [OF c checks]
          known_slots_canon [OF c] build)
  qed (simp_all add: de_struct_def)
qed

lemma order_blind_srm [order_blind_intros]: "order_blind srm_deserialize"
  unfolding srm_deserialize_def
  by (rule order_blind_struct)
    (auto simp: srm_fields_def srm_keys_def srm_build_def order_blind_check order_blind_is_ok build_canon_simps
      order_blind_intros)

lemma order_blind_ase [order_blind_intros]:
  assumes "order_blind td" and "order_blind dd"
  shows "order_blind (ase_deserialize td dd)"
  unfolding ase_deserialize_def
  by (rule order_blind_struct)
    (auto simp: ase_fields_def ase_build_def order_blind_check order_blind_is_ok build_canon_simps assms
      order_blind_intros)

lemma order_blind_kr [order_blind_intros]:
  assumes "order_blind tsd" and "order_blind bd"
  shows "order_blind (kr_deserialize tsd bd)"
  unfolding kr_deserialize_def
  by (rule order_blind_struct)
    (auto simp: kr_fields_def kr_build_def order_blind_check order_blind_is_ok build_canon_simps assms
      order_blind_intros)

lemma order_blind_ker [order_blind_intros]:
  assumes "order_blind tsd" and "order_blind bd"
  shows "order_blind (ker_deserialize tsd bd)"
  unfolding ker_deserialize_def
  by (rule order_blind_struct)
    (auto simp: ker_fields_def ker_build_def order_blind_check order_blind_is_ok build_canon_simps assms
      order_blind_intros)

lemma order_blind_ke [order_blind_intros]:
  assumes "order_blind tsd" and "order_blind bd"
  shows "order_blind (ke_deserialize tsd bd)"
  unfolding ke_deserialize_def
  by (rule order_blind_struct)
    (auto simp: ke_fields_def ke_build_def order_blind_check order_blind_is_ok build_canon_simps assms
      order_blind_intros)


section \<open>Properties\<close>

text \<open>
  C18 (the event readers do not depend on entry order). For readers of the external
  types that do not depend on entry order, two trees that are equal up to the order of
  the entries of their objects, at any depth, are accepted alike by the reader of the
  rotation event, of the Auto Scaling event and of the Kinesis event, with the same
  value; in the detail map of the envelope also when keys repeat.
\<close>
theorem readers_json_equiv:
  assumes "json_equiv a b"
    and "order_blind td" and "order_blind dd" and "order_blind tsd" and "order_blind bd"
  shows "(srm_deserialize a = Inr x \<longleftrightarrow> srm_deserialize b = Inr x)
    \<and> (ase_deserialize td dd a = Inr y \<longleftrightarrow> ase_deserialize td dd b = Inr y)
    \<and> (ke_deserialize tsd bd a = Inr z \<longleftrightarrow> ke_deserialize tsd bd b = Inr z)"
  using order_blind_json_equiv [OF order_blind_srm assms(1), where x = x]
    order_blind_json_equiv [OF order_blind_ase [OF assms(2,3)] assms(1), where x = y]
    order_blind_json_equiv [OF order_blind_ke [OF assms(4,5)] assms(1), where x = z]
  by simp

theorem readers_json_equiv_witness:
  "json_equiv sorted_event shuffled_event
   \<and> (\<exists>z. ke_deserialize de_string de_string sorted_event = Inr z
         \<and> ke_deserialize de_string de_string shuffled_event = Inr z)"
proof -
  have e: "json_equiv sorted_event shuffled_event"
    by (simp add: json_equiv_def sorted_event_def shuffled_event_def)
  obtain z where z: "ke_deserialize de_string de_string sorted_event = Inr z"
    by (simp add: sorted_event_def ke_deserialize_def ke_fields_def ke_build_def
        ker_deserialize_def ker_fields_def ker_build_def kr_deserialize_def kr_fields_def
        kr_build_def de_vec_def de_option_def de_encryption_type_def defaulted_def
        de_struct_def visit_map.simps(2) check_def de_string_def required_def)
  with readers_json_equiv [OF e order_blind_string order_blind_string order_blind_string
      order_blind_string, where z = z] e
  show ?thesis by blast
qed

end
