(* ===== verification/Well_Formed.thy ===== *)
theory Well_Formed
  imports Secrets_Manager Auto_Scaling Kinesis
begin

text \<open>
  The tree invariant on the output of the writers.

  The specification's tree has unique keys within every object (\<open>wf_json\<close>). The
  derived \<^verbatim>\<open>Serialize\<close> implementations build an object from the fields of a struct in
  the order of their declaration, so the invariant is a property of the field names
  and, for the flattened struct, of what the inner writer emits. \<open>wf_encoder\<close> states
  the invariant of a writer that is a parameter (the writers of the external types).
  The lemmas show it for the primitive writers and for the writer of every struct of
  the three event modules; for \<^verbatim>\<open>KinesisTimeWindowEvent\<close> the invariant holds exactly when
  the window properties are written without an entry \<^verbatim>\<open>Records\<close>.
\<close>

section \<open>Definitions\<close>

definition wf_encoder :: "'a encoder \<Rightarrow> bool" where
  "wf_encoder e \<longleftrightarrow> (\<forall>x. wf_json (e x))"

named_theorems wf_intros "writers that emit trees with unique keys"


section \<open>Primitive writers\<close>

lemma wf_encoderD: "wf_encoder e \<Longrightarrow> wf_json (e x)"
  by (simp add: wf_encoder_def)

lemma wf_encoderI: "(\<And>x. wf_json (e x)) \<Longrightarrow> wf_encoder e"
  by (simp add: wf_encoder_def)

lemma wf_ser_string [wf_intros]: "wf_encoder ser_string"
  by (simp add: wf_encoder_def ser_string_def)

lemma wf_ser_value_iff: "wf_json (ser_value v) = wf_json v"
  by (simp add: ser_value_def)

lemma wf_ser_option [wf_intros]: "wf_encoder e \<Longrightarrow> wf_encoder (ser_option e)"
  by (auto simp: wf_encoder_def ser_option_def split: option.splits)

lemma wf_ser_vec [wf_intros]: "wf_encoder e \<Longrightarrow> wf_encoder (ser_vec e)"
  by (simp add: wf_encoder_def ser_vec_def list_all_iff)

lemma wf_ser_hashmap [wf_intros]: "wf_encoder e \<Longrightarrow> wf_encoder (ser_hashmap e)"
  by (simp add: wf_encoder_def ser_hashmap_def list_all_iff comp_def case_prod_unfold)

lemma wf_ser_encryption_type [wf_intros]: "wf_encoder ser_encryption_type"
proof (rule wf_encoderI)
  show "wf_json (ser_encryption_type x)" for x by (cases x) simp_all
qed


section \<open>Writers of the structs\<close>

lemma wf_srm_serialize [wf_intros]: "wf_encoder srm_serialize"
  by (simp add: wf_encoder_def srm_serialize_def ser_string_def)

lemma wf_ase_serialize [wf_intros]:
  assumes "wf_encoder te" and "wf_encoder de"
  shows "wf_encoder (ase_serialize te de)"
  unfolding ase_serialize_def
  by (rule wf_encoderI) (simp add: assms wf_intros wf_encoderD)

lemma wf_kr_serialize [wf_intros]:
  assumes "wf_encoder tse" and "wf_encoder be"
  shows "wf_encoder (kr_serialize tse be)"
  unfolding kr_serialize_def
  by (rule wf_encoderI) (simp add: assms wf_intros wf_encoderD)

lemma wf_ker_serialize [wf_intros]:
  assumes "wf_encoder tse" and "wf_encoder be"
  shows "wf_encoder (ker_serialize tse be)"
  unfolding ker_serialize_def
  by (rule wf_encoderI) (simp add: assms wf_intros wf_encoderD)

lemma wf_ke_serialize [wf_intros]:
  assumes "wf_encoder tse" and "wf_encoder be"
  shows "wf_encoder (ke_serialize tse be)"
  unfolding ke_serialize_def
  by (rule wf_encoderI) (simp add: assms wf_intros wf_encoderD)

lemma wf_twe_serialize_iff:
  assumes "wf_encoder tse" and "wf_encoder be"
  shows "wf_json (twe_serialize tse be we x) \<longleftrightarrow>
     wf_json (JObject (we (time_window_properties x)))
     \<and> ''Records'' \<notin> set (keys_of (we (time_window_properties x)))"
  unfolding twe_serialize_def by (auto simp: assms wf_intros wf_encoderD)

lemma wf_twr_serialize_iff:
  "wf_json (twr_serialize pe x) \<longleftrightarrow> wf_json (JObject (pe (time_window_event_response_properties x)))"
  by (simp add: twr_serialize_def)


section \<open>Properties\<close>

text \<open>
  C23 (the writers emit trees with unique keys). When the writers of the external types
  emit trees with unique keys, so do the writers of the rotation event, of the Auto
  Scaling event and of the Kinesis event, at every depth. The writer of the time-window
  event, which flattens two structs into one object, emits such a tree exactly when the
  window properties are written with unique keys and without an entry \<^verbatim>\<open>Records\<close>.
\<close>
theorem writers_well_formed:
  assumes "wf_encoder te" and "wf_encoder de" and "wf_encoder tse" and "wf_encoder be"
  shows "wf_json (srm_serialize x) \<and> wf_json (ase_serialize te de y)
    \<and> wf_json (ke_serialize tse be z)
    \<and> (wf_json (twe_serialize tse be we w) \<longleftrightarrow>
         wf_json (JObject (we (time_window_properties w)))
         \<and> ''Records'' \<notin> set (keys_of (we (time_window_properties w))))"
  using wf_twe_serialize_iff [OF assms(3,4), of we w]
  by (simp add: assms wf_intros wf_encoderD)

theorem writers_well_formed_witness:
  "wf_json (ase_serialize ser_string (ser_vec ser_string)
      \<lparr>version = None, id' = None, detail_type = None, source = None, account_id = None,
       time = ''2015-11-11T21:31:47Z'', region = None, resources = [],
       detail = fmupd ''a'' [''x''] fmempty\<rparr>)
   \<and> \<not> wf_json (twe_serialize ser_string ser_string (\<lambda>w. [(''Records'', JNull)])
      \<lparr>kinesis_event = \<lparr>records = []\<rparr>, time_window_properties = ()\<rparr>)"
  using writers_well_formed [OF wf_ser_string wf_ser_vec [OF wf_ser_string] wf_ser_string
      wf_ser_string, of _ _ _ "\<lambda>w. [(''Records'', JNull)]"
      "\<lparr>kinesis_event = \<lparr>records = []\<rparr>, time_window_properties = ()\<rparr>"]
  by simp

end
